(* ===== verification/Signage_Prelude.thy ===== *)
theory Signage_Prelude
  imports Main "HOL-Library.Multiset"
begin

text \<open>
  Shared vocabulary of the signage development: the types that name identifiers and
  instants, the lemma collections the component theories feed, the model of
  JavaScript's \<open>Array.prototype.sort\<close> with a comparator, the abstract specification
  of a stable sort by key, and small lemmas on \<open>find\<close> and on in-place list updates
  that every table operation of the store uses.
\<close>

section \<open>Names of the model's types\<close>

text \<open>
  Every primary key of the schema is an opaque string (Prisma's \<open>String @id\<close>), and
  every \<open>DateTime\<close> column and every \<open>new Date()\<close> of the code is a JavaScript time
  value: milliseconds since the epoch, an integer.
\<close>

type_synonym ident = string
type_synonym timestamp = int

named_theorems table_simps "get/put laws of the database tables"
named_theorems route_defs "definitions of the HTTP route handlers"

section \<open>JavaScript's comparator sort\<close>

text \<open>
  \<open>xs.sort(cmp)\<close> sorts so that \<open>a\<close> precedes \<open>b\<close> when \<open>cmp(a, b) < 0\<close>, and
  since ES2019 the sort is stable: elements that compare equal keep their relative
  order. For a comparator that is consistent (derived from a key), a stable sort has
  exactly one possible result, which an insertion sort computes: each element, from
  the last to the first, is inserted in front of the first element it does not
  compare greater than.
\<close>

fun js_insert :: "('a \<Rightarrow> 'a \<Rightarrow> int) \<Rightarrow> 'a \<Rightarrow> 'a list \<Rightarrow> 'a list" where
  "js_insert cmp x [] = [x]"
| "js_insert cmp x (y # ys) = (if cmp x y \<le> 0 then x # y # ys else y # js_insert cmp x ys)"

definition js_sort :: "('a \<Rightarrow> 'a \<Rightarrow> int) \<Rightarrow> 'a list \<Rightarrow> 'a list" where
  "js_sort cmp xs = foldr (js_insert cmp) xs []"

definition update_where :: "('a \<Rightarrow> bool) \<Rightarrow> ('a \<Rightarrow> 'a) \<Rightarrow> 'a list \<Rightarrow> 'a list" where
  "update_where P g xs = map (\<lambda>x. if P x then g x else x) xs"

text \<open>\<open>position xs x\<close>: the index of the first occurrence of \<open>x\<close> in \<open>xs\<close>.\<close>

fun position :: "'a list \<Rightarrow> 'a \<Rightarrow> nat" where
  "position [] x = 0"
| "position (y # ys) x = (if x = y then 0 else Suc (position ys x))"

lemma js_sort_Nil [simp]: "js_sort cmp [] = []"
  by (simp add: js_sort_def)

lemma js_sort_Cons [simp]: "js_sort cmp (x # xs) = js_insert cmp x (js_sort cmp xs)"
  by (simp add: js_sort_def)

text \<open>
  The abstract contract of a stable sort by a key \<open>f\<close>: the result is a permutation
  of the input, ordered by \<open>f\<close>, and the elements of each key keep their input order.
\<close>

definition stable_sorted_by :: "('a \<Rightarrow> 'k::linorder) \<Rightarrow> 'a list \<Rightarrow> 'a list \<Rightarrow> bool" where
  "stable_sorted_by f xs ys \<longleftrightarrow>
     mset ys = mset xs \<and> sorted (map f ys) \<and>
     (\<forall>y \<in> set ys. filter (\<lambda>z. f y = f z) ys = filter (\<lambda>z. f y = f z) xs)"

lemma sort_key_stable_sorted_by: "stable_sorted_by f xs (sort_key f xs)"
proof -
  have "filter (\<lambda>z. f y = f z) (sort_key f xs) = filter (\<lambda>z. f y = f z) xs" for y
    using sort_key_stable [of f "f y" xs] by (simp add: eq_commute)
  then show ?thesis by (simp add: stable_sorted_by_def)
qed

lemma stable_sorted_by_unique: "stable_sorted_by f xs ys \<Longrightarrow> ys = sort_key f xs"
  unfolding stable_sorted_by_def by (metis properties_for_sort_key)

lemma js_insert_key_desc:
  "js_insert (\<lambda>a b. f b - f a) x xs = insort_key (\<lambda>a. - f a) x xs"
  by (induction xs) auto

lemma js_sort_key_desc:
  "js_sort (\<lambda>a b. f b - f a) xs = sort_key (\<lambda>a. - f a) xs"
  by (induction xs) (simp_all add: js_insert_key_desc)

text \<open>
  Sorting a list whose last element has the greatest key keeps it last; a list of
  distinct elements sorted by their positions in another list of the same elements is
  that list.
\<close>

lemma insort_key_snoc_max: "f y \<le> f x \<Longrightarrow> insort_key f y (zs @ [x]) = insort_key f y zs @ [x]"
  by (induction zs) auto

lemma sort_key_snoc_max:
  "(\<forall>y \<in> set xs. f y \<le> f x) \<Longrightarrow> sort_key f (xs @ [x]) = sort_key f xs @ [x]"
  by (induction xs) (simp_all add: insort_key_snoc_max)

lemma map_position_distinct:
  "distinct xs \<Longrightarrow> map (position xs) xs = [0..<length xs]"
proof (induction xs)
  case Nil
  then show ?case by simp
next
  case (Cons y ys)
  have "map (position (y # ys)) ys = map Suc (map (position ys) ys)"
    unfolding map_map using Cons.prems by (intro map_cong) auto
  also have "\<dots> = [1..<Suc (length ys)]"
    using Cons by (simp add: map_Suc_upt)
  finally have tail: "map (position (y # ys)) ys = [1..<Suc (length ys)]" .
  have head: "position (y # ys) y = 0" by simp
  show ?case using tail head by (simp add: upt_conv_Cons del: upt_Suc position.simps)
qed

lemma inj_on_position: "distinct xs \<Longrightarrow> inj_on (position xs) (set xs)"
proof -
  assume "distinct xs"
  then have "distinct (map (position xs) xs)" by (simp add: map_position_distinct)
  then show ?thesis by (simp add: distinct_map)
qed

lemma sorted_by_position_unique:
  assumes "distinct ids" and "mset zs = mset ids" and "sorted (map (position ids) zs)"
  shows "zs = ids"
proof -
  have set_eq: "set zs = set ids" using assms(2) by (metis set_mset_mset)
  have "sort_key (position ids) zs = ids"
    by (rule sort_key_inj_key_eq)
       (use assms set_eq in \<open>simp_all add: inj_on_position map_position_distinct\<close>)
  moreover have "sort_key (position ids) zs = zs"
    by (rule sort_key_inj_key_eq) (use assms set_eq in \<open>simp_all add: inj_on_position\<close>)
  ultimately show ?thesis by simp
qed

section \<open>First match and in-place updates\<close>

text \<open>
  Prisma's \<open>findFirst\<close> and \<open>findUnique\<close> return the first row of the table that
  matches, in the model \<open>find\<close>; an \<open>update\<close> rewrites the rows that match in place.
\<close>


lemma find_append_None:
  "find P xs = None \<Longrightarrow> find P (xs @ ys) = find P ys"
  by (induction xs) (auto split: if_splits)

lemma find_SomeD [dest]: "find P xs = Some x \<Longrightarrow> x \<in> set xs \<and> P x"
  by (induction xs) (auto split: if_splits)

lemma find_in_set_Some:
  "x \<in> set xs \<Longrightarrow> P x \<Longrightarrow> \<exists>y. find P xs = Some y"
  by (induction xs) auto

lemma find_cong_set:
  "(\<And>x. x \<in> set xs \<Longrightarrow> P x = Q x) \<Longrightarrow> find P xs = find Q xs"
  by (induction xs) auto

lemma length_update_where [simp]: "length (update_where P g xs) = length xs"
  by (simp add: update_where_def)

lemma update_where_Nil [simp]: "update_where P g [] = []"
  by (simp add: update_where_def)

lemma update_where_Cons [simp]:
  "update_where P g (x # xs) = (if P x then g x else x) # update_where P g xs"
  by (simp add: update_where_def)

lemma update_where_append [simp]:
  "update_where P g (xs @ ys) = update_where P g xs @ update_where P g ys"
  by (simp add: update_where_def)

lemma update_where_id:
  "(\<And>x. x \<in> set xs \<Longrightarrow> P x \<Longrightarrow> g x = x) \<Longrightarrow> update_where P g xs = xs"
  by (induction xs) auto

lemma update_where_update_where:
  "(\<And>x. P x \<Longrightarrow> P (f x)) \<Longrightarrow>
   update_where P g (update_where P f xs) = update_where P (\<lambda>x. g (f x)) xs"
  by (induction xs) auto

lemma map_update_where_frame:
  "(\<And>x. P x \<Longrightarrow> h (g x) = h x) \<Longrightarrow> map h (update_where P g xs) = map h xs"
  by (induction xs) auto

lemma filter_update_where_other:
  "(\<And>x. P x \<Longrightarrow> \<not> Q x) \<Longrightarrow> (\<And>x. P x \<Longrightarrow> \<not> Q (g x)) \<Longrightarrow>
   filter Q (update_where P g xs) = filter Q xs"
  by (induction xs) auto

lemma find_update_where:
  "(\<And>x. P x \<Longrightarrow> P (g x)) \<Longrightarrow> find P (update_where P g xs) = map_option g (find P xs)"
  by (induction xs) auto

lemma find_append_case:
  "find P (xs @ ys) = (case find P xs of None \<Rightarrow> find P ys | Some x \<Rightarrow> Some x)"
  by (induction xs) auto

lemma find_update_where_key:
  "(\<And>x. f (g x) = f x) \<Longrightarrow>
   find (\<lambda>x. f x = k) (update_where (\<lambda>x. f x = j) g xs) =
     (if k = j then map_option g (find (\<lambda>x. f x = k) xs) else find (\<lambda>x. f x = k) xs)"
  by (induction xs) auto

lemma find_filter_key:
  "find (\<lambda>x. f x = k) (filter (\<lambda>x. f x \<noteq> j) xs) = (if k = j then None else find (\<lambda>x. f x = k) xs)"
  by (induction xs) auto

end
