(* ===== verification/Router.thy ===== *)
theory Router
  imports Signage_Prelude "HOL-Library.List_Lexorder"
begin

text \<open>
  How an HTTP request reaches a handler, in both servers, and which requests the
  client sends. A path is the list of its segments (\<open>/api/displays/7\<close> is
  \<^term>\<open>[''api'', ''displays'', ''7'']\<close>); a route pattern is a list of literal
  segments and parameters (\<open>:id\<close>, \<open>[id]\<close>), a parameter matching one non-empty
  segment. \<open>endpoint\<close> names the handler a request reaches, with its path
  parameters.

  Express (\<open>src/server/src/index.ts\<close>, \<open>routes/index.ts\<close> and the routers of
  \<open>routes/*.ts\<close>) tries the routes in the order of their registration and runs the
  first one whose method and pattern match; none gives 404. Next.js
  (\<open>src/app/api/**/route.ts\<close>) takes the route file whose pattern matches, a
  literal segment taking precedence over a parameter, and answers 405 when that
  file does not export the method. The client (\<open>src/src/hooks/useSignageData.ts\<close>
  through \<open>apiRequest\<close> of \<open>src/src/lib/api.ts\<close>) prefixes every endpoint with
  \<open>/api\<close>.
\<close>

section \<open>Paths and patterns\<close>

datatype http_method = GET | POST | PATCH | DELETE

datatype seg = Lit string | Var

type_synonym path = "string list"

fun match_path :: "seg list \<Rightarrow> path \<Rightarrow> string list option" where
  "match_path [] [] = Some []"
| "match_path (Lit s # ps) (x # xs) = (if s = x then match_path ps xs else None)"
| "match_path (Var # ps) (x # xs) = (if x = [] then None else map_option (Cons x) (match_path ps xs))"
| "match_path _ _ = None"

datatype endpoint =
    AuthLogin
  | DisplaysList | DisplaysCreate | DisplaysUpdate ident | DisplaysRemove ident
  | ContentList | ContentCreate | ContentUpdate ident | ContentRemove ident
  | PlaylistsList | PlaylistsCreate | PlaylistsUpdate ident | PlaylistsRemove ident
  | PlaylistItemsList ident | PlaylistItemsAdd ident | PlaylistItemRemove ident | PlaylistItemsReorder
  | AssignmentsList | AssignmentsCreate | AssignmentsUpdate ident | AssignmentsRemove ident
  | AssignmentActive ident
  | AlertsList | AlertsCreate | AlertsUpdate ident | AlertsRemove ident
  | AlertActivate ident | AlertDeactivate ident
  | AuditList | AuditCreate
  | PlayerContentEp | PlayerHeartbeatEp
  | Health

type_synonym route = "http_method \<times> seg list \<times> (string list \<Rightarrow> endpoint)"

section \<open>The Express routers\<close>

text \<open>
  One definition per router file, its routes in registration order. A handler that
  reads \<open>req.params.id\<close> gets the first captured segment.
\<close>

definition crud_router ::
  "endpoint \<Rightarrow> endpoint \<Rightarrow> (ident \<Rightarrow> endpoint) \<Rightarrow> (ident \<Rightarrow> endpoint) \<Rightarrow> route list" where
  "crud_router lst crt upd rmv =
     [(GET, [], \<lambda>_. lst), (POST, [], \<lambda>_. crt),
      (PATCH, [Var], \<lambda>ps. upd (hd ps)), (DELETE, [Var], \<lambda>ps. rmv (hd ps))]"

definition auth_router :: "route list" where
  "auth_router = [(POST, [Lit ''login''], \<lambda>_. AuthLogin)]"

definition displays_router :: "route list" where
  "displays_router = crud_router DisplaysList DisplaysCreate DisplaysUpdate DisplaysRemove"

definition content_router :: "route list" where
  "content_router = crud_router ContentList ContentCreate ContentUpdate ContentRemove"

definition playlists_router :: "route list" where
  "playlists_router =
     crud_router PlaylistsList PlaylistsCreate PlaylistsUpdate PlaylistsRemove @
     [(GET, [Var, Lit ''items''], \<lambda>ps. PlaylistItemsList (hd ps)),
      (POST, [Var, Lit ''items''], \<lambda>ps. PlaylistItemsAdd (hd ps)),
      (DELETE, [Lit ''items'', Var], \<lambda>ps. PlaylistItemRemove (hd ps)),
      (POST, [Lit ''items'', Lit ''reorder''], \<lambda>_. PlaylistItemsReorder)]"

definition assignments_router :: "route list" where
  "assignments_router =
     crud_router AssignmentsList AssignmentsCreate AssignmentsUpdate AssignmentsRemove"

definition alerts_router :: "route list" where
  "alerts_router = crud_router AlertsList AlertsCreate AlertsUpdate AlertsRemove"

definition audit_router :: "route list" where
  "audit_router = [(GET, [], \<lambda>_. AuditList), (POST, [], \<lambda>_. AuditCreate)]"

definition player_router :: "route list" where
  "player_router = [(POST, [Lit ''content''], \<lambda>_. PlayerContentEp),
                    (POST, [Lit ''heartbeat''], \<lambda>_. PlayerHeartbeatEp)]"

text \<open>\<open>routes/index.ts\<close>: the mounts, in order.\<close>

definition api_mounts :: "(string \<times> route list) list" where
  "api_mounts =
     [(''auth'', auth_router), (''displays'', displays_router), (''content_items'', content_router),
      (''playlists'', playlists_router), (''display_assignments'', assignments_router),
      (''alerts'', alerts_router), (''audit_logs'', audit_router), (''player'', player_router)]"

text \<open>
  \<open>index.ts\<close>: \<open>app.use('/api', routes)\<close>, then \<open>app.get('/api/health')\<close>. A
  mount prefixes its router's patterns.
\<close>

definition mount :: "seg list \<Rightarrow> route list \<Rightarrow> route list" where
  "mount pre rs = map (\<lambda>(m, ps, f). (m, pre @ ps, f)) rs"

definition express_routes :: "route list" where
  "express_routes =
     concat (map (\<lambda>(pre, rs). mount [Lit ''api'', Lit pre] rs) api_mounts) @
     [(GET, [Lit ''api'', Lit ''health''], \<lambda>_. Health)]"

definition express_dispatch :: "http_method \<Rightarrow> path \<Rightarrow> endpoint option" where
  "express_dispatch m p =
     (case find (\<lambda>(m', ps, f). m' = m \<and> match_path ps p \<noteq> None) express_routes of
        None \<Rightarrow> None
      | Some (m', ps, f) \<Rightarrow> map_option f (match_path ps p))"

section \<open>The Next.js route files\<close>

text \<open>
  Each file \<open>src/app/api/P/route.ts\<close> serves the pattern \<open>api/P\<close> (a folder
  \<open>[id]\<close> is a parameter) with the functions it exports.
\<close>

type_synonym route_file = "seg list \<times> (http_method \<times> (string list \<Rightarrow> endpoint)) list"

definition next_route_files :: "route_file list" where
  "next_route_files =
     [([Lit ''api'', Lit ''alerts''], [(GET, \<lambda>_. AlertsList), (POST, \<lambda>_. AlertsCreate)]),
      ([Lit ''api'', Lit ''alerts'', Var],
         [(PATCH, \<lambda>ps. AlertsUpdate (hd ps)), (DELETE, \<lambda>ps. AlertsRemove (hd ps))]),
      ([Lit ''api'', Lit ''alerts'', Var, Lit ''activate''], [(POST, \<lambda>ps. AlertActivate (hd ps))]),
      ([Lit ''api'', Lit ''alerts'', Var, Lit ''deactivate''], [(POST, \<lambda>ps. AlertDeactivate (hd ps))]),
      ([Lit ''api'', Lit ''assignments''], [(GET, \<lambda>_. AssignmentsList), (POST, \<lambda>_. AssignmentsCreate)]),
      ([Lit ''api'', Lit ''assignments'', Var],
         [(PATCH, \<lambda>ps. AssignmentsUpdate (hd ps)), (DELETE, \<lambda>ps. AssignmentsRemove (hd ps))]),
      ([Lit ''api'', Lit ''assignments'', Var, Lit ''active''], [(PATCH, \<lambda>ps. AssignmentActive (hd ps))]),
      ([Lit ''api'', Lit ''auth'', Lit ''login''], [(POST, \<lambda>_. AuthLogin)]),
      ([Lit ''api'', Lit ''content''], [(GET, \<lambda>_. ContentList), (POST, \<lambda>_. ContentCreate)]),
      ([Lit ''api'', Lit ''content'', Var],
         [(PATCH, \<lambda>ps. ContentUpdate (hd ps)), (DELETE, \<lambda>ps. ContentRemove (hd ps))]),
      ([Lit ''api'', Lit ''displays''], [(GET, \<lambda>_. DisplaysList), (POST, \<lambda>_. DisplaysCreate)]),
      ([Lit ''api'', Lit ''displays'', Var],
         [(PATCH, \<lambda>ps. DisplaysUpdate (hd ps)), (DELETE, \<lambda>ps. DisplaysRemove (hd ps))]),
      ([Lit ''api'', Lit ''player'', Lit ''content''], [(POST, \<lambda>_. PlayerContentEp)]),
      ([Lit ''api'', Lit ''playlists''], [(GET, \<lambda>_. PlaylistsList), (POST, \<lambda>_. PlaylistsCreate)]),
      ([Lit ''api'', Lit ''playlists'', Var],
         [(PATCH, \<lambda>ps. PlaylistsUpdate (hd ps)), (DELETE, \<lambda>ps. PlaylistsRemove (hd ps))]),
      ([Lit ''api'', Lit ''playlists'', Var, Lit ''items''],
         [(GET, \<lambda>ps. PlaylistItemsList (hd ps)), (POST, \<lambda>ps. PlaylistItemsAdd (hd ps))]),
      ([Lit ''api'', Lit ''playlists'', Lit ''items'', Lit ''reorder''], [(POST, \<lambda>_. PlaylistItemsReorder)]),
      ([Lit ''api'', Lit ''playlists'', Lit ''items'', Var], [(DELETE, \<lambda>ps. PlaylistItemRemove (hd ps))])]"

datatype next_result = NextNotFound | NextMethodNotAllowed | NextRoute endpoint

text \<open>A literal segment ranks before a parameter; the least rank list wins.\<close>

definition seg_rank :: "seg \<Rightarrow> nat" where
  "seg_rank s = (case s of Lit _ \<Rightarrow> 0 | Var \<Rightarrow> 1)"

definition next_dispatch :: "http_method \<Rightarrow> path \<Rightarrow> next_result" where
  "next_dispatch m p =
     (case sort_key (\<lambda>(ps, hs). map seg_rank ps)
             (filter (\<lambda>(ps, hs). match_path ps p \<noteq> None) next_route_files) of
        [] \<Rightarrow> NextNotFound
      | (ps, hs) # _ \<Rightarrow>
          (case (find (\<lambda>(m', f). m' = m) hs, match_path ps p) of
             (Some (_, f), Some args) \<Rightarrow> NextRoute (f args)
           | _ \<Rightarrow> NextMethodNotAllowed))"

section \<open>The client's requests\<close>

text \<open>
  \<open>apiRequest(endpoint)\<close> fetches \<open>'/api' + endpoint\<close>; the server splits the
  path at each \<open>/\<close>.
\<close>

fun split_slash :: "string \<Rightarrow> string list" where
  "split_slash [] = [[]]"
| "split_slash (c # cs) =
     (if c = CHR ''/'' then [] # split_slash cs
      else (case split_slash cs of w # ws \<Rightarrow> (c # w) # ws | [] \<Rightarrow> [[c]]))"

definition request_path :: "string \<Rightarrow> path" where
  "request_path endpoint = tl (split_slash (''/api'' @ endpoint))"

text \<open>The operations of each hook of \<open>useSignageData.ts\<close> that send a request.\<close>

datatype displays_op = FetchDisplays | CreateDisplay | UpdateDisplay ident | DeleteDisplay ident
  | RotateSecretKey ident

datatype content_op = FetchContent | CreateContent | UpdateContent ident | DeleteContent ident
  | PublishContent ident | ArchiveContent ident

datatype playlists_op = FetchPlaylists | CreatePlaylist | UpdatePlaylist ident | DeletePlaylist ident

datatype playlist_items_op = FetchItems | AddItem | RemoveItem ident | ReorderItems

datatype assignments_op = FetchAssignments | CreateAssignment | UpdateAssignment ident
  | DeleteAssignment ident

datatype alerts_op = FetchAlerts | CreateAlert | UpdateAlert ident | DeleteAlert ident
  | ActivateAlert ident | DeactivateAlert ident

datatype player_op = FetchPlayerData | SendHeartbeat

datatype audit_op = FetchAuditLogs | LogAction

definition displays_hook_request :: "displays_op \<Rightarrow> http_method \<times> string" where
  "displays_hook_request op =
     (case op of FetchDisplays \<Rightarrow> (GET, ''/displays'') | CreateDisplay \<Rightarrow> (POST, ''/displays'')
      | UpdateDisplay x \<Rightarrow> (PATCH, ''/displays/'' @ x) | DeleteDisplay x \<Rightarrow> (DELETE, ''/displays/'' @ x)
      | RotateSecretKey x \<Rightarrow> (PATCH, ''/displays/'' @ x))"

definition content_hook_request :: "content_op \<Rightarrow> http_method \<times> string" where
  "content_hook_request op =
     (case op of FetchContent \<Rightarrow> (GET, ''/content_items'') | CreateContent \<Rightarrow> (POST, ''/content_items'')
      | UpdateContent x \<Rightarrow> (PATCH, ''/content_items/'' @ x)
      | DeleteContent x \<Rightarrow> (DELETE, ''/content_items/'' @ x)
      | PublishContent x \<Rightarrow> (PATCH, ''/content_items/'' @ x)
      | ArchiveContent x \<Rightarrow> (PATCH, ''/content_items/'' @ x))"

definition playlists_hook_request :: "playlists_op \<Rightarrow> http_method \<times> string" where
  "playlists_hook_request op =
     (case op of FetchPlaylists \<Rightarrow> (GET, ''/playlists'') | CreatePlaylist \<Rightarrow> (POST, ''/playlists'')
      | UpdatePlaylist x \<Rightarrow> (PATCH, ''/playlists/'' @ x) | DeletePlaylist x \<Rightarrow> (DELETE, ''/playlists/'' @ x))"

text \<open>
  \<open>usePlaylistItems(playlistId?)\<close>: \<open>fetchItems\<close> sends nothing without a playlist;
  \<open>addItem\<close> interpolates it anyway, an absent one as the string \<open>undefined\<close>.
\<close>

definition js_string_of :: "ident option \<Rightarrow> string" where
  "js_string_of x = (case x of Some s \<Rightarrow> s | None \<Rightarrow> ''undefined'')"

definition playlist_items_hook_request ::
  "ident option \<Rightarrow> playlist_items_op \<Rightarrow> (http_method \<times> string) option" where
  "playlist_items_hook_request pid op =
     (case op of
        FetchItems \<Rightarrow> (case pid of None \<Rightarrow> None | Some p \<Rightarrow> Some (GET, ''/playlists/'' @ p @ ''/items''))
      | AddItem \<Rightarrow> Some (POST, ''/playlists/'' @ js_string_of pid @ ''/items'')
      | RemoveItem x \<Rightarrow> Some (DELETE, ''/playlists/items/'' @ x)
      | ReorderItems \<Rightarrow> Some (POST, ''/playlists/items/reorder''))"

definition assignments_hook_request :: "assignments_op \<Rightarrow> http_method \<times> string" where
  "assignments_hook_request op =
     (case op of FetchAssignments \<Rightarrow> (GET, ''/display_assignments'')
      | CreateAssignment \<Rightarrow> (POST, ''/display_assignments'')
      | UpdateAssignment x \<Rightarrow> (PATCH, ''/display_assignments/'' @ x)
      | DeleteAssignment x \<Rightarrow> (DELETE, ''/display_assignments/'' @ x))"

definition alerts_hook_request :: "alerts_op \<Rightarrow> http_method \<times> string" where
  "alerts_hook_request op =
     (case op of FetchAlerts \<Rightarrow> (GET, ''/alerts'') | CreateAlert \<Rightarrow> (POST, ''/alerts'')
      | UpdateAlert x \<Rightarrow> (PATCH, ''/alerts/'' @ x) | DeleteAlert x \<Rightarrow> (DELETE, ''/alerts/'' @ x)
      | ActivateAlert x \<Rightarrow> (PATCH, ''/alerts/'' @ x) | DeactivateAlert x \<Rightarrow> (PATCH, ''/alerts/'' @ x))"

definition player_hook_request :: "player_op \<Rightarrow> http_method \<times> string" where
  "player_hook_request op =
     (case op of FetchPlayerData \<Rightarrow> (POST, ''/player/content'')
      | SendHeartbeat \<Rightarrow> (POST, ''/player/heartbeat''))"

definition audit_hook_request :: "audit_op \<Rightarrow> http_method \<times> string" where
  "audit_hook_request op =
     (case op of FetchAuditLogs \<Rightarrow> (GET, ''/audit_logs'') | LogAction \<Rightarrow> (POST, ''/audit_logs''))"

datatype client_op =
    ClientDisplays displays_op | ClientContent content_op | ClientPlaylists playlists_op
  | ClientPlaylistItems "ident option" playlist_items_op | ClientAssignments assignments_op
  | ClientAlerts alerts_op | ClientPlayer player_op | ClientAudit audit_op

definition client_request :: "client_op \<Rightarrow> (http_method \<times> string) option" where
  "client_request op =
     (case op of ClientDisplays o' \<Rightarrow> Some (displays_hook_request o')
      | ClientContent o' \<Rightarrow> Some (content_hook_request o')
      | ClientPlaylists o' \<Rightarrow> Some (playlists_hook_request o')
      | ClientPlaylistItems pid o' \<Rightarrow> playlist_items_hook_request pid o'
      | ClientAssignments o' \<Rightarrow> Some (assignments_hook_request o')
      | ClientAlerts o' \<Rightarrow> Some (alerts_hook_request o')
      | ClientPlayer o' \<Rightarrow> Some (player_hook_request o')
      | ClientAudit o' \<Rightarrow> Some (audit_hook_request o'))"

text \<open>The handler each operation means to reach.\<close>

definition intended_endpoint :: "client_op \<Rightarrow> endpoint" where
  "intended_endpoint op =
     (case op of
        ClientDisplays o' \<Rightarrow> (case o' of FetchDisplays \<Rightarrow> DisplaysList | CreateDisplay \<Rightarrow> DisplaysCreate
          | UpdateDisplay x \<Rightarrow> DisplaysUpdate x | DeleteDisplay x \<Rightarrow> DisplaysRemove x
          | RotateSecretKey x \<Rightarrow> DisplaysUpdate x)
      | ClientContent o' \<Rightarrow> (case o' of FetchContent \<Rightarrow> ContentList | CreateContent \<Rightarrow> ContentCreate
          | UpdateContent x \<Rightarrow> ContentUpdate x | DeleteContent x \<Rightarrow> ContentRemove x
          | PublishContent x \<Rightarrow> ContentUpdate x | ArchiveContent x \<Rightarrow> ContentUpdate x)
      | ClientPlaylists o' \<Rightarrow> (case o' of FetchPlaylists \<Rightarrow> PlaylistsList | CreatePlaylist \<Rightarrow> PlaylistsCreate
          | UpdatePlaylist x \<Rightarrow> PlaylistsUpdate x | DeletePlaylist x \<Rightarrow> PlaylistsRemove x)
      | ClientPlaylistItems pid o' \<Rightarrow> (case o' of FetchItems \<Rightarrow> PlaylistItemsList (js_string_of pid)
          | AddItem \<Rightarrow> PlaylistItemsAdd (js_string_of pid) | RemoveItem x \<Rightarrow> PlaylistItemRemove x
          | ReorderItems \<Rightarrow> PlaylistItemsReorder)
      | ClientAssignments o' \<Rightarrow> (case o' of FetchAssignments \<Rightarrow> AssignmentsList
          | CreateAssignment \<Rightarrow> AssignmentsCreate | UpdateAssignment x \<Rightarrow> AssignmentsUpdate x
          | DeleteAssignment x \<Rightarrow> AssignmentsRemove x)
      | ClientAlerts o' \<Rightarrow> (case o' of FetchAlerts \<Rightarrow> AlertsList | CreateAlert \<Rightarrow> AlertsCreate
          | UpdateAlert x \<Rightarrow> AlertsUpdate x | DeleteAlert x \<Rightarrow> AlertsRemove x
          | ActivateAlert x \<Rightarrow> AlertsUpdate x | DeactivateAlert x \<Rightarrow> AlertsUpdate x)
      | ClientPlayer o' \<Rightarrow> (case o' of FetchPlayerData \<Rightarrow> PlayerContentEp | SendHeartbeat \<Rightarrow> PlayerHeartbeatEp)
      | ClientAudit o' \<Rightarrow> (case o' of FetchAuditLogs \<Rightarrow> AuditList | LogAction \<Rightarrow> AuditCreate))"

definition seg_ok :: "string \<Rightarrow> bool" where
  "seg_ok x \<longleftrightarrow> x \<noteq> [] \<and> CHR ''/'' \<notin> set x"

text \<open>The identifiers an operation puts into its path.\<close>

definition op_ids :: "client_op \<Rightarrow> ident list" where
  "op_ids op =
     (case op of
        ClientDisplays o' \<Rightarrow> (case o' of UpdateDisplay x \<Rightarrow> [x] | DeleteDisplay x \<Rightarrow> [x]
          | RotateSecretKey x \<Rightarrow> [x] | _ \<Rightarrow> [])
      | ClientContent o' \<Rightarrow> (case o' of UpdateContent x \<Rightarrow> [x] | DeleteContent x \<Rightarrow> [x]
          | PublishContent x \<Rightarrow> [x] | ArchiveContent x \<Rightarrow> [x] | _ \<Rightarrow> [])
      | ClientPlaylists o' \<Rightarrow> (case o' of UpdatePlaylist x \<Rightarrow> [x] | DeletePlaylist x \<Rightarrow> [x] | _ \<Rightarrow> [])
      | ClientPlaylistItems pid o' \<Rightarrow> js_string_of pid # (case o' of RemoveItem x \<Rightarrow> [x] | _ \<Rightarrow> [])
      | ClientAssignments o' \<Rightarrow> (case o' of UpdateAssignment x \<Rightarrow> [x] | DeleteAssignment x \<Rightarrow> [x]
          | _ \<Rightarrow> [])
      | ClientAlerts o' \<Rightarrow> (case o' of UpdateAlert x \<Rightarrow> [x] | DeleteAlert x \<Rightarrow> [x]
          | ActivateAlert x \<Rightarrow> [x] | DeactivateAlert x \<Rightarrow> [x] | _ \<Rightarrow> [])
      | ClientPlayer _ \<Rightarrow> []
      | ClientAudit _ \<Rightarrow> [])"

section \<open>Lemmas\<close>

lemma split_slash_no_slash: "CHR ''/'' \<notin> set x \<Longrightarrow> split_slash x = [x]"
  by (induction x) auto

lemma match_path_Var_ok [simp]: "seg_ok x \<Longrightarrow> match_path (Var # ps) (x # xs) = map_option (Cons x) (match_path ps xs)"
  by (simp add: seg_ok_def)

lemma seg_ok_nonempty [simp]: "seg_ok x \<Longrightarrow> x \<noteq> []"
  by (simp add: seg_ok_def)

lemma seg_ok_undefined [simp]: "seg_ok ''undefined''"
  by (simp add: seg_ok_def)

lemma split_slash_seg_ok [simp]: "seg_ok x \<Longrightarrow> split_slash x = [x]"
  by (simp add: seg_ok_def split_slash_no_slash)

lemma split_slash_append_slash:
  "CHR ''/'' \<notin> set x \<Longrightarrow> split_slash (x @ CHR ''/'' # r) = x # split_slash r"
  by (induction x) auto

lemma split_slash_seg_ok_slash [simp]:
  "seg_ok x \<Longrightarrow> split_slash (x @ CHR ''/'' # r) = x # split_slash r"
  by (simp add: seg_ok_def split_slash_append_slash)

lemmas route_table_defs = express_routes_def api_mounts_def mount_def crud_router_def auth_router_def
  displays_router_def content_router_def playlists_router_def assignments_router_def
  alerts_router_def audit_router_def player_router_def

lemmas hook_defs = client_request_def displays_hook_request_def content_hook_request_def
  playlists_hook_request_def playlist_items_hook_request_def assignments_hook_request_def
  alerts_hook_request_def player_hook_request_def audit_hook_request_def

lemma express_routes_eq:
  "express_routes =
     [(POST, [Lit ''api'', Lit ''auth'', Lit ''login''], \<lambda>_. AuthLogin),
      (GET, [Lit ''api'', Lit ''displays''], \<lambda>_. DisplaysList), (POST, [Lit ''api'', Lit ''displays''], \<lambda>_. DisplaysCreate),
      (PATCH, [Lit ''api'', Lit ''displays'', Var], \<lambda>ps. DisplaysUpdate (hd ps)),
      (DELETE, [Lit ''api'', Lit ''displays'', Var], \<lambda>ps. DisplaysRemove (hd ps)),
      (GET, [Lit ''api'', Lit ''content_items''], \<lambda>_. ContentList), (POST, [Lit ''api'', Lit ''content_items''], \<lambda>_. ContentCreate),
      (PATCH, [Lit ''api'', Lit ''content_items'', Var], \<lambda>ps. ContentUpdate (hd ps)),
      (DELETE, [Lit ''api'', Lit ''content_items'', Var], \<lambda>ps. ContentRemove (hd ps)),
      (GET, [Lit ''api'', Lit ''playlists''], \<lambda>_. PlaylistsList), (POST, [Lit ''api'', Lit ''playlists''], \<lambda>_. PlaylistsCreate),
      (PATCH, [Lit ''api'', Lit ''playlists'', Var], \<lambda>ps. PlaylistsUpdate (hd ps)),
      (DELETE, [Lit ''api'', Lit ''playlists'', Var], \<lambda>ps. PlaylistsRemove (hd ps)),
      (GET, [Lit ''api'', Lit ''playlists'', Var, Lit ''items''], \<lambda>ps. PlaylistItemsList (hd ps)),
      (POST, [Lit ''api'', Lit ''playlists'', Var, Lit ''items''], \<lambda>ps. PlaylistItemsAdd (hd ps)),
      (DELETE, [Lit ''api'', Lit ''playlists'', Lit ''items'', Var], \<lambda>ps. PlaylistItemRemove (hd ps)),
      (POST, [Lit ''api'', Lit ''playlists'', Lit ''items'', Lit ''reorder''], \<lambda>_. PlaylistItemsReorder),
      (GET, [Lit ''api'', Lit ''display_assignments''], \<lambda>_. AssignmentsList),
      (POST, [Lit ''api'', Lit ''display_assignments''], \<lambda>_. AssignmentsCreate),
      (PATCH, [Lit ''api'', Lit ''display_assignments'', Var], \<lambda>ps. AssignmentsUpdate (hd ps)),
      (DELETE, [Lit ''api'', Lit ''display_assignments'', Var], \<lambda>ps. AssignmentsRemove (hd ps)),
      (GET, [Lit ''api'', Lit ''alerts''], \<lambda>_. AlertsList), (POST, [Lit ''api'', Lit ''alerts''], \<lambda>_. AlertsCreate),
      (PATCH, [Lit ''api'', Lit ''alerts'', Var], \<lambda>ps. AlertsUpdate (hd ps)),
      (DELETE, [Lit ''api'', Lit ''alerts'', Var], \<lambda>ps. AlertsRemove (hd ps)),
      (GET, [Lit ''api'', Lit ''audit_logs''], \<lambda>_. AuditList), (POST, [Lit ''api'', Lit ''audit_logs''], \<lambda>_. AuditCreate),
      (POST, [Lit ''api'', Lit ''player'', Lit ''content''], \<lambda>_. PlayerContentEp),
      (POST, [Lit ''api'', Lit ''player'', Lit ''heartbeat''], \<lambda>_. PlayerHeartbeatEp),
      (GET, [Lit ''api'', Lit ''health''], \<lambda>_. Health)]"
  by (simp add: route_table_defs)

lemmas express_eval = op_ids_def intended_endpoint_def request_path_def express_dispatch_def
  express_routes_eq client_request_def

text \<open>
  C27. Under the Express server every request the client's hooks send reaches the
  handler the operation means, for identifiers that are non-empty path segments:
  the route order of \<open>playlists.ts\<close> sends \<open>DELETE /playlists/items/:itemId\<close>
  and \<open>POST /playlists/items/reorder\<close> to the item routes, not to the playlist
  routes registered before them.
\<close>

theorem express_serves_client:
  assumes "\<forall>x \<in> set (op_ids op). seg_ok x"
  shows "case client_request op of None \<Rightarrow> True
         | Some (m, e) \<Rightarrow> express_dispatch m (request_path e) = Some (intended_endpoint op)"
proof (cases op)
  case (ClientPlaylistItems pid o')
  with assms show ?thesis
    by (cases o'; cases pid) (simp_all add: playlist_items_hook_request_def js_string_of_def express_eval)
next
  case (ClientDisplays o')
  with assms show ?thesis by (cases o') (simp_all add: displays_hook_request_def express_eval)
next
  case (ClientContent o')
  with assms show ?thesis by (cases o') (simp_all add: content_hook_request_def express_eval)
next
  case (ClientPlaylists o')
  with assms show ?thesis by (cases o') (simp_all add: playlists_hook_request_def express_eval)
next
  case (ClientAssignments o')
  with assms show ?thesis by (cases o') (simp_all add: assignments_hook_request_def express_eval)
next
  case (ClientAlerts o')
  with assms show ?thesis by (cases o') (simp_all add: alerts_hook_request_def express_eval)
next
  case (ClientPlayer o')
  with assms show ?thesis by (cases o') (simp_all add: player_hook_request_def express_eval)
next
  case (ClientAudit o')
  with assms show ?thesis by (cases o') (simp_all add: audit_hook_request_def express_eval)
qed
lemmas next_eval = op_ids_def intended_endpoint_def request_path_def next_dispatch_def
  next_route_files_def seg_rank_def client_request_def

text \<open>
  C28. Under the Next.js route files the content, assignment and audit-log requests
  and the heartbeat find no route (404): the files serve \<open>/api/content\<close> and
  \<open>/api/assignments\<close> where the client requests \<open>/api/content_items\<close> and
  \<open>/api/display_assignments\<close>, and there is no \<open>audit_logs\<close> or
  \<open>player/heartbeat\<close> file. Every other request reaches its handler, for
  identifiers other than the literal segments \<open>items\<close> and \<open>reorder\<close>.
\<close>

theorem next_serves_client:
  assumes "\<forall>x \<in> set (op_ids op). seg_ok x \<and> ''items'' \<noteq> x \<and> ''reorder'' \<noteq> x"
  shows "case client_request op of None \<Rightarrow> True
         | Some (m, e) \<Rightarrow> next_dispatch m (request_path e) =
             (case op of ClientContent _ \<Rightarrow> NextNotFound | ClientAssignments _ \<Rightarrow> NextNotFound
              | ClientAudit _ \<Rightarrow> NextNotFound | ClientPlayer SendHeartbeat \<Rightarrow> NextNotFound
              | _ \<Rightarrow> NextRoute (intended_endpoint op))"
proof (cases op)
  case (ClientPlaylistItems pid o')
  with assms show ?thesis
    by (cases o'; cases pid) (simp_all add: playlist_items_hook_request_def js_string_of_def next_eval)
next
  case (ClientDisplays o')
  with assms show ?thesis by (cases o') (simp_all add: displays_hook_request_def next_eval)
next
  case (ClientContent o')
  with assms show ?thesis by (cases o') (simp_all add: content_hook_request_def next_eval)
next
  case (ClientPlaylists o')
  with assms show ?thesis by (cases o') (simp_all add: playlists_hook_request_def next_eval)
next
  case (ClientAssignments o')
  with assms show ?thesis by (cases o') (simp_all add: assignments_hook_request_def next_eval)
next
  case (ClientAlerts o')
  with assms show ?thesis by (cases o') (simp_all add: alerts_hook_request_def next_eval)
next
  case (ClientPlayer o')
  with assms show ?thesis by (cases o') (simp_all add: player_hook_request_def next_eval)
next
  case (ClientAudit o')
  with assms show ?thesis by (cases o') (simp_all add: audit_hook_request_def next_eval)
qed
lemma express_serves_client_witness:
  "express_dispatch DELETE (request_path ''/playlists/items/i7'') = Some (PlaylistItemRemove ''i7'')"
  using express_serves_client [of "ClientPlaylistItems (Some ''P'') (RemoveItem ''i7'')"]
  by (simp add: op_ids_def seg_ok_def js_string_of_def client_request_def
      playlist_items_hook_request_def intended_endpoint_def)

lemma next_serves_client_witness:
  "next_dispatch GET (request_path ''/content_items'') = NextNotFound \<and>
   next_dispatch PATCH (request_path ''/alerts/a1'') = NextRoute (AlertsUpdate ''a1'')"
  using next_serves_client [of "ClientContent FetchContent"]
    next_serves_client [of "ClientAlerts (ActivateAlert ''a1'')"]
  by (simp add: op_ids_def seg_ok_def client_request_def content_hook_request_def
      alerts_hook_request_def intended_endpoint_def)

end
