(* ===== verification/Entities.thy ===== *)
theory Entities
  imports Signage_Prelude
begin

text \<open>
  The data model of \<open>src/src/types/index.ts\<close>: one \<^theory_text>\<open>datatype\<close> per string
  union of the file, one \<^theory_text>\<open>record\<close> per interface. Field names carry a short
  prefix of their entity (\<open>disp_\<close>, \<open>ci_\<close>, \<open>pl_\<close>, \<open>pi_\<close>, \<open>da_\<close>,
  \<open>al_\<close>, \<open>usr_\<close>, \<open>log_\<close>), since record fields are global constants; the rest
  of each name is the source's. Optional fields (\<open>field?: T\<close>, and the nullable
  columns the routes write \<open>null\<close> into) are \<open>option\<close>s. The \<open>updated_at\<close>
  columns that the server's PATCH routes write (\<open>updated_at: new Date()\<close>) are part
  of the records though the client-side interfaces omit most of them.
\<close>

datatype user_role = ADMIN | EDITOR | VIEWER

record user =
  usr_id :: ident
  usr_email :: string
  usr_name :: string
  usr_avatar_url :: "string option"
  usr_role :: user_role
  usr_created_at :: timestamp

record display =
  disp_id :: ident
  disp_name :: string
  disp_location :: "string option"
  disp_secret_key :: string
  disp_timezone :: string
  disp_is_active :: bool
  disp_last_seen_at :: "timestamp option"
  disp_theme_color :: string
  disp_logo_url :: "string option"
  disp_created_at :: timestamp
  disp_updated_at :: "timestamp option"

datatype content_type = ANNOUNCEMENT | EVENT | IMAGE | VIDEO | SCHEDULE | WEATHER | HTML_WIDGET

datatype content_status = DRAFT | PUBLISHED | ARCHIVED

record content_item =
  ci_id :: ident
  ci_type :: content_type
  ci_title :: string
  ci_body :: "string option"
  ci_media_url :: "string option"
  ci_duration_seconds :: int
  ci_start_at :: "timestamp option"
  ci_end_at :: "timestamp option"
  ci_priority :: int
  ci_status :: content_status
  ci_created_by :: "ident option"
  ci_created_at :: timestamp
  ci_updated_at :: timestamp

record playlist =
  pl_id :: ident
  pl_name :: string
  pl_description :: "string option"
  pl_created_by :: "ident option"
  pl_created_at :: timestamp
  pl_updated_at :: "timestamp option"

record playlist_item =
  pi_id :: ident
  pi_playlist_id :: ident
  pi_content_item_id :: ident
  pi_order_index :: int
  pi_created_at :: timestamp

text \<open>\<open>LayoutPreset = 'fullscreen' | 'grid' | 'ticker'\<close>.\<close>

datatype layout_preset = Fullscreen | Grid | Ticker

record display_assignment =
  da_id :: ident
  da_display_id :: ident
  da_playlist_id :: ident
  da_active_from :: "timestamp option"
  da_active_to :: "timestamp option"
  da_layout_preset :: layout_preset
  da_is_active :: bool
  da_created_at :: timestamp
  da_updated_at :: "timestamp option"

datatype alert_level = INFO | WARNING | EMERGENCY

record alert =
  al_id :: ident
  al_title :: string
  al_message :: string
  al_level :: alert_level
  al_is_active :: bool
  al_starts_at :: timestamp
  al_ends_at :: "timestamp option"
  al_created_by :: "ident option"
  al_created_at :: timestamp
  al_updated_at :: "timestamp option"

record audit_log =
  log_id :: ident
  log_user_id :: "ident option"
  log_action :: string
  log_entity_type :: string
  log_entity_id :: "ident option"
  log_details :: "(string \<times> string) list option"
  log_created_at :: timestamp

end
