(* ===== verification/Store.thy ===== *)
theory Store
  imports Entities
begin

text \<open>
  The database the routes reach through Prisma (\<open>prisma.display\<close>,
  \<open>prisma.contentItem\<close>, ...), as one record with a list per table in insertion
  order, and the Prisma calls the code makes as operations on it. A table is named
  by a lens (\<open>'r table\<close>): how to read it from the database, how to write it back,
  and its primary key. \<open>findUnique\<close> and \<open>findFirst\<close> return the first matching
  row; \<open>create\<close> fails on a duplicate primary key; \<open>update\<close> and \<open>delete\<close> fail
  (Prisma's \<open>RecordNotFound\<close>, P2025) when no row has the key; \<open>findMany\<close> with
  \<open>orderBy\<close> is a stable sort of the table by the column. The generic route
  handlers at the end are the shape every CRUD route of
  \<open>src/server/src/routes/\<close> has: call Prisma, answer with the JSON of the result,
  or catch the failure and answer status 500 with the route's message.
\<close>

section \<open>The database\<close>

record db =
  db_users :: "user list"
  db_displays :: "display list"
  db_content_items :: "content_item list"
  db_playlists :: "playlist list"
  db_playlist_items :: "playlist_item list"
  db_assignments :: "display_assignment list"
  db_alerts :: "alert list"
  db_audit_logs :: "audit_log list"

record 'r table =
  tbl_get :: "db \<Rightarrow> 'r list"
  tbl_put :: "'r list \<Rightarrow> db \<Rightarrow> db"
  tbl_key :: "'r \<Rightarrow> ident"

definition users_tbl :: "user table" where
  "users_tbl = \<lparr>tbl_get = db_users, tbl_put = (\<lambda>xs db. db\<lparr>db_users := xs\<rparr>), tbl_key = usr_id\<rparr>"

definition displays_tbl :: "display table" where
  "displays_tbl =
     \<lparr>tbl_get = db_displays, tbl_put = (\<lambda>xs db. db\<lparr>db_displays := xs\<rparr>), tbl_key = disp_id\<rparr>"

definition content_tbl :: "content_item table" where
  "content_tbl =
     \<lparr>tbl_get = db_content_items, tbl_put = (\<lambda>xs db. db\<lparr>db_content_items := xs\<rparr>),
      tbl_key = ci_id\<rparr>"

definition playlists_tbl :: "playlist table" where
  "playlists_tbl =
     \<lparr>tbl_get = db_playlists, tbl_put = (\<lambda>xs db. db\<lparr>db_playlists := xs\<rparr>), tbl_key = pl_id\<rparr>"

definition playlist_items_tbl :: "playlist_item table" where
  "playlist_items_tbl =
     \<lparr>tbl_get = db_playlist_items, tbl_put = (\<lambda>xs db. db\<lparr>db_playlist_items := xs\<rparr>),
      tbl_key = pi_id\<rparr>"

definition assignments_tbl :: "display_assignment table" where
  "assignments_tbl =
     \<lparr>tbl_get = db_assignments, tbl_put = (\<lambda>xs db. db\<lparr>db_assignments := xs\<rparr>),
      tbl_key = da_id\<rparr>"

definition alerts_tbl :: "alert table" where
  "alerts_tbl = \<lparr>tbl_get = db_alerts, tbl_put = (\<lambda>xs db. db\<lparr>db_alerts := xs\<rparr>), tbl_key = al_id\<rparr>"

definition audit_tbl :: "audit_log table" where
  "audit_tbl =
     \<lparr>tbl_get = db_audit_logs, tbl_put = (\<lambda>xs db. db\<lparr>db_audit_logs := xs\<rparr>), tbl_key = log_id\<rparr>"

declare users_tbl_def [table_simps] displays_tbl_def [table_simps] content_tbl_def [table_simps]
  playlists_tbl_def [table_simps] playlist_items_tbl_def [table_simps]
  assignments_tbl_def [table_simps] alerts_tbl_def [table_simps] audit_tbl_def [table_simps]

section \<open>Prisma calls\<close>

datatype db_error = RecordNotFound | UniqueConstraintFailed

definition find_unique :: "'r table \<Rightarrow> ident \<Rightarrow> db \<Rightarrow> 'r option" where
  "find_unique t k db = find (\<lambda>r. tbl_key t r = k) (tbl_get t db)"

definition create_row :: "'r table \<Rightarrow> 'r \<Rightarrow> db \<Rightarrow> db_error + (db \<times> 'r)" where
  "create_row t r db =
     (if tbl_key t r \<in> set (map (tbl_key t) (tbl_get t db)) then Inl UniqueConstraintFailed
      else Inr (tbl_put t (tbl_get t db @ [r]) db, r))"

definition update_row :: "'r table \<Rightarrow> ident \<Rightarrow> ('r \<Rightarrow> 'r) \<Rightarrow> db \<Rightarrow> db_error + (db \<times> 'r)" where
  "update_row t k g db =
     (case find_unique t k db of
        None \<Rightarrow> Inl RecordNotFound
      | Some r \<Rightarrow>
          if tbl_key t (g r) \<noteq> k \<and> tbl_key t (g r) \<in> set (map (tbl_key t) (tbl_get t db))
          then Inl UniqueConstraintFailed
          else Inr (tbl_put t (update_where (\<lambda>x. tbl_key t x = k) g (tbl_get t db)) db, g r))"

definition delete_row :: "'r table \<Rightarrow> ident \<Rightarrow> db \<Rightarrow> db_error + (db \<times> 'r)" where
  "delete_row t k db =
     (case find_unique t k db of
        None \<Rightarrow> Inl RecordNotFound
      | Some r \<Rightarrow> Inr (tbl_put t (filter (\<lambda>x. tbl_key t x \<noteq> k) (tbl_get t db)) db, r))"

text \<open>\<open>orderBy: { col: 'asc' }\<close> and \<open>orderBy: { col: 'desc' }\<close>.\<close>

definition order_asc :: "('r \<Rightarrow> int) \<Rightarrow> 'r list \<Rightarrow> 'r list" where
  "order_asc f xs = sort_key f xs"

definition order_desc :: "('r \<Rightarrow> int) \<Rightarrow> 'r list \<Rightarrow> 'r list" where
  "order_desc f xs = sort_key (\<lambda>r. - f r) xs"

section \<open>Route handlers\<close>

text \<open>
  A JSON answer: \<open>res.json(x)\<close> is \<open>Ok x\<close>; \<open>res.status(n).json({ error: msg })\<close>
  is \<open>Fail n msg\<close>. \<open>{ success: true }\<close> is \<open>Ok ()\<close>.
\<close>

datatype 'a api_response = Ok 'a | Fail nat string

definition list_handler :: "'r table \<Rightarrow> ('r \<Rightarrow> timestamp) \<Rightarrow> db \<Rightarrow> 'r list api_response" where
  "list_handler t created db = Ok (order_desc created (tbl_get t db))"

definition create_handler :: "'r table \<Rightarrow> string \<Rightarrow> 'r \<Rightarrow> db \<Rightarrow> db \<times> 'r api_response" where
  "create_handler t msg r db =
     (case create_row t r db of Inl _ \<Rightarrow> (db, Fail 500 msg) | Inr (db', r') \<Rightarrow> (db', Ok r'))"

text \<open>
  \<open>update({ where: { id }, data: { ...req.body, updated_at: new Date() } })\<close>: the
  body overwrites the fields it names (a function on the row), then the stamp.
\<close>

definition patch_handler ::
  "'r table \<Rightarrow> (timestamp \<Rightarrow> 'r \<Rightarrow> 'r) \<Rightarrow> string \<Rightarrow> ident \<Rightarrow> ('r \<Rightarrow> 'r) \<Rightarrow> timestamp \<Rightarrow> db
     \<Rightarrow> db \<times> 'r api_response" where
  "patch_handler t stamp msg k body now db =
     (case update_row t k (\<lambda>r. stamp now (body r)) db of
        Inl _ \<Rightarrow> (db, Fail 500 msg)
      | Inr (db', r') \<Rightarrow> (db', Ok r'))"

definition delete_handler :: "'r table \<Rightarrow> string \<Rightarrow> ident \<Rightarrow> db \<Rightarrow> db \<times> unit api_response" where
  "delete_handler t msg k db =
     (case delete_row t k db of Inl _ \<Rightarrow> (db, Fail 500 msg) | Inr (db', _) \<Rightarrow> (db', Ok ()))"

section \<open>Integrity of the database\<close>

text \<open>
  Primary keys are unique in every table, and every playlist item refers to a content
  item that exists (the foreign key \<open>content_item_id\<close>; the schema file that
  declares it is not part of the sources, so the model states it as a property of
  the state instead of enforcing it in \<open>create_row\<close>).
\<close>

definition keys_distinct :: "'r table \<Rightarrow> db \<Rightarrow> bool" where
  "keys_distinct t db \<longleftrightarrow> distinct (map (tbl_key t) (tbl_get t db))"

definition content_refs_ok :: "db \<Rightarrow> bool" where
  "content_refs_ok db \<longleftrightarrow>
     (\<forall>pi \<in> set (db_playlist_items db). \<exists>c \<in> set (db_content_items db).
        ci_id c = pi_content_item_id pi)"

definition keys_ok :: "db \<Rightarrow> bool" where
  "keys_ok db \<longleftrightarrow>
     keys_distinct users_tbl db \<and> keys_distinct displays_tbl db \<and> keys_distinct content_tbl db \<and>
     keys_distinct playlists_tbl db \<and> keys_distinct playlist_items_tbl db \<and>
     keys_distinct assignments_tbl db \<and> keys_distinct alerts_tbl db \<and> keys_distinct audit_tbl db"

text \<open>
  One call's effect on one table: the database is unchanged, or that table alone is
  replaced by a list that keeps its keys distinct.
\<close>

definition table_step :: "'r table \<Rightarrow> db \<Rightarrow> db \<Rightarrow> bool" where
  "table_step t db db' \<longleftrightarrow>
     db' = db \<or>
     (\<exists>xs. db' = tbl_put t xs db \<and>
        (distinct (map (tbl_key t) (tbl_get t db)) \<longrightarrow> distinct (map (tbl_key t) xs)))"

section \<open>Laws of the Prisma calls\<close>

lemma find_unique_SomeD:
  "find_unique t k db = Some r \<Longrightarrow> r \<in> set (tbl_get t db) \<and> tbl_key t r = k"
  by (auto simp: find_unique_def)

lemma find_unique_None:
  "find_unique t k db = None \<longleftrightarrow> k \<notin> tbl_key t ` set (tbl_get t db)"
  by (auto simp: find_unique_def find_None_iff)

lemma find_unique_distinct_eq:
  assumes "keys_distinct t db" and "find_unique t k db = Some r"
    and "x \<in> set (tbl_get t db)" and "tbl_key t x = k"
  shows "x = r"
  using assms find_unique_SomeD [OF assms(2)]
  by (auto simp: keys_distinct_def distinct_map dest: inj_onD)

lemma update_row_Inr:
  assumes "update_row t k g db = Inr (db', r')"
  shows "\<exists>r. find_unique t k db = Some r \<and> r' = g r \<and>
           db' = tbl_put t (update_where (\<lambda>x. tbl_key t x = k) g (tbl_get t db)) db"
  using assms by (auto simp: update_row_def split: option.splits if_splits)

lemma update_row_key_kept:
  assumes "find_unique t k db = Some r" and "\<And>x. tbl_key t (g x) = tbl_key t x"
  shows "update_row t k g db =
           Inr (tbl_put t (update_where (\<lambda>x. tbl_key t x = k) g (tbl_get t db)) db, g r)"
  using assms by (auto simp: update_row_def dest: find_unique_SomeD)

lemma update_row_Inl_iff:
  "(\<exists>e. update_row t k g db = Inl e) \<longleftrightarrow>
     (case find_unique t k db of None \<Rightarrow> True
      | Some r \<Rightarrow> tbl_key t (g r) \<noteq> k \<and> tbl_key t (g r) \<in> tbl_key t ` set (tbl_get t db))"
  by (auto simp: update_row_def split: option.splits)

lemma create_row_Inr:
  "create_row t r db = Inr (db', r') \<Longrightarrow>
   db' = tbl_put t (tbl_get t db @ [r]) db \<and> r' = r \<and> tbl_key t r \<notin> tbl_key t ` set (tbl_get t db)"
  by (auto simp: create_row_def split: if_splits)

lemma delete_row_Inr:
  "delete_row t k db = Inr (db', r) \<Longrightarrow> db' = tbl_put t (filter (\<lambda>x. tbl_key t x \<noteq> k) (tbl_get t db)) db"
  by (auto simp: delete_row_def split: option.splits)

lemma distinct_map_update_where_key:
  assumes "distinct (map f xs)" and "x0 \<in> set xs" and "f x0 = k"
    and "f (g x0) = k \<or> f (g x0) \<notin> f ` set xs"
  shows "distinct (map f (update_where (\<lambda>x. f x = k) g xs))"
proof -
  have uniq: "x = x0" if "x \<in> set xs" "f x = k" for x
    using assms(1-3) that by (metis distinct_map inj_onD)
  let ?h = "\<lambda>y. if y = k then f (g x0) else y"
  have "map f (update_where (\<lambda>x. f x = k) g xs) = map ?h (map f xs)"
    using uniq by (induction xs) (auto simp: update_where_def)
  moreover have "inj_on ?h (set (map f xs))"
    using assms(4) by (auto simp: inj_on_def image_iff)
  ultimately show ?thesis using assms(1) by (simp add: distinct_map comp_inj_on)
qed

lemma update_row_distinct:
  assumes "update_row t k g db = Inr (db', r')" and "distinct (map (tbl_key t) (tbl_get t db))"
  shows "db' = tbl_put t (update_where (\<lambda>x. tbl_key t x = k) g (tbl_get t db)) db \<and>
         distinct (map (tbl_key t) (update_where (\<lambda>x. tbl_key t x = k) g (tbl_get t db)))"
proof -
  obtain r where r: "find_unique t k db = Some r"
    and db': "db' = tbl_put t (update_where (\<lambda>x. tbl_key t x = k) g (tbl_get t db)) db"
    using update_row_Inr [OF assms(1)] by blast
  have "tbl_key t (g r) = k \<or> tbl_key t (g r) \<notin> tbl_key t ` set (tbl_get t db)"
    using assms(1) r by (auto simp: update_row_def)
  moreover have "r \<in> set (tbl_get t db)" "tbl_key t r = k"
    using find_unique_SomeD [OF r] by simp_all
  ultimately show ?thesis
    using db' assms(2) by (simp add: distinct_map_update_where_key)
qed

lemma create_handler_step: "table_step t db (fst (create_handler t msg r db))"
  by (auto simp: create_handler_def table_step_def split: sum.splits dest!: create_row_Inr)

lemma patch_handler_step: "table_step t db (fst (patch_handler t stamp msg k body now db))"
proof (cases "update_row t k (\<lambda>r. stamp now (body r)) db")
  case (Inl e)
  then show ?thesis by (simp add: patch_handler_def table_step_def)
next
  case (Inr p)
  obtain db' r' where p: "p = (db', r')" by (cases p)
  let ?xs = "update_where (\<lambda>x. tbl_key t x = k) (\<lambda>r. stamp now (body r)) (tbl_get t db)"
  from Inr p have upd: "update_row t k (\<lambda>r. stamp now (body r)) db = Inr (db', r')" by simp
  then have "db' = tbl_put t ?xs db" by (auto dest: update_row_Inr)
  moreover have "distinct (map (tbl_key t) (tbl_get t db)) \<longrightarrow> distinct (map (tbl_key t) ?xs)"
    using update_row_distinct [OF upd] by blast
  ultimately show ?thesis using upd by (auto simp: patch_handler_def table_step_def)
qed

lemma delete_handler_step: "table_step t db (fst (delete_handler t msg k db))"
  by (auto simp: delete_handler_def table_step_def distinct_map_filter split: sum.splits
           dest!: delete_row_Inr)

lemma distinct_map_update_where:
  assumes "distinct (map f xs)" and "\<And>x. x \<in> set xs \<Longrightarrow> P x \<Longrightarrow> f (g x) = f x"
  shows "distinct (map f (update_where P g xs))"
proof -
  have "map f (update_where P g xs) = map f xs"
    using assms(2) by (induction xs) auto
  with assms(1) show ?thesis by simp
qed

end
