(* ===== verification/Player.thy ===== *)
theory Player
  imports Store
begin

text \<open>
  The player resolution service, \<open>src/server/src/routes/player.ts\<close>: the route
  \<open>POST /api/player/content\<close> (credential check, liveness write, active
  assignment, playlist contents filtered by publication window and sorted by
  priority, active alerts) and the route \<open>POST /api/player/heartbeat\<close> (credential
  check and liveness write only). Each route reads the clock with \<open>new Date()\<close>:
  the content route twice (the liveness write, line 23, and the publication filter,
  line 50), so its model takes both instants.
\<close>

section \<open>Requests and responses\<close>

text \<open>
  The request body \<open>{ displayId, secretKey }\<close>; a field the body lacks is
  \<open>undefined\<close>, here \<open>None\<close>.
\<close>

record player_request =
  req_displayId :: "ident option"
  req_secretKey :: "string option"

text \<open>
  \<open>res.json({ isValid: true, display, assignment, playlist, items, alerts })\<close>, the 401
  answer \<open>{ isValid: false, error: 'Invalid display credentials' }\<close> and the 500
  answer \<open>{ isValid: false, error: 'Internal server error' }\<close> of the catch block.
\<close>

datatype player_response =
    PlayerOk display "display_assignment option" "playlist option" "content_item list" "alert list"
  | PlayerInvalid
  | PlayerFailure

datatype heartbeat_response = HeartbeatOk | HeartbeatInvalid | HeartbeatFailure

section \<open>The steps of the content route\<close>

text \<open>
  Step 1: \<open>findUnique({ where: { id: displayId } })\<close>, then
  \<open>if (!display || display.secret_key !== secretKey)\<close>: an absent \<open>secretKey\<close>
  never equals the stored string.
\<close>

definition authenticate :: "db \<Rightarrow> ident \<Rightarrow> string option \<Rightarrow> display option" where
  "authenticate db did key =
     (case find_unique displays_tbl did db of
        None \<Rightarrow> None
      | Some d \<Rightarrow> if Some (disp_secret_key d) \<noteq> key then None else Some d)"

text \<open>Step 2: \<open>display.update({ where: { id }, data: { last_seen_at: new Date() } })\<close>.\<close>

definition touch_last_seen :: "ident \<Rightarrow> timestamp \<Rightarrow> db \<Rightarrow> db_error + (db \<times> display)" where
  "touch_last_seen did t db =
     update_row displays_tbl did (\<lambda>d. d\<lparr>disp_last_seen_at := Some t\<rparr>) db"

text \<open>
  Step 3: \<open>displayAssignment.findFirst({ where: { display_id, is_active: true } })\<close>:
  the first active assignment of the display in table order; its \<open>active_from\<close> and
  \<open>active_to\<close> are not consulted.
\<close>

definition active_assignment :: "db \<Rightarrow> ident \<Rightarrow> display_assignment option" where
  "active_assignment db did = find (\<lambda>a. da_display_id a = did \<and> da_is_active a) (db_assignments db)"

text \<open>
  Step 4: \<open>playlistItem.findMany({ where: { playlist_id }, orderBy: { order_index:
  'asc' } })\<close>, the same query as \<open>GET /api/playlists/:id/items\<close>.
\<close>

definition playlist_items_ordered :: "db \<Rightarrow> ident \<Rightarrow> playlist_item list" where
  "playlist_items_ordered db pid =
     order_asc pi_order_index (filter (\<lambda>pi. pi_playlist_id pi = pid) (db_playlist_items db))"

text \<open>
  \<open>include: { content_item: true }\<close> and \<open>.map(pi => pi.content_item)\<close>: a playlist
  item whose content row is missing yields \<open>null\<close>, and the filter's
  \<open>item.status\<close> then throws, which the catch block answers with 500: the whole
  list is \<open>None\<close>.
\<close>

definition include_content :: "db \<Rightarrow> playlist_item list \<Rightarrow> content_item list option" where
  "include_content db pis = those (map (\<lambda>pi. find_unique content_tbl (pi_content_item_id pi) db) pis)"

text \<open>Step 5a, the filter callback, branch by branch.\<close>

definition content_visible :: "timestamp \<Rightarrow> content_item \<Rightarrow> bool" where
  "content_visible now item =
     (if ci_status item \<noteq> PUBLISHED then False
      else if (case ci_start_at item of Some s \<Rightarrow> s > now | None \<Rightarrow> False) then False
      else if (case ci_end_at item of Some e \<Rightarrow> e < now | None \<Rightarrow> False) then False
      else True)"

text \<open>Step 5b, \<open>.sort((a, b) => b.priority - a.priority)\<close>.\<close>

definition by_priority_desc :: "content_item list \<Rightarrow> content_item list" where
  "by_priority_desc xs = js_sort (\<lambda>a b. ci_priority b - ci_priority a) xs"

definition resolve_items :: "db \<Rightarrow> ident \<Rightarrow> timestamp \<Rightarrow> content_item list option" where
  "resolve_items db pid now =
     map_option (\<lambda>cs. by_priority_desc (filter (content_visible now) cs))
       (include_content db (playlist_items_ordered db pid))"

text \<open>Step 6: \<open>alert.findMany({ where: { is_active: true }, orderBy: { created_at: 'desc' } })\<close>.\<close>

definition active_alerts :: "db \<Rightarrow> alert list" where
  "active_alerts db = order_desc al_created_at (filter al_is_active (db_alerts db))"

section \<open>The routes\<close>

text \<open>
  The content route. The answer's \<open>display\<close> is the row read in step 1, before the
  liveness write of step 2. \<open>if (assignment && assignment.playlist)\<close>: an active
  assignment whose playlist row is missing gives no playlist and no items.
\<close>

definition player_content ::
  "player_request \<Rightarrow> timestamp \<Rightarrow> timestamp \<Rightarrow> db \<Rightarrow> db \<times> player_response" where
  "player_content req t_seen t_now db =
     (case req_displayId req of
        None \<Rightarrow> (db, PlayerFailure)
      | Some did \<Rightarrow>
        (case authenticate db did (req_secretKey req) of
           None \<Rightarrow> (db, PlayerInvalid)
         | Some d \<Rightarrow>
           (case touch_last_seen did t_seen db of
              Inl _ \<Rightarrow> (db, PlayerFailure)
            | Inr (db1, _) \<Rightarrow>
              (let asg = active_assignment db1 did;
                   pl = (case asg of None \<Rightarrow> None
                         | Some a \<Rightarrow> find_unique playlists_tbl (da_playlist_id a) db1);
                   items = (case (asg, pl) of
                              (Some a, Some p) \<Rightarrow> resolve_items db1 (da_playlist_id a) t_now
                            | _ \<Rightarrow> Some [])
               in (case items of
                     None \<Rightarrow> (db1, PlayerFailure)
                   | Some xs \<Rightarrow> (db1, PlayerOk d asg pl xs (active_alerts db1)))))))"

definition heartbeat :: "player_request \<Rightarrow> timestamp \<Rightarrow> db \<Rightarrow> db \<times> heartbeat_response" where
  "heartbeat req t db =
     (case req_displayId req of
        None \<Rightarrow> (db, HeartbeatFailure)
      | Some did \<Rightarrow>
        (case authenticate db did (req_secretKey req) of
           None \<Rightarrow> (db, HeartbeatInvalid)
         | Some d \<Rightarrow>
           (case touch_last_seen did t db of
              Inl _ \<Rightarrow> (db, HeartbeatFailure)
            | Inr (db1, _) \<Rightarrow> (db1, HeartbeatOk))))"

text \<open>
  The database after the liveness write of display \<open>did\<close> at instant \<open>t\<close>: every
  row with that key has \<open>last_seen_at = t\<close>, nothing else changes.
\<close>

definition touched :: "ident \<Rightarrow> timestamp \<Rightarrow> db \<Rightarrow> db" where
  "touched did t db =
     db\<lparr>db_displays := update_where (\<lambda>x. disp_id x = did) (\<lambda>x. x\<lparr>disp_last_seen_at := Some t\<rparr>)
                       (db_displays db)\<rparr>"

section \<open>The scenario of the specification's section 8\<close>

text \<open>
  Display \<open>D\<close> with secret \<open>s1\<close>, its active assignment to playlist \<open>P\<close> holding
  \<open>X\<close> (published, priority 5), \<open>Y\<close> (published, priority 9) and \<open>Z\<close> (draft,
  priority 10) at order indices 0, 1, 2, and two active alerts created at instants 1
  and 2, the older of which ended at instant 50.
\<close>

definition ex_display :: display where
  "ex_display = \<lparr>disp_id = ''D'', disp_name = ''Lobby'', disp_location = None,
     disp_secret_key = ''s1'', disp_timezone = ''UTC'', disp_is_active = True,
     disp_last_seen_at = None, disp_theme_color = ''#1e40af'', disp_logo_url = None,
     disp_created_at = 0, disp_updated_at = None\<rparr>"

definition ex_content :: "ident \<Rightarrow> content_status \<Rightarrow> int \<Rightarrow> content_item" where
  "ex_content i st prio = \<lparr>ci_id = i, ci_type = ANNOUNCEMENT, ci_title = i, ci_body = None,
     ci_media_url = None, ci_duration_seconds = 10, ci_start_at = None, ci_end_at = None,
     ci_priority = prio, ci_status = st, ci_created_by = None, ci_created_at = 0,
     ci_updated_at = 0\<rparr>"

definition ex_item :: "ident \<Rightarrow> ident \<Rightarrow> int \<Rightarrow> playlist_item" where
  "ex_item i c k = \<lparr>pi_id = i, pi_playlist_id = ''P'', pi_content_item_id = c,
     pi_order_index = k, pi_created_at = 0\<rparr>"

definition ex_playlist :: playlist where
  "ex_playlist = \<lparr>pl_id = ''P'', pl_name = ''Morning'', pl_description = None,
     pl_created_by = None, pl_created_at = 0, pl_updated_at = None\<rparr>"

definition ex_assignment :: display_assignment where
  "ex_assignment = \<lparr>da_id = ''A'', da_display_id = ''D'', da_playlist_id = ''P'',
     da_active_from = None, da_active_to = None, da_layout_preset = Fullscreen,
     da_is_active = True, da_created_at = 0, da_updated_at = None\<rparr>"

definition ex_alert :: "ident \<Rightarrow> timestamp \<Rightarrow> timestamp option \<Rightarrow> alert" where
  "ex_alert i created ends = \<lparr>al_id = i, al_title = i, al_message = i, al_level = INFO,
     al_is_active = True, al_starts_at = 0, al_ends_at = ends, al_created_by = None,
     al_created_at = created, al_updated_at = None\<rparr>"

definition ex_db :: db where
  "ex_db = \<lparr>db_users = [], db_displays = [ex_display],
     db_content_items = [ex_content ''X'' PUBLISHED 5, ex_content ''Y'' PUBLISHED 9,
                         ex_content ''Z'' DRAFT 10],
     db_playlists = [ex_playlist],
     db_playlist_items = [ex_item ''i0'' ''X'' 0, ex_item ''i1'' ''Y'' 1, ex_item ''i2'' ''Z'' 2],
     db_assignments = [ex_assignment],
     db_alerts = [ex_alert ''Alert1'' 1 (Some 50), ex_alert ''Alert2'' 2 None],
     db_audit_logs = []\<rparr>"

definition ex_req :: player_request where
  "ex_req = \<lparr>req_displayId = Some ''D'', req_secretKey = Some ''s1''\<rparr>"

section \<open>Lemmas on the steps\<close>

lemmas example_defs = ex_display_def ex_content_def ex_item_def ex_playlist_def
  ex_assignment_def ex_alert_def ex_db_def ex_req_def

lemma authenticate_SomeD:
  "authenticate db did key = Some d \<Longrightarrow> find_unique displays_tbl did db = Some d \<and> key = Some (disp_secret_key d)"
  by (auto simp: authenticate_def split: option.splits if_splits)

lemma authenticate_None_iff:
  "authenticate db did key = None \<longleftrightarrow>
     (case find_unique displays_tbl did db of None \<Rightarrow> True | Some d \<Rightarrow> key \<noteq> Some (disp_secret_key d))"
  by (auto simp: authenticate_def split: option.splits)

lemma authenticateI:
  "find_unique displays_tbl did db = Some d \<Longrightarrow> key = Some (disp_secret_key d) \<Longrightarrow>
   authenticate db did key = Some d"
  by (simp add: authenticate_def)

lemma touch_last_seen_found:
  "find_unique displays_tbl did db = Some d \<Longrightarrow>
   touch_last_seen did t db = Inr (touched did t db, d\<lparr>disp_last_seen_at := Some t\<rparr>)"
  unfolding touch_last_seen_def touched_def
  by (subst update_row_key_kept) (simp_all add: table_simps)

lemma active_assignment_displays [simp]:
  "active_assignment (db\<lparr>db_displays := ds\<rparr>) did = active_assignment db did"
  by (simp add: active_assignment_def)

lemma find_unique_playlists_displays [simp]:
  "find_unique playlists_tbl k (db\<lparr>db_displays := ds\<rparr>) = find_unique playlists_tbl k db"
  by (simp add: find_unique_def table_simps)

lemma resolve_items_displays [simp]:
  "resolve_items (db\<lparr>db_displays := ds\<rparr>) pid t = resolve_items db pid t"
  by (simp add: resolve_items_def include_content_def playlist_items_ordered_def find_unique_def table_simps)

lemma active_alerts_displays [simp]:
  "active_alerts (db\<lparr>db_displays := ds\<rparr>) = active_alerts db"
  by (simp add: active_alerts_def)

lemma find_unique_touched:
  "find_unique displays_tbl did (touched did t db) =
     map_option (\<lambda>x. x\<lparr>disp_last_seen_at := Some t\<rparr>) (find_unique displays_tbl did db)"
  by (simp add: find_unique_def touched_def table_simps find_update_where)

lemma content_visible_iff:
  "content_visible now c \<longleftrightarrow>
     ci_status c = PUBLISHED \<and> (\<forall>s. ci_start_at c = Some s \<longrightarrow> s \<le> now) \<and>
     (\<forall>e. ci_end_at c = Some e \<longrightarrow> now \<le> e)"
  by (auto simp: content_visible_def split: option.splits)

lemma by_priority_desc_sort_key:
  "by_priority_desc xs = sort_key (\<lambda>c. - ci_priority c) xs"
  by (simp add: by_priority_desc_def js_sort_key_desc)

lemma those_map_Some:
  "(\<And>x. x \<in> set xs \<Longrightarrow> f x \<noteq> None) \<Longrightarrow> \<exists>ys. those (map f xs) = Some ys"
  by (induction xs) (fastforce split: option.splits)+

lemma those_map_None:
  "x \<in> set xs \<Longrightarrow> f x = None \<Longrightarrow> those (map f xs) = None"
  by (induction xs) (auto split: option.splits)

lemma set_playlist_items_ordered [simp]:
  "set (playlist_items_ordered db pid) = {pi \<in> set (db_playlist_items db). pi_playlist_id pi = pid}"
  by (auto simp: playlist_items_ordered_def order_asc_def)

lemma player_content_auth:
  assumes "req_displayId req = Some did" and "authenticate db did (req_secretKey req) = Some d"
  shows "player_content req ts tn db =
    (let asg = active_assignment db did;
         pl = (case asg of None \<Rightarrow> None | Some a \<Rightarrow> find_unique playlists_tbl (da_playlist_id a) db);
         items = (case (asg, pl) of
                    (Some a, Some p) \<Rightarrow> resolve_items db (da_playlist_id a) tn
                  | _ \<Rightarrow> Some [])
     in (case items of
           None \<Rightarrow> (touched did ts db, PlayerFailure)
         | Some xs \<Rightarrow> (touched did ts db, PlayerOk d asg pl xs (active_alerts db))))"
proof -
  from assms(2) have "find_unique displays_tbl did db = Some d"
    by (simp add: authenticate_SomeD)
  then have "touch_last_seen did ts db = Inr (touched did ts db, d\<lparr>disp_last_seen_at := Some ts\<rparr>)"
    by (rule touch_last_seen_found)
  with assms show ?thesis
    by (simp add: player_content_def touched_def Let_def split: option.splits prod.splits)
qed

lemma heartbeat_auth:
  assumes "req_displayId req = Some did" and "authenticate db did (req_secretKey req) = Some d"
  shows "heartbeat req t db = (touched did t db, HeartbeatOk)"
proof -
  from assms(2) have "find_unique displays_tbl did db = Some d"
    by (simp add: authenticate_SomeD)
  then have "touch_last_seen did t db = Inr (touched did t db, d\<lparr>disp_last_seen_at := Some t\<rparr>)"
    by (rule touch_last_seen_found)
  with assms show ?thesis by (simp add: heartbeat_def)
qed

lemma fst_player_content:
  "fst (player_content req ts tn db) =
     (case req_displayId req of None \<Rightarrow> db
      | Some did \<Rightarrow> (case authenticate db did (req_secretKey req) of None \<Rightarrow> db
                    | Some d \<Rightarrow> touched did ts db))"
proof (cases "req_displayId req")
  case None
  then show ?thesis by (simp add: player_content_def)
next
  case (Some did)
  show ?thesis
  proof (cases "authenticate db did (req_secretKey req)")
    case None
    with Some show ?thesis by (simp add: player_content_def)
  next
    case (Some d)
    with \<open>req_displayId req = Some did\<close> show ?thesis
      by (simp add: player_content_auth Let_def split: option.splits)
  qed
qed

lemma fst_heartbeat:
  "fst (heartbeat req t db) =
     (case req_displayId req of None \<Rightarrow> db
      | Some did \<Rightarrow> (case authenticate db did (req_secretKey req) of None \<Rightarrow> db
                    | Some d \<Rightarrow> touched did t db))"
proof (cases "req_displayId req")
  case None
  then show ?thesis by (simp add: heartbeat_def)
next
  case (Some did)
  show ?thesis
  proof (cases "authenticate db did (req_secretKey req)")
    case None
    with Some show ?thesis by (simp add: heartbeat_def)
  next
    case (Some d)
    with \<open>req_displayId req = Some did\<close> show ?thesis by (simp add: heartbeat_auth)
  qed
qed

lemma player_content_Ok:
  assumes "snd (player_content req ts tn db) = PlayerOk d asg pl items als"
  obtains did where "req_displayId req = Some did" "authenticate db did (req_secretKey req) = Some d"
    "active_assignment db did = asg"
    "(case asg of None \<Rightarrow> None | Some a \<Rightarrow> find_unique playlists_tbl (da_playlist_id a) db) = pl"
    "active_alerts db = als"
    "case (asg, pl) of (Some a, Some p) \<Rightarrow> resolve_items db (da_playlist_id a) tn = Some items
     | _ \<Rightarrow> items = []"
proof -
  obtain did where did: "req_displayId req = Some did"
    using assms by (cases "req_displayId req") (auto simp: player_content_def)
  moreover obtain d' where d': "authenticate db did (req_secretKey req) = Some d'"
    using assms did by (cases "authenticate db did (req_secretKey req)") (auto simp: player_content_def)
  moreover note eq = player_content_auth [OF did d', of ts tn]
  ultimately show ?thesis using assms that
    by (auto simp: Let_def split: option.splits)
qed

lemma ex_player_content:
  "player_content ex_req 1000 2000 ex_db =
     (touched ''D'' 1000 ex_db,
      PlayerOk ex_display (Some ex_assignment) (Some ex_playlist)
        [ex_content ''Y'' PUBLISHED 9, ex_content ''X'' PUBLISHED 5]
        [ex_alert ''Alert2'' 2 None, ex_alert ''Alert1'' 1 (Some 50)])"
  by (simp add: player_content_auth authenticate_def find_unique_def active_assignment_def
      resolve_items_def include_content_def playlist_items_ordered_def order_asc_def
      content_visible_def by_priority_desc_sort_key active_alerts_def order_desc_def
      table_simps example_defs)

lemma ex_snd:
  "snd (player_content ex_req 1000 2000 ex_db) =
      PlayerOk ex_display (Some ex_assignment) (Some ex_playlist)
        [ex_content ''Y'' PUBLISHED 9, ex_content ''X'' PUBLISHED 5]
        [ex_alert ''Alert2'' 2 None, ex_alert ''Alert1'' 1 (Some 50)]"
  by (simp add: ex_player_content)

section \<open>Properties of the player routes\<close>

text \<open>
  C1. The items of a valid answer that has an assignment and a playlist are the
  playlist's content rows, taken in ascending \<open>order_index\<close>, filtered by publication
  status and window at the filter instant, and sorted by descending priority with ties
  kept in playlist order: they meet the contract of a stable sort by descending
  priority of exactly the visible contents.
\<close>

theorem player_items_stable_priority_order:
  assumes "snd (player_content req ts tn db) = PlayerOk d (Some a) (Some p) items als"
  shows "\<exists>cs. include_content db (playlist_items_ordered db (da_playlist_id a)) = Some cs \<and>
             stable_sorted_by (\<lambda>c. - ci_priority c) (filter (content_visible tn) cs) items"
proof -
  have "resolve_items db (da_playlist_id a) tn = Some items"
    using assms by (rule player_content_Ok) simp
  then show ?thesis
    by (auto simp: resolve_items_def by_priority_desc_sort_key sort_key_stable_sorted_by)
qed

text \<open>
  C2. Every item of a valid answer is published, has no \<open>start_at\<close> after the filter
  instant and no \<open>end_at\<close> before it.
\<close>

theorem player_items_visible:
  assumes "snd (player_content req ts tn db) = PlayerOk d asg pl items als" and "c \<in> set items"
  shows "ci_status c = PUBLISHED \<and> (\<forall>s. ci_start_at c = Some s \<longrightarrow> s \<le> tn) \<and>
         (\<forall>e. ci_end_at c = Some e \<longrightarrow> tn \<le> e)"
proof -
  obtain did where "case (asg, pl) of (Some a, Some p) \<Rightarrow> resolve_items db (da_playlist_id a) tn = Some items
     | _ \<Rightarrow> items = []"
    using assms(1) by (rule player_content_Ok)
  with assms(2) have "content_visible tn c"
    by (auto simp: resolve_items_def by_priority_desc_sort_key split: option.splits)
  then show ?thesis by (simp add: content_visible_iff)
qed

text \<open>
  C3. When no display with the requested id has the requested secret, the content
  route answers 401 (\<open>isValid: false\<close>) and writes nothing.
\<close>

theorem player_content_rejects:
  assumes "req_displayId req = Some did"
    and "\<forall>d \<in> set (db_displays db). disp_id d = did \<longrightarrow> req_secretKey req \<noteq> Some (disp_secret_key d)"
  shows "player_content req ts tn db = (db, PlayerInvalid)"
proof -
  have "authenticate db did (req_secretKey req) = None"
    using assms(2) by (auto simp: authenticate_None_iff table_simps split: option.splits
                             dest!: find_unique_SomeD)
  with assms(1) show ?thesis by (simp add: player_content_def)
qed

text \<open>
  C4. With valid credentials the display's \<open>last_seen_at\<close> is the instant of the
  liveness write afterwards, whatever the rest of the route answers.
\<close>

theorem player_content_records_liveness:
  assumes "req_displayId req = Some did" and "find_unique displays_tbl did db = Some d"
    and "req_secretKey req = Some (disp_secret_key d)"
  shows "find_unique displays_tbl did (fst (player_content req ts tn db)) =
           Some (d\<lparr>disp_last_seen_at := Some ts\<rparr>)"
  using assms by (simp add: fst_player_content authenticateI find_unique_touched)

text \<open>
  C5. The content route writes nothing but the liveness timestamp of the requested
  display: the database afterwards is the one before or the one with that single
  field written.
\<close>

theorem player_content_writes_only_liveness:
  "fst (player_content req ts tn db) = db \<or>
   (\<exists>did. req_displayId req = Some did \<and> fst (player_content req ts tn db) = touched did ts db)"
  by (auto simp: fst_player_content split: option.splits)

text \<open>
  C6. An authenticated display without an active assignment gets a valid answer with
  no assignment, no playlist and no items, and the active alerts.
\<close>

theorem player_no_assignment_empty:
  assumes "req_displayId req = Some did" and "find_unique displays_tbl did db = Some d"
    and "req_secretKey req = Some (disp_secret_key d)"
    and "\<forall>a \<in> set (db_assignments db). da_display_id a = did \<longrightarrow> \<not> da_is_active a"
  shows "snd (player_content req ts tn db) = PlayerOk d None None [] (active_alerts db)"
proof -
  have "active_assignment db did = None"
    using assms(4) by (auto simp: active_assignment_def find_None_iff)
  with assms(1-3) show ?thesis by (simp add: player_content_auth authenticateI)
qed

text \<open>
  C7. The alerts of a valid answer are exactly the active alerts, newest first by
  creation time.
\<close>

theorem player_alerts_active_newest_first:
  assumes "snd (player_content req ts tn db) = PlayerOk d asg pl items als"
  shows "mset als = mset (filter al_is_active (db_alerts db)) \<and>
         sorted_wrt (\<lambda>x y. al_created_at y \<le> al_created_at x) als"
proof -
  obtain did where als: "active_alerts db = als"
    using assms by (rule player_content_Ok)
  have "mset (active_alerts db) = mset (filter al_is_active (db_alerts db))"
    by (simp add: active_alerts_def order_desc_def)
  moreover have "sorted (map (\<lambda>x. - al_created_at x) (active_alerts db))"
    by (simp add: active_alerts_def order_desc_def)
  then have "sorted_wrt (\<lambda>x y. al_created_at y \<le> al_created_at x) (active_alerts db)"
    by (simp add: sorted_map)
  ultimately show ?thesis using als by simp
qed


text \<open>
  C9. On a database whose playlist items all reference existing content rows, valid
  credentials always give a valid answer (never the 500 failure).
\<close>

theorem player_content_total:
  assumes "req_displayId req = Some did" and "find_unique displays_tbl did db = Some d"
    and "req_secretKey req = Some (disp_secret_key d)" and "content_refs_ok db"
  shows "\<exists>asg pl items als. snd (player_content req ts tn db) = PlayerOk d asg pl items als"
proof -
  have "\<exists>cs. include_content db (playlist_items_ordered db pid) = Some cs" for pid
    unfolding include_content_def
  proof (rule those_map_Some)
    fix pi assume "pi \<in> set (playlist_items_ordered db pid)"
    with assms(4) obtain c where "c \<in> set (db_content_items db)" "ci_id c = pi_content_item_id pi"
      by (auto simp: content_refs_ok_def)
    then have "pi_content_item_id pi \<in> ci_id ` set (db_content_items db)"
      by (metis image_eqI)
    then show "find_unique content_tbl (pi_content_item_id pi) db \<noteq> None"
      by (simp add: find_unique_None table_simps)
  qed
  then have "resolve_items db pid tn \<noteq> None" for pid
    by (auto simp: resolve_items_def)
  with assms(1-3) show ?thesis
    by (auto simp: player_content_auth authenticateI Let_def split: option.splits)
qed

text \<open>
  C10. If the active playlist holds an item whose content row is missing, the route
  fails with 500, and the liveness write of step 2 has already been made.
\<close>

theorem player_content_dangling_fails:
  assumes "req_displayId req = Some did" and "find_unique displays_tbl did db = Some d"
    and "req_secretKey req = Some (disp_secret_key d)"
    and "active_assignment db did = Some a" and "find_unique playlists_tbl (da_playlist_id a) db = Some p"
    and "pi \<in> set (db_playlist_items db)" and "pi_playlist_id pi = da_playlist_id a"
    and "\<forall>c \<in> set (db_content_items db). ci_id c \<noteq> pi_content_item_id pi"
  shows "player_content req ts tn db = (touched did ts db, PlayerFailure)"
proof -
  have "find_unique content_tbl (pi_content_item_id pi) db = None"
    using assms(8) by (auto simp: find_unique_None table_simps)
  then have "include_content db (playlist_items_ordered db (da_playlist_id a)) = None"
    unfolding include_content_def using assms(6,7) by (auto intro: those_map_None)
  then have "resolve_items db (da_playlist_id a) tn = None"
    by (simp add: resolve_items_def)
  with assms(1-5) show ?thesis by (simp add: player_content_auth authenticateI)
qed

text \<open>
  C11. The heartbeat route and the content route have the same effect on the database
  for every request: only the liveness write, under the same credential check.
\<close>

theorem heartbeat_same_effect:
  "fst (heartbeat req ts db) = fst (player_content req ts tn db)"
  by (simp add: fst_player_content fst_heartbeat)

text \<open>
  Calling the content route again with the same filter instant gives the same
  assignment, playlist, items and alerts; only the display row differs, by the
  liveness written in the first call.
\<close>

theorem player_content_repeatable:
  assumes "player_content req ts tn db = (db', PlayerOk d asg pl items als)"
  shows "snd (player_content req ts' tn db') =
           PlayerOk (d\<lparr>disp_last_seen_at := Some ts\<rparr>) asg pl items als"
proof -
  from assms have ok: "snd (player_content req ts tn db) = PlayerOk d asg pl items als" by simp
  then obtain did where did: "req_displayId req = Some did"
    and auth: "authenticate db did (req_secretKey req) = Some d"
    and asg: "active_assignment db did = asg"
    and pl: "(case asg of None \<Rightarrow> None | Some a \<Rightarrow> find_unique playlists_tbl (da_playlist_id a) db) = pl"
    and als: "active_alerts db = als"
    and items: "case (asg, pl) of (Some a, Some p) \<Rightarrow> resolve_items db (da_playlist_id a) tn = Some items
     | _ \<Rightarrow> items = []"
    by (rule player_content_Ok)
  have "fst (player_content req ts tn db) = touched did ts db"
    using did auth by (simp add: fst_player_content)
  with assms have db': "db' = touched did ts db" by simp
  have auth': "authenticate db' did (req_secretKey req) = Some (d\<lparr>disp_last_seen_at := Some ts\<rparr>)"
    using authenticate_SomeD [OF auth] by (simp add: db' authenticate_def find_unique_touched)
  have same: "active_assignment db' did = asg"
    "(case asg of None \<Rightarrow> None | Some a \<Rightarrow> find_unique playlists_tbl (da_playlist_id a) db') = pl"
    "active_alerts db' = als"
    "\<And>pid. resolve_items db' pid tn = resolve_items db pid tn"
    using asg pl als by (cases asg; simp add: db' touched_def)+
  show ?thesis
  proof (cases asg)
    case None
    with items same show ?thesis by (simp add: player_content_auth [OF did auth'])
  next
    case (Some a)
    with items same show ?thesis
      by (cases pl) (simp_all add: player_content_auth [OF did auth'])
  qed
qed

text \<open>
  C13. The display record of a valid answer is the row as read before the liveness
  write: the answer does not carry the timestamp the call has just written.
\<close>

theorem player_display_is_pre_write_row:
  assumes "snd (player_content req ts tn db) = PlayerOk d asg pl items als"
  shows "\<exists>did. req_displayId req = Some did \<and> find_unique displays_tbl did db = Some d"
proof -
  obtain did where "req_displayId req = Some did" "authenticate db did (req_secretKey req) = Some d"
    using assms by (rule player_content_Ok)
  then show ?thesis by (auto dest: authenticate_SomeD)
qed

text \<open>
  C14. The code's sort \<open>(a, b) => b.priority - a.priority\<close> produces the one list
  that is a stable sort of its input by descending priority.
\<close>

theorem by_priority_desc_characterised:
  "stable_sorted_by (\<lambda>c. - ci_priority c) xs ys \<longleftrightarrow> ys = by_priority_desc xs"
  by (auto simp: by_priority_desc_sort_key sort_key_stable_sorted_by dest: stable_sorted_by_unique)


section \<open>Witnesses\<close>

theorem player_items_stable_priority_order_witness:
  "\<exists>cs. include_content ex_db (playlist_items_ordered ex_db ''P'') = Some cs \<and>
     stable_sorted_by (\<lambda>c. - ci_priority c) (filter (content_visible 2000) cs)
       [ex_content ''Y'' PUBLISHED 9, ex_content ''X'' PUBLISHED 5]"
  using player_items_stable_priority_order [OF ex_snd] by (simp add: ex_assignment_def)

theorem player_items_visible_witness:
  "ci_status (ex_content ''Y'' PUBLISHED 9) = PUBLISHED"
  using player_items_visible [OF ex_snd, of "ex_content ''Y'' PUBLISHED 9"] by simp

theorem player_content_rejects_witness:
  "player_content \<lparr>req_displayId = Some ''D'', req_secretKey = Some ''bad''\<rparr> 1000 2000 ex_db =
     (ex_db, PlayerInvalid)"
  by (rule player_content_rejects) (simp_all add: example_defs)

theorem player_content_records_liveness_witness:
  "find_unique displays_tbl ''D'' (fst (player_content ex_req 1000 2000 ex_db)) =
     Some (ex_display\<lparr>disp_last_seen_at := Some 1000\<rparr>)"
  by (rule player_content_records_liveness)
     (simp_all add: find_unique_def table_simps example_defs)

theorem player_no_assignment_empty_witness:
  "snd (player_content ex_req 1000 2000 (ex_db\<lparr>db_assignments := []\<rparr>)) =
     PlayerOk ex_display None None [] (active_alerts ex_db)"
proof -
  have "snd (player_content ex_req 1000 2000 (ex_db\<lparr>db_assignments := []\<rparr>)) =
     PlayerOk ex_display None None [] (active_alerts (ex_db\<lparr>db_assignments := []\<rparr>))"
    by (rule player_no_assignment_empty) (simp_all add: find_unique_def table_simps example_defs)
  then show ?thesis by (simp add: active_alerts_def)
qed

theorem player_alerts_active_newest_first_witness:
  "mset [ex_alert ''Alert2'' 2 None, ex_alert ''Alert1'' 1 (Some 50)] =
     mset (filter al_is_active (db_alerts ex_db))"
  using player_alerts_active_newest_first [OF ex_snd] by simp


theorem player_content_total_witness:
  "\<exists>asg pl items als. snd (player_content ex_req 1000 2000 ex_db) = PlayerOk ex_display asg pl items als"
  by (rule player_content_total [where did = "''D''"])
     (simp_all add: find_unique_def table_simps content_refs_ok_def example_defs)

theorem player_content_dangling_fails_witness:
  "player_content ex_req 1000 2000 (ex_db\<lparr>db_content_items := [ex_content ''Y'' PUBLISHED 9]\<rparr>) =
     (touched ''D'' 1000 (ex_db\<lparr>db_content_items := [ex_content ''Y'' PUBLISHED 9]\<rparr>), PlayerFailure)"
  by (rule player_content_dangling_fails [where d = ex_display and a = ex_assignment
        and p = ex_playlist and pi = "ex_item ''i0'' ''X'' 0"])
     (simp_all add: find_unique_def active_assignment_def table_simps example_defs)

theorem player_content_repeatable_witness:
  "snd (player_content ex_req 3000 2000 (touched ''D'' 1000 ex_db)) =
     PlayerOk (ex_display\<lparr>disp_last_seen_at := Some 1000\<rparr>) (Some ex_assignment) (Some ex_playlist)
        [ex_content ''Y'' PUBLISHED 9, ex_content ''X'' PUBLISHED 5]
        [ex_alert ''Alert2'' 2 None, ex_alert ''Alert1'' 1 (Some 50)]"
  by (rule player_content_repeatable [OF ex_player_content])

theorem player_display_is_pre_write_row_witness:
  "find_unique displays_tbl ''D'' ex_db = Some ex_display \<and> disp_last_seen_at ex_display = None"
  using player_display_is_pre_write_row [OF ex_snd] by (simp add: find_unique_def table_simps example_defs)

end
