(* ===== verification/Playlists.thy ===== *)
theory Playlists
  imports Player
begin

text \<open>
  The playlist routes of \<open>src/server/src/routes/playlists.ts\<close> (playlists and their
  items, including the transactional reorder) and the playlist item editor of
  \<open>src/src/components/admin/PlaylistsSection.tsx\<close> that drives them: adding a content
  item at index \<open>items.length\<close>, and moving an item up or down by swapping it with
  its neighbour and sending the new order of ids.
\<close>

section \<open>Routes\<close>

definition playlists_get :: "db \<Rightarrow> playlist list api_response" where
  "playlists_get db = list_handler playlists_tbl pl_created_at db"

definition playlists_post :: "playlist \<Rightarrow> db \<Rightarrow> db \<times> playlist api_response" where
  "playlists_post body db = create_handler playlists_tbl ''Failed to create playlist'' body db"

definition playlists_patch ::
  "ident \<Rightarrow> (playlist \<Rightarrow> playlist) \<Rightarrow> timestamp \<Rightarrow> db \<Rightarrow> db \<times> playlist api_response" where
  "playlists_patch k body now db =
     patch_handler playlists_tbl (\<lambda>t p. p\<lparr>pl_updated_at := Some t\<rparr>) ''Failed to update playlist''
       k body now db"

definition playlists_delete :: "ident \<Rightarrow> db \<Rightarrow> db \<times> unit api_response" where
  "playlists_delete k db = delete_handler playlists_tbl ''Failed to delete playlist'' k db"

text \<open>
  \<open>GET /:id/items\<close> answers the items of the playlist by ascending
  \<open>order_index\<close>, each with its content row included (\<open>null\<close> when missing).
\<close>

definition playlist_items_get ::
  "ident \<Rightarrow> db \<Rightarrow> (playlist_item \<times> content_item option) list api_response" where
  "playlist_items_get pid db =
     Ok (map (\<lambda>pi. (pi, find_unique content_tbl (pi_content_item_id pi) db))
          (playlist_items_ordered db pid))"

text \<open>
  \<open>POST /:id/items\<close> with body \<open>{ content_item_id, order_index }\<close>; the row's id and
  \<open>created_at\<close> are the database defaults, given here as \<open>fresh\<close> and \<open>now\<close>.
\<close>

definition playlist_items_post ::
  "ident \<Rightarrow> ident \<Rightarrow> int \<Rightarrow> ident \<Rightarrow> timestamp \<Rightarrow> db
     \<Rightarrow> db \<times> (playlist_item \<times> content_item option) api_response" where
  "playlist_items_post pid cid oi fresh now db =
     (case create_row playlist_items_tbl
             \<lparr>pi_id = fresh, pi_playlist_id = pid, pi_content_item_id = cid,
              pi_order_index = oi, pi_created_at = now\<rparr> db of
        Inl _ \<Rightarrow> (db, Fail 500 ''Failed to add playlist item'')
      | Inr (db', pi) \<Rightarrow> (db', Ok (pi, find_unique content_tbl cid db')))"

definition playlist_item_delete :: "ident \<Rightarrow> db \<Rightarrow> db \<times> unit api_response" where
  "playlist_item_delete k db = delete_handler playlist_items_tbl ''Failed to remove playlist item'' k db"

text \<open>
  \<open>POST /items/reorder\<close>: \<open>orderedIds.map((id, index) => update order_index :=
  index)\<close> run by \<open>prisma.$transaction\<close>: the updates in array order, and if one
  fails (an id with no row) none of them is kept.
\<close>

fun reorder_updates :: "ident list \<Rightarrow> nat \<Rightarrow> db \<Rightarrow> db_error + db" where
  "reorder_updates [] i db = Inr db"
| "reorder_updates (x # xs) i db =
     (case update_row playlist_items_tbl x (\<lambda>pi. pi\<lparr>pi_order_index := int i\<rparr>) db of
        Inl e \<Rightarrow> Inl e
      | Inr (db', _) \<Rightarrow> reorder_updates xs (Suc i) db')"

definition playlist_items_reorder :: "ident list \<Rightarrow> db \<Rightarrow> db \<times> unit api_response" where
  "playlist_items_reorder ids db =
     (case reorder_updates ids 0 db of
        Inl _ \<Rightarrow> (db, Fail 500 ''Failed to reorder items'')
      | Inr db' \<Rightarrow> (db', Ok ()))"

section \<open>The item editor\<close>

text \<open>\<open>contentItems.filter(c => !items.some(i => i.content_item_id === c.id))\<close>.\<close>

definition available_content :: "content_item list \<Rightarrow> playlist_item list \<Rightarrow> content_item list" where
  "available_content cs items =
     filter (\<lambda>c. \<not> (\<exists>i \<in> set items. pi_content_item_id i = ci_id c)) cs"

text \<open>
  \<open>handleAddContent\<close>: \<open>addItem(contentId, items.length)\<close>, where \<open>items\<close> is the
  editor's copy of \<open>GET /:id/items\<close>.
\<close>

definition handle_add_content ::
  "ident \<Rightarrow> ident \<Rightarrow> ident \<Rightarrow> timestamp \<Rightarrow> db
     \<Rightarrow> db \<times> (playlist_item \<times> content_item option) api_response" where
  "handle_add_content pid cid fresh now db =
     playlist_items_post pid cid (int (length (playlist_items_ordered db pid))) fresh now db"

datatype direction = Up | Down

text \<open>
  \<open>moveItem(index, direction)\<close>: no request when the neighbour is out of range,
  otherwise the ids of the list with the two entries swapped.
\<close>

definition move_item :: "playlist_item list \<Rightarrow> nat \<Rightarrow> direction \<Rightarrow> ident list option" where
  "move_item items index dir =
     (let newIndex = (case dir of Up \<Rightarrow> int index - 1 | Down \<Rightarrow> int index + 1)
      in if newIndex < 0 \<or> newIndex \<ge> int (length items) then None
         else Some (map pi_id (items[index := items ! nat newIndex, nat newIndex := items ! index])))"

section \<open>The effect of a reorder\<close>

text \<open>
  \<open>reindex ids i pi\<close> is the row \<open>pi\<close> after the updates of the ids from position
  \<open>i\<close> on: each update whose id is \<open>pi\<close>'s writes its position, the last one wins.
\<close>

fun reindex :: "ident list \<Rightarrow> nat \<Rightarrow> playlist_item \<Rightarrow> playlist_item" where
  "reindex [] i pi = pi"
| "reindex (x # xs) i pi =
     reindex xs (Suc i) (if pi_id pi = x then pi\<lparr>pi_order_index := int i\<rparr> else pi)"

section \<open>Lemmas on reordering\<close>

lemma reindex_keeps [simp]:
  "pi_id (reindex ids i pi) = pi_id pi" "pi_playlist_id (reindex ids i pi) = pi_playlist_id pi"
  by (induction ids i pi rule: reindex.induct) simp_all

lemma reindex_notin: "pi_id pi \<notin> set ids \<Longrightarrow> reindex ids i pi = pi"
  by (induction ids i pi rule: reindex.induct) auto

lemma reindex_position:
  "distinct ids \<Longrightarrow> pi_id pi \<in> set ids \<Longrightarrow>
   pi_order_index (reindex ids i pi) = int (i + position ids (pi_id pi))"
proof (induction ids i pi rule: reindex.induct)
  case (1 i pi)
  then show ?case by simp
next
  case (2 x xs i pi)
  show ?case
  proof (cases "pi_id pi = x")
    case True
    with "2.prems" have "x \<notin> set xs" by simp
    with True show ?thesis by (simp add: reindex_notin)
  next
    case False
    with "2.prems" "2.IH" show ?thesis by simp
  qed
qed

lemma keys_update_order_index:
  "update_row playlist_items_tbl x (\<lambda>pi. pi\<lparr>pi_order_index := k\<rparr>) db = Inr (db', r) \<Longrightarrow>
   map pi_id (db_playlist_items db') = map pi_id (db_playlist_items db) \<and>
   db_playlist_items db' = update_where (\<lambda>y. pi_id y = x) (\<lambda>pi. pi\<lparr>pi_order_index := k\<rparr>)
     (db_playlist_items db) \<and>
   db' = db\<lparr>db_playlist_items := db_playlist_items db'\<rparr>"
  by (auto dest!: update_row_Inr simp: table_simps map_update_where_frame)

lemma reorder_updates_ok:
  "(\<forall>x \<in> set ids. x \<in> pi_id ` set (db_playlist_items db)) \<Longrightarrow>
   reorder_updates ids i db = Inr (db\<lparr>db_playlist_items := map (reindex ids i) (db_playlist_items db)\<rparr>)"
proof (induction ids arbitrary: i db)
  case Nil
  then show ?case by simp
next
  case (Cons x xs)
  from Cons.prems obtain r0 where "r0 \<in> set (db_playlist_items db)" "pi_id r0 = x" by auto
  then obtain r where "find (\<lambda>r. pi_id r = x) (db_playlist_items db) = Some r"
    using find_in_set_Some [where P = "\<lambda>r. pi_id r = x"] by blast
  then have r: "find_unique playlist_items_tbl x db = Some r"
    by (simp add: find_unique_def table_simps)
  let ?g = "\<lambda>pi. pi\<lparr>pi_order_index := int i\<rparr>"
  let ?db' = "db\<lparr>db_playlist_items := update_where (\<lambda>y. pi_id y = x) ?g (db_playlist_items db)\<rparr>"
  have upd: "update_row playlist_items_tbl x ?g db = Inr (?db', ?g r)"
    using update_row_key_kept [OF r, of ?g] by (simp add: table_simps)
  have keys: "map pi_id (update_where (\<lambda>y. pi_id y = x) ?g (db_playlist_items db)) =
      map pi_id (db_playlist_items db)"
    by (simp add: map_update_where_frame)
  then have "set (map pi_id (update_where (\<lambda>y. pi_id y = x) ?g (db_playlist_items db))) =
      set (map pi_id (db_playlist_items db))"
    by (simp only:)
  then have "\<forall>y \<in> set xs. y \<in> pi_id ` set (db_playlist_items ?db')"
    using Cons.prems by simp
  then have "reorder_updates xs (Suc i) ?db' =
      Inr (?db'\<lparr>db_playlist_items := map (reindex xs (Suc i)) (db_playlist_items ?db')\<rparr>)"
    by (rule Cons.IH)
  moreover have "map (reindex xs (Suc i)) (update_where (\<lambda>y. pi_id y = x) ?g (db_playlist_items db)) =
      map (reindex (x # xs) i) (db_playlist_items db)"
    by (simp add: update_where_def)
  ultimately show ?case using upd by simp
qed

lemma reorder_updates_missing:
  "x \<in> set ids \<Longrightarrow> x \<notin> pi_id ` set (db_playlist_items db) \<Longrightarrow> \<exists>e. reorder_updates ids i db = Inl e"
proof (induction ids arbitrary: i db)
  case Nil
  then show ?case by simp
next
  case (Cons y ys)
  show ?case
  proof (cases "update_row playlist_items_tbl y (\<lambda>pi. pi\<lparr>pi_order_index := int i\<rparr>) db")
    case (Inl e)
    then show ?thesis by simp
  next
    case (Inr p)
    obtain db' r where p: "p = (db', r)" by (cases p)
    with Inr have keys: "map pi_id (db_playlist_items db') = map pi_id (db_playlist_items db)"
      using keys_update_order_index by blast
    have "y \<noteq> x"
    proof
      assume "y = x"
      with Cons.prems have "find_unique playlist_items_tbl y db = None"
        by (simp add: find_unique_None table_simps)
      with Inr show False by (simp add: update_row_def)
    qed
    from keys have "set (map pi_id (db_playlist_items db')) = set (map pi_id (db_playlist_items db))"
      by (simp only:)
    with Cons.prems \<open>y \<noteq> x\<close> have "x \<in> set ys" "x \<notin> pi_id ` set (db_playlist_items db')"
      by auto
    then have "\<exists>e. reorder_updates ys (Suc i) db' = Inl e" by (rule Cons.IH)
    with Inr p show ?thesis by simp
  qed
qed

lemma playlist_filter_reindex:
  "filter (\<lambda>pi. pi_playlist_id pi = pid) (map (reindex ids i) xs) =
   map (reindex ids i) (filter (\<lambda>pi. pi_playlist_id pi = pid) xs)"
  by (induction xs) simp_all

lemma distinct_playlist_ids:
  "keys_distinct playlist_items_tbl db \<Longrightarrow> distinct (map pi_id (playlist_items_ordered db pid))"
proof -
  assume "keys_distinct playlist_items_tbl db"
  then have "distinct (map pi_id (filter (\<lambda>pi. pi_playlist_id pi = pid) (db_playlist_items db)))"
    by (simp add: keys_distinct_def table_simps distinct_map_filter)
  moreover have "mset (playlist_items_ordered db pid) =
      mset (filter (\<lambda>pi. pi_playlist_id pi = pid) (db_playlist_items db))"
    by (simp add: playlist_items_ordered_def order_asc_def)
  ultimately show ?thesis
    by (metis mset_eq_imp_distinct_iff mset_map)
qed

lemma reorder_ordered:
  assumes kd: "keys_distinct playlist_items_tbl db" and di: "distinct ids"
    and set_ids: "set ids = pi_id ` {pi \<in> set (db_playlist_items db). pi_playlist_id pi = pid}"
  shows "playlist_items_reorder ids db =
           (db\<lparr>db_playlist_items := map (reindex ids 0) (db_playlist_items db)\<rparr>, Ok ())"
    and "map pi_id (playlist_items_ordered
           (db\<lparr>db_playlist_items := map (reindex ids 0) (db_playlist_items db)\<rparr>) pid) = ids"
    and "map pi_order_index (playlist_items_ordered
           (db\<lparr>db_playlist_items := map (reindex ids 0) (db_playlist_items db)\<rparr>) pid) =
         map int [0..<length ids]"
proof -
  let ?db' = "db\<lparr>db_playlist_items := map (reindex ids 0) (db_playlist_items db)\<rparr>"
  let ?F = "filter (\<lambda>pi. pi_playlist_id pi = pid) (db_playlist_items db)"
  let ?S = "sort_key pi_order_index (map (reindex ids 0) ?F)"
  have "\<forall>x \<in> set ids. x \<in> pi_id ` set (db_playlist_items db)"
    using set_ids by auto
  then show "playlist_items_reorder ids db = (?db', Ok ())"
    by (simp add: playlist_items_reorder_def reorder_updates_ok)
  have ord: "playlist_items_ordered ?db' pid = ?S"
    by (simp add: playlist_items_ordered_def order_asc_def playlist_filter_reindex)
  have oi: "pi_order_index y = int (position ids (pi_id y))" if "y \<in> set ?S" for y
  proof -
    from that obtain z where z: "z \<in> set ?F" "y = reindex ids 0 z" by auto
    then have "pi_id z \<in> set ids" using set_ids by auto
    with z di show ?thesis by (simp add: reindex_position)
  qed
  have map_oi: "map pi_order_index ?S = map int (map (position ids) (map pi_id ?S))"
  proof -
    have "map pi_order_index ?S = map (\<lambda>y. int (position ids (pi_id y))) ?S"
      by (rule map_cong) (simp_all add: oi)
    then show ?thesis by simp
  qed
  have dF: "distinct (map pi_id ?F)"
    using kd by (simp add: keys_distinct_def table_simps distinct_map_filter)
  have "set (map pi_id ?F) = set ids"
    using set_ids by auto
  then have "mset (map pi_id ?F) = mset ids"
    using dF di set_eq_iff_mset_eq_distinct by blast
  moreover have "mset (map pi_id ?S) = mset (map pi_id ?F)"
    by (simp add: image_mset.compositionality comp_def)
  ultimately have mset_eq: "mset (map pi_id ?S) = mset ids" by simp
  have "sorted (map pi_order_index ?S)" by simp
  then have "sorted (map (position ids) (map pi_id ?S))"
    by (simp only: map_oi sorted_map) (simp add: sorted_wrt_map)
  with di mset_eq have ids: "map pi_id ?S = ids"
    by (rule sorted_by_position_unique)
  with ord show "map pi_id (playlist_items_ordered ?db' pid) = ids" by simp
  from ord map_oi ids di show "map pi_order_index (playlist_items_ordered ?db' pid) = map int [0..<length ids]"
    by (simp add: map_position_distinct)
qed

lemma move_item_Some:
  assumes "move_item xs index dir = Some ids" and "j = (case dir of Up \<Rightarrow> index - 1 | Down \<Rightarrow> Suc index)"
    and "index < length xs"
  shows "j < length xs \<and> ids = map pi_id (xs[index := xs ! j, j := xs ! index])"
proof -
  have "nat (int index - 1) = index - 1" "nat (int index + 1) = Suc index"
    by (cases index; simp)+
  with assms show ?thesis by (cases dir) (auto simp: move_item_def Let_def split: if_splits)
qed

section \<open>Properties of the playlist routes and the editor\<close>

text \<open>
  C16. Reordering a playlist with a permutation of its item ids (what the editor sends)
  succeeds, and afterwards the playlist lists its items in exactly the order sent, with
  order indices 0, 1, ..., n - 1.
\<close>

theorem playlist_items_reorder_roundtrip:
  assumes "keys_distinct playlist_items_tbl db" and "distinct ids"
    and "set ids = pi_id ` {pi \<in> set (db_playlist_items db). pi_playlist_id pi = pid}"
  shows "\<exists>db'. playlist_items_reorder ids db = (db', Ok ()) \<and>
           map pi_id (playlist_items_ordered db' pid) = ids \<and>
           map pi_order_index (playlist_items_ordered db' pid) = map int [0..<length ids]"
  using reorder_ordered [OF assms] by blast

text \<open>
  C17. If one id of a reorder request has no row, the transaction fails with 500 and
  none of the updates is kept.
\<close>

theorem playlist_items_reorder_atomic:
  assumes "x \<in> set ids" and "x \<notin> pi_id ` set (db_playlist_items db)"
  shows "playlist_items_reorder ids db = (db, Fail 500 ''Failed to reorder items'')"
  using reorder_updates_missing [OF assms, of 0] by (auto simp: playlist_items_reorder_def)

text \<open>
  C18. Moving an item up or down in the editor and sending the new order makes the
  playlist list the old order with the item and its neighbour swapped.
\<close>

theorem move_item_reorder_swaps:
  assumes "keys_distinct playlist_items_tbl db" and "xs = playlist_items_ordered db pid"
    and "index < length xs" and "move_item xs index dir = Some ids"
    and "j = (case dir of Up \<Rightarrow> index - 1 | Down \<Rightarrow> Suc index)"
  shows "\<exists>db'. playlist_items_reorder ids db = (db', Ok ()) \<and>
           map pi_id (playlist_items_ordered db' pid) = map pi_id (xs[index := xs ! j, j := xs ! index])"
proof -
  from move_item_Some [OF assms(4,5,3)]
  have j: "j < length xs" and ids: "ids = map pi_id (xs[index := xs ! j, j := xs ! index])"
    by simp_all
  have ms: "mset (xs[index := xs ! j, j := xs ! index]) = mset xs"
    using mset_swap [of j xs index] j assms(3) by simp
  then have "mset ids = mset (map pi_id xs)" by (simp add: ids)
  moreover have "distinct (map pi_id xs)"
    using assms(1,2) by (simp add: distinct_playlist_ids)
  ultimately have di: "distinct ids" by (metis mset_eq_imp_distinct_iff)
  have "set ids = pi_id ` set xs"
    using ms by (metis ids list.set_map mset_eq_setD)
  then have "set ids = pi_id ` {pi \<in> set (db_playlist_items db). pi_playlist_id pi = pid}"
    by (simp add: assms(2))
  from reorder_ordered [OF assms(1) di this] ids show ?thesis by blast
qed

text \<open>
  C19. While a playlist's order indices are 0, ..., n - 1 (as after a reorder), adding
  a content item from the editor (at index \<open>items.length\<close>) puts it last and keeps the
  indices contiguous.
\<close>

theorem handle_add_content_appends:
  assumes "map pi_order_index (playlist_items_ordered db pid) =
             map int [0..<length (playlist_items_ordered db pid)]"
    and "fresh \<notin> pi_id ` set (db_playlist_items db)"
  shows "\<exists>db' pi c. handle_add_content pid cid fresh now db = (db', Ok (pi, c)) \<and>
           pi_order_index pi = int (length (playlist_items_ordered db pid)) \<and>
           playlist_items_ordered db' pid = playlist_items_ordered db pid @ [pi] \<and>
           map pi_order_index (playlist_items_ordered db' pid) =
             map int [0..<Suc (length (playlist_items_ordered db pid))]"
proof -
  let ?xs = "playlist_items_ordered db pid"
  let ?F = "filter (\<lambda>pi. pi_playlist_id pi = pid) (db_playlist_items db)"
  let ?new = "\<lparr>pi_id = fresh, pi_playlist_id = pid, pi_content_item_id = cid,
              pi_order_index = int (length ?xs), pi_created_at = now\<rparr>"
  let ?db' = "db\<lparr>db_playlist_items := db_playlist_items db @ [?new]\<rparr>"
  have add: "handle_add_content pid cid fresh now db =
      (?db', Ok (?new, find_unique content_tbl cid ?db'))"
    using assms(2) by (simp add: handle_add_content_def playlist_items_post_def create_row_def table_simps)
  have small: "\<forall>y \<in> set ?F. pi_order_index y \<le> int (length ?xs)"
  proof
    fix y assume "y \<in> set ?F"
    then have "y \<in> set ?xs" by simp
    then have "pi_order_index y \<in> set (map pi_order_index ?xs)" by simp
    then show "pi_order_index y \<le> int (length ?xs)" by (simp only: assms(1)) auto
  qed
  have ord: "playlist_items_ordered ?db' pid = ?xs @ [?new]"
    using small by (simp add: playlist_items_ordered_def order_asc_def sort_key_snoc_max)
  show ?thesis using add ord assms(1) by simp
qed


section \<open>Witnesses\<close>

theorem playlist_items_reorder_roundtrip_witness:
  "\<exists>db'. playlist_items_reorder [''i2'', ''i0'', ''i1''] ex_db = (db', Ok ()) \<and>
     map pi_id (playlist_items_ordered db' ''P'') = [''i2'', ''i0'', ''i1''] \<and>
     map pi_order_index (playlist_items_ordered db' ''P'') = [0, 1, 2]"
proof -
  have all: "{pi \<in> set (db_playlist_items ex_db). pi_playlist_id pi = ''P''} = set (db_playlist_items ex_db)"
    by (auto simp: example_defs)
  have "set [''i2'', ''i0'', ''i1''] = pi_id ` {pi \<in> set (db_playlist_items ex_db). pi_playlist_id pi = ''P''}"
    unfolding all by (auto simp: example_defs)
  then have "\<exists>db'. playlist_items_reorder [''i2'', ''i0'', ''i1''] ex_db = (db', Ok ()) \<and>
     map pi_id (playlist_items_ordered db' ''P'') = [''i2'', ''i0'', ''i1''] \<and>
     map pi_order_index (playlist_items_ordered db' ''P'') = map int [0..<length [''i2'', ''i0'', ''i1'']]"
    by (intro playlist_items_reorder_roundtrip) (simp_all add: keys_distinct_def table_simps example_defs)
  then show ?thesis by simp
qed

theorem playlist_items_reorder_atomic_witness:
  "playlist_items_reorder [''i0'', ''nope''] ex_db = (ex_db, Fail 500 ''Failed to reorder items'')"
  by (rule playlist_items_reorder_atomic [of "''nope''"]) (auto simp: example_defs)

theorem move_item_reorder_swaps_witness:
  "\<exists>db'. playlist_items_reorder [''i1'', ''i0'', ''i2''] ex_db = (db', Ok ()) \<and>
     map pi_id (playlist_items_ordered db' ''P'') = [''i1'', ''i0'', ''i2'']"
proof -
  have xs: "playlist_items_ordered ex_db ''P'' = [ex_item ''i0'' ''X'' 0, ex_item ''i1'' ''Y'' 1, ex_item ''i2'' ''Z'' 2]"
    by (simp add: playlist_items_ordered_def order_asc_def example_defs)
  have mv: "move_item (playlist_items_ordered ex_db ''P'') 0 Down = Some [''i1'', ''i0'', ''i2'']"
    by (simp add: xs move_item_def ex_item_def)
  have "\<exists>db'. playlist_items_reorder [''i1'', ''i0'', ''i2''] ex_db = (db', Ok ()) \<and>
     map pi_id (playlist_items_ordered db' ''P'') =
       map pi_id ((playlist_items_ordered ex_db ''P'')[0 := (playlist_items_ordered ex_db ''P'') ! 1,
                   1 := (playlist_items_ordered ex_db ''P'') ! 0])"
    by (rule move_item_reorder_swaps [OF _ refl _ mv])
       (simp_all add: keys_distinct_def table_simps xs, simp add: example_defs)
  then show ?thesis by (simp add: xs ex_item_def)
qed

theorem handle_add_content_appends_witness:
  "\<exists>db' pi c. handle_add_content ''P'' ''W'' ''i3'' 7 ex_db = (db', Ok (pi, c)) \<and>
     pi_order_index pi = 3 \<and>
     playlist_items_ordered db' ''P'' = playlist_items_ordered ex_db ''P'' @ [pi] \<and>
     map pi_order_index (playlist_items_ordered db' ''P'') = [0, 1, 2, 3]"
proof -
  have xs: "playlist_items_ordered ex_db ''P'' = [ex_item ''i0'' ''X'' 0, ex_item ''i1'' ''Y'' 1, ex_item ''i2'' ''Z'' 2]"
    by (simp add: playlist_items_ordered_def order_asc_def example_defs)
  have fresh: "''i3'' \<notin> pi_id ` set (db_playlist_items ex_db)"
    by (simp add: example_defs)
  have "\<exists>db' pi c. handle_add_content ''P'' ''W'' ''i3'' 7 ex_db = (db', Ok (pi, c)) \<and>
     pi_order_index pi = int (length (playlist_items_ordered ex_db ''P'')) \<and>
     playlist_items_ordered db' ''P'' = playlist_items_ordered ex_db ''P'' @ [pi] \<and>
     map pi_order_index (playlist_items_ordered db' ''P'') =
       map int [0..<Suc (length (playlist_items_ordered ex_db ''P''))]"
    by (rule handle_add_content_appends [OF _ fresh]) (simp add: xs ex_item_def)
  then show ?thesis by (simp add: xs upt_rec)
qed

end
