(* ===== verification/Admin_Routes.thy ===== *)
theory Admin_Routes
  imports Store
begin

text \<open>
  The administrative routes of the Express server: \<open>src/server/src/routes/alerts.ts\<close>,
  \<open>content.ts\<close>, \<open>displays.ts\<close>, \<open>assignments.ts\<close> (list newest first, create,
  patch with an \<open>updated_at\<close> stamp, delete), \<open>auth.ts\<close> (login, registering an
  unknown email as a viewer) and \<open>audit.ts\<close> (the hundred newest log entries, and
  append). Each is an instance of a generic handler of \<open>Store\<close> with the route's
  table, stamp and error message. A request body is the row it describes (the
  database supplies ids and creation instants); a PATCH body is the function on the
  row that the spread \<open>{ ...req.body }\<close> performs.
\<close>

section \<open>Alerts\<close>

definition alerts_get :: "db \<Rightarrow> alert list api_response" where
  "alerts_get db = list_handler alerts_tbl al_created_at db"

definition alerts_post :: "alert \<Rightarrow> db \<Rightarrow> db \<times> alert api_response" where
  "alerts_post body db = create_handler alerts_tbl ''Failed to create alert'' body db"

definition alerts_patch ::
  "ident \<Rightarrow> (alert \<Rightarrow> alert) \<Rightarrow> timestamp \<Rightarrow> db \<Rightarrow> db \<times> alert api_response" where
  "alerts_patch k body now db =
     patch_handler alerts_tbl (\<lambda>t a. a\<lparr>al_updated_at := Some t\<rparr>) ''Failed to update alert'' k body now db"

definition alerts_delete :: "ident \<Rightarrow> db \<Rightarrow> db \<times> unit api_response" where
  "alerts_delete k db = delete_handler alerts_tbl ''Failed to delete alert'' k db"

section \<open>Content items\<close>

definition content_get :: "db \<Rightarrow> content_item list api_response" where
  "content_get db = list_handler content_tbl ci_created_at db"

definition content_post :: "content_item \<Rightarrow> db \<Rightarrow> db \<times> content_item api_response" where
  "content_post body db = create_handler content_tbl ''Failed to create content item'' body db"

definition content_patch ::
  "ident \<Rightarrow> (content_item \<Rightarrow> content_item) \<Rightarrow> timestamp \<Rightarrow> db \<Rightarrow> db \<times> content_item api_response" where
  "content_patch k body now db =
     patch_handler content_tbl (\<lambda>t c. c\<lparr>ci_updated_at := t\<rparr>) ''Failed to update content item''
       k body now db"

definition content_delete :: "ident \<Rightarrow> db \<Rightarrow> db \<times> unit api_response" where
  "content_delete k db = delete_handler content_tbl ''Failed to delete content item'' k db"

section \<open>Displays\<close>

definition displays_get :: "db \<Rightarrow> display list api_response" where
  "displays_get db = list_handler displays_tbl disp_created_at db"

definition displays_post :: "display \<Rightarrow> db \<Rightarrow> db \<times> display api_response" where
  "displays_post body db = create_handler displays_tbl ''Failed to create display'' body db"

definition displays_patch ::
  "ident \<Rightarrow> (display \<Rightarrow> display) \<Rightarrow> timestamp \<Rightarrow> db \<Rightarrow> db \<times> display api_response" where
  "displays_patch k body now db =
     patch_handler displays_tbl (\<lambda>t d. d\<lparr>disp_updated_at := Some t\<rparr>) ''Failed to update display''
       k body now db"

definition displays_delete :: "ident \<Rightarrow> db \<Rightarrow> db \<times> unit api_response" where
  "displays_delete k db = delete_handler displays_tbl ''Failed to delete display'' k db"

section \<open>Display assignments\<close>

text \<open>
  The assignment routes answer each row with its display and playlist included
  (\<open>include: { display: true, playlist: true }\<close>), \<open>null\<close> when missing.
\<close>

definition with_relations ::
  "db \<Rightarrow> display_assignment \<Rightarrow> display_assignment \<times> display option \<times> playlist option" where
  "with_relations db a =
     (a, find_unique displays_tbl (da_display_id a) db, find_unique playlists_tbl (da_playlist_id a) db)"

definition assignments_get ::
  "db \<Rightarrow> (display_assignment \<times> display option \<times> playlist option) list api_response" where
  "assignments_get db =
     Ok (map (with_relations db) (order_desc da_created_at (db_assignments db)))"

definition assignments_post ::
  "display_assignment \<Rightarrow> db
     \<Rightarrow> db \<times> (display_assignment \<times> display option \<times> playlist option) api_response" where
  "assignments_post body db =
     (case create_row assignments_tbl body db of
        Inl _ \<Rightarrow> (db, Fail 500 ''Failed to create assignment'')
      | Inr (db', a) \<Rightarrow> (db', Ok (with_relations db' a)))"

definition assignments_patch ::
  "ident \<Rightarrow> (display_assignment \<Rightarrow> display_assignment) \<Rightarrow> timestamp \<Rightarrow> db
     \<Rightarrow> db \<times> (display_assignment \<times> display option \<times> playlist option) api_response" where
  "assignments_patch k body now db =
     (case update_row assignments_tbl k (\<lambda>a. (body a)\<lparr>da_updated_at := Some now\<rparr>) db of
        Inl _ \<Rightarrow> (db, Fail 500 ''Failed to update assignment'')
      | Inr (db', a) \<Rightarrow> (db', Ok (with_relations db' a)))"

definition assignments_delete :: "ident \<Rightarrow> db \<Rightarrow> db \<times> unit api_response" where
  "assignments_delete k db = delete_handler assignments_tbl ''Failed to delete assignment'' k db"

section \<open>Login\<close>

text \<open>
  \<open>POST /auth/login\<close> with body \<open>{ email }\<close>: 400 when \<open>!email\<close> (absent or
  empty); the user with that email if there is one; otherwise a new user named by
  \<open>email.split('@')[0]\<close>, with role \<open>VIEWER\<close>.
\<close>

definition email_local_part :: "string \<Rightarrow> string" where
  "email_local_part e = takeWhile (\<lambda>c. c \<noteq> CHR ''@'') e"

text \<open>The row \<open>create\<close> writes for an unknown email: \<open>{ email, name, role: 'VIEWER' }\<close>.\<close>

definition new_viewer :: "ident \<Rightarrow> string \<Rightarrow> timestamp \<Rightarrow> user" where
  "new_viewer fresh e now =
     \<lparr>usr_id = fresh, usr_email = e, usr_name = email_local_part e,
      usr_avatar_url = None, usr_role = VIEWER, usr_created_at = now\<rparr>"

definition login :: "string option \<Rightarrow> ident \<Rightarrow> timestamp \<Rightarrow> db \<Rightarrow> db \<times> user api_response" where
  "login email fresh now db =
     (case email of
        None \<Rightarrow> (db, Fail 400 ''Email is required'')
      | Some e \<Rightarrow>
          if e = [] then (db, Fail 400 ''Email is required'')
          else (case find (\<lambda>u. usr_email u = e) (db_users db) of
                  Some u \<Rightarrow> (db, Ok u)
                | None \<Rightarrow>
                    (case create_row users_tbl (new_viewer fresh e now) db of
                       Inl _ \<Rightarrow> (db, Fail 500 ''Failed to login'')
                     | Inr (db', u) \<Rightarrow> (db', Ok u))))"

section \<open>Audit log\<close>

text \<open>
  \<open>GET /audit_logs\<close>: \<open>findMany({ orderBy: { created_at: 'desc' }, include: { user:
  true }, take: 100 })\<close>.
\<close>

definition audit_get :: "db \<Rightarrow> (audit_log \<times> user option) list api_response" where
  "audit_get db =
     Ok (map (\<lambda>l. (l, case log_user_id l of None \<Rightarrow> None
                     | Some u \<Rightarrow> find_unique users_tbl u db))
          (take 100 (order_desc log_created_at (db_audit_logs db))))"

definition audit_post :: "audit_log \<Rightarrow> db \<Rightarrow> db \<times> audit_log api_response" where
  "audit_post body db = create_handler audit_tbl ''Failed to create log'' body db"


section \<open>Example state\<close>

definition ex_admin :: user where
  "ex_admin = \<lparr>usr_id = ''u1'', usr_email = ''ann@school.edu'', usr_name = ''ann'',
     usr_avatar_url = None, usr_role = ADMIN, usr_created_at = 0\<rparr>"

definition ex_log :: "ident \<Rightarrow> timestamp \<Rightarrow> audit_log" where
  "ex_log i t = \<lparr>log_id = i, log_user_id = Some ''u1'', log_action = ''UPDATE'',
     log_entity_type = ''display'', log_entity_id = None, log_details = None, log_created_at = t\<rparr>"

definition ex_admin_db :: db where
  "ex_admin_db = \<lparr>db_users = [ex_admin], db_displays = [], db_content_items = [],
     db_playlists = [], db_playlist_items = [], db_assignments = [], db_alerts = [],
     db_audit_logs = [ex_log ''l1'' 5, ex_log ''l2'' 7, ex_log ''l3'' 6]\<rparr>"

section \<open>Properties\<close>

lemma login_Some:
  "e \<noteq> [] \<Longrightarrow> login (Some e) fresh now db =
     (case find (\<lambda>u. usr_email u = e) (db_users db) of
        Some u \<Rightarrow> (db, Ok u)
      | None \<Rightarrow>
          (if fresh \<in> usr_id ` set (db_users db) then (db, Fail 500 ''Failed to login'')
           else (db\<lparr>db_users := db_users db @ [new_viewer fresh e now]\<rparr>, Ok (new_viewer fresh e now))))"
  by (simp add: login_def create_row_def new_viewer_def table_simps split: option.splits)

lemma login_no_email [simp]:
  "login None fresh now db = (db, Fail 400 ''Email is required'')"
  "login (Some []) fresh now db = (db, Fail 400 ''Email is required'')"
  by (simp_all add: login_def)

text \<open>
  C21. Logging in with a non-empty email that no user has registers a new user
  with that email, role \<open>VIEWER\<close> and the part of the email before the first
  \<open>@\<close> as name, appends it to the users and answers it.
\<close>
lemma login_registers_viewer:
  assumes "e \<noteq> []" and "find (\<lambda>u. usr_email u = e) (db_users db) = None"
    and "fresh \<notin> usr_id ` set (db_users db)"
  shows "login (Some e) fresh now db =
           (db\<lparr>db_users := db_users db @ [new_viewer fresh e now]\<rparr>, Ok (new_viewer fresh e now)) \<and>
         usr_role (new_viewer fresh e now) = VIEWER \<and>
         usr_name (new_viewer fresh e now) = takeWhile (\<lambda>c. c \<noteq> CHR ''@'') e"
  using assms by (simp add: login_Some new_viewer_def email_local_part_def)

text \<open>
  C22. Login is idempotent: after a successful login with an email, logging in
  again with that email answers the same user and leaves the database unchanged.
\<close>
lemma login_idempotent:
  assumes "login (Some e) fresh now db = (db1, Ok u)"
  shows "login (Some e) fresh' now' db1 = (db1, Ok u)"
proof -
  have e: "e \<noteq> []" using assms by (auto simp: login_def)
  show ?thesis
  proof (cases "find (\<lambda>u. usr_email u = e) (db_users db)")
    case None
    with assms e have "db1 = db\<lparr>db_users := db_users db @ [new_viewer fresh e now]\<rparr>"
      and "u = new_viewer fresh e now"
      by (auto simp: login_Some split: if_splits)
    with None e show ?thesis by (simp add: login_Some new_viewer_def find_append_None)
  next
    case (Some u')
    with assms e show ?thesis by (simp add: login_Some)
  qed
qed

text \<open>
  C23. Login answers 400 exactly when the email is absent or empty, and it either
  leaves the database unchanged or appends the new viewer for that email.
\<close>
lemma login_effect:
  "(snd (login email fresh now db) = Fail 400 ''Email is required'' \<longleftrightarrow> email = None \<or> email = Some []) \<and>
   (fst (login email fresh now db) = db \<or>
    (\<exists>e. email = Some e \<and> fst (login email fresh now db) = db\<lparr>db_users := db_users db @ [new_viewer fresh e now]\<rparr>))"
proof (cases email)
  case (Some e)
  then show ?thesis by (cases "e = []") (auto simp: login_Some split: option.splits)
qed simp

lemma sorted_take_drop_le:
  assumes "sorted (map f xs)" and "x \<in> set (drop k xs)" and "y \<in> set (take k xs)"
  shows "f y \<le> f x"
proof -
  have "sorted (map f (take k xs) @ map f (drop k xs))"
    using assms(1) by (simp flip: map_append)
  then show ?thesis using assms(2,3) by (auto simp: sorted_append)
qed

text \<open>
  C24. The audit log listing answers the \<open>min 100 n\<close> newest of the \<open>n\<close> log
  entries, newest first: its entries are entries of the table, in non-increasing
  \<open>created_at\<close> order, and no entry left out is newer than one answered.
\<close>
lemma audit_get_newest_hundred:
  assumes "audit_get db = Ok ls"
  shows "length ls = min 100 (length (db_audit_logs db)) \<and>
         mset (map fst ls) \<subseteq># mset (db_audit_logs db) \<and>
         sorted_wrt (\<lambda>a b. log_created_at b \<le> log_created_at a) (map fst ls) \<and>
         (\<forall>l \<in># mset (db_audit_logs db) - mset (map fst ls). \<forall>p \<in> set ls.
            log_created_at l \<le> log_created_at (fst p))"
proof -
  let ?s = "sort_key (\<lambda>l. - log_created_at l) (db_audit_logs db)"
  have ls: "map fst ls = take 100 ?s" using assms by (auto simp: audit_get_def order_desc_def comp_def)
  have len: "length ls = min 100 (length (db_audit_logs db))"
    using arg_cong [OF ls, of length] by simp
  have srt: "sorted (map (\<lambda>l. - log_created_at l) ?s)" by simp
  have ms: "mset (db_audit_logs db) = mset (take 100 ?s) + mset (drop 100 ?s)"
    by (simp flip: mset_append)
  have sub: "mset (map fst ls) \<subseteq># mset (db_audit_logs db)" using ls ms by simp
  have sw: "sorted_wrt (\<lambda>a b. log_created_at b \<le> log_created_at a) (map fst ls)"
  proof -
    have "sorted_wrt (\<lambda>a b. - log_created_at a \<le> - log_created_at b) ?s"
      using srt by (simp add: sorted_map)
    then have "sorted_wrt (\<lambda>a b. log_created_at b \<le> log_created_at a) ?s"
      by (rule sorted_wrt_mono_rel [rotated]) simp
    then show ?thesis by (simp add: ls sorted_wrt_take)
  qed
  have "log_created_at l \<le> log_created_at (fst p)"
    if "l \<in># mset (db_audit_logs db) - mset (map fst ls)" "p \<in> set ls" for l p
  proof -
    have "l \<in> set (drop 100 ?s)" using that(1) ls ms by simp
    moreover have "fst p \<in> set (take 100 ?s)" using that(2) ls by (metis image_eqI list.set_map)
    ultimately show ?thesis using sorted_take_drop_le [OF srt] by fastforce
  qed
  with len sub sw show ?thesis by blast
qed

lemma login_registers_viewer_witness:
  "login (Some ''bob@school.edu'') ''u2'' 3 ex_admin_db =
     (ex_admin_db\<lparr>db_users := [ex_admin, new_viewer ''u2'' ''bob@school.edu'' 3]\<rparr>,
      Ok (new_viewer ''u2'' ''bob@school.edu'' 3)) \<and>
   usr_name (new_viewer ''u2'' ''bob@school.edu'' 3) = ''bob''"
  using login_registers_viewer [of "''bob@school.edu''" ex_admin_db "''u2''" 3]
  by (simp add: ex_admin_db_def ex_admin_def)

lemma login_idempotent_witness:
  "login (Some ''bob@school.edu'') ''u3'' 4
      (ex_admin_db\<lparr>db_users := [ex_admin, new_viewer ''u2'' ''bob@school.edu'' 3]\<rparr>) =
   (ex_admin_db\<lparr>db_users := [ex_admin, new_viewer ''u2'' ''bob@school.edu'' 3]\<rparr>,
    Ok (new_viewer ''u2'' ''bob@school.edu'' 3))"
proof -
  have "login (Some ''bob@school.edu'') ''u2'' 3 ex_admin_db =
          (ex_admin_db\<lparr>db_users := [ex_admin, new_viewer ''u2'' ''bob@school.edu'' 3]\<rparr>,
           Ok (new_viewer ''u2'' ''bob@school.edu'' 3))"
    by (simp add: login_Some ex_admin_db_def ex_admin_def)
  from login_idempotent [OF this] show ?thesis .
qed

lemma login_effect_witness:
  "snd (login (Some []) ''u2'' 3 ex_admin_db) = Fail 400 ''Email is required'' \<and>
   fst (login (Some ''ann@school.edu'') ''u2'' 3 ex_admin_db) = ex_admin_db"
  using login_effect [of "Some []" "''u2''" 3 ex_admin_db]
  by (simp add: login_Some ex_admin_db_def ex_admin_def)

lemma audit_get_newest_hundred_witness:
  "audit_get ex_admin_db =
     Ok [(ex_log ''l2'' 7, Some ex_admin), (ex_log ''l3'' 6, Some ex_admin),
         (ex_log ''l1'' 5, Some ex_admin)] \<and>
   sorted_wrt (\<lambda>a b. log_created_at b \<le> log_created_at a)
     [ex_log ''l2'' 7, ex_log ''l3'' 6, ex_log ''l1'' 5]"
proof -
  have h: "audit_get ex_admin_db =
     Ok [(ex_log ''l2'' 7, Some ex_admin), (ex_log ''l3'' 6, Some ex_admin),
         (ex_log ''l1'' 5, Some ex_admin)]"
    by (simp add: audit_get_def order_desc_def ex_admin_db_def ex_log_def ex_admin_def
        find_unique_def table_simps)
  show ?thesis using h audit_get_newest_hundred [OF h] by simp
qed

end
