(* ===== verification/Api.thy ===== *)
theory Api
  imports Playlists Admin_Routes
begin

text \<open>
  The state-changing calls of the Express API as one datatype, one constructor per
  route handler that writes (\<open>POST\<close>, \<open>PATCH\<close>, \<open>DELETE\<close> of
  \<open>src/server/src/routes/*.ts\<close>), with the request's parameters and body and the
  instants the handler reads from the clock. \<open>api_step\<close> runs the handler on the
  database and returns the new database with the HTTP status of the answer. The
  database reachable from the empty one by any sequence of calls keeps unique
  primary keys in every table, and a call that fails writes nothing, except the
  player content route, which can fail with 500 after its liveness write.
\<close>

datatype api_call =
    PlayerContent player_request timestamp timestamp
  | Heartbeat player_request timestamp
  | LoginCall "string option" ident timestamp
  | DisplaysPost display
  | DisplaysPatch ident "display \<Rightarrow> display" timestamp
  | DisplaysDelete ident
  | ContentPost content_item
  | ContentPatch ident "content_item \<Rightarrow> content_item" timestamp
  | ContentDelete ident
  | PlaylistsPost playlist
  | PlaylistsPatch ident "playlist \<Rightarrow> playlist" timestamp
  | PlaylistsDelete ident
  | PlaylistItemsPost ident ident int ident timestamp
  | PlaylistItemDelete ident
  | PlaylistItemsReorder "ident list"
  | AssignmentsPost display_assignment
  | AssignmentsPatch ident "display_assignment \<Rightarrow> display_assignment" timestamp
  | AssignmentsDelete ident
  | AlertsPost alert
  | AlertsPatch ident "alert \<Rightarrow> alert" timestamp
  | AlertsDelete ident
  | AuditPost audit_log

text \<open>
  The status line of an answer: \<open>res.json\<close> sends 200, \<open>res.status(n)\<close> sends
  \<open>n\<close>. The player routes answer 401 for invalid credentials and 500 on failure.
\<close>

definition status :: "'a api_response \<Rightarrow> nat" where
  "status r = (case r of Ok _ \<Rightarrow> 200 | Fail n _ \<Rightarrow> n)"

definition player_status :: "player_response \<Rightarrow> nat" where
  "player_status r = (case r of PlayerOk _ _ _ _ _ \<Rightarrow> 200 | PlayerInvalid \<Rightarrow> 401 | PlayerFailure \<Rightarrow> 500)"

definition heartbeat_status :: "heartbeat_response \<Rightarrow> nat" where
  "heartbeat_status r =
     (case r of HeartbeatOk \<Rightarrow> 200 | HeartbeatInvalid \<Rightarrow> 401 | HeartbeatFailure \<Rightarrow> 500)"

definition with_status :: "db \<times> 'a api_response \<Rightarrow> db \<times> nat" where
  "with_status p = (fst p, status (snd p))"

fun api_step :: "api_call \<Rightarrow> db \<Rightarrow> db \<times> nat" where
  "api_step (PlayerContent req ts tn) db =
     (let (db', r) = player_content req ts tn db in (db', player_status r))"
| "api_step (Heartbeat req t) db = (let (db', r) = heartbeat req t db in (db', heartbeat_status r))"
| "api_step (LoginCall e fresh now) db = with_status (login e fresh now db)"
| "api_step (DisplaysPost d) db = with_status (displays_post d db)"
| "api_step (DisplaysPatch k f now) db = with_status (displays_patch k f now db)"
| "api_step (DisplaysDelete k) db = with_status (displays_delete k db)"
| "api_step (ContentPost c) db = with_status (content_post c db)"
| "api_step (ContentPatch k f now) db = with_status (content_patch k f now db)"
| "api_step (ContentDelete k) db = with_status (content_delete k db)"
| "api_step (PlaylistsPost p) db = with_status (playlists_post p db)"
| "api_step (PlaylistsPatch k f now) db = with_status (playlists_patch k f now db)"
| "api_step (PlaylistsDelete k) db = with_status (playlists_delete k db)"
| "api_step (PlaylistItemsPost pid cid oi fresh now) db =
     with_status (playlist_items_post pid cid oi fresh now db)"
| "api_step (PlaylistItemDelete k) db = with_status (playlist_item_delete k db)"
| "api_step (PlaylistItemsReorder ids) db = with_status (playlist_items_reorder ids db)"
| "api_step (AssignmentsPost a) db = with_status (assignments_post a db)"
| "api_step (AssignmentsPatch k f now) db = with_status (assignments_patch k f now db)"
| "api_step (AssignmentsDelete k) db = with_status (assignments_delete k db)"
| "api_step (AlertsPost a) db = with_status (alerts_post a db)"
| "api_step (AlertsPatch k f now) db = with_status (alerts_patch k f now db)"
| "api_step (AlertsDelete k) db = with_status (alerts_delete k db)"
| "api_step (AuditPost l) db = with_status (audit_post l db)"

definition empty_db :: db where
  "empty_db = \<lparr>db_users = [], db_displays = [], db_content_items = [], db_playlists = [],
     db_playlist_items = [], db_assignments = [], db_alerts = [], db_audit_logs = []\<rparr>"

inductive reachable :: "db \<Rightarrow> bool" where
  reachable_empty: "reachable empty_db"
| reachable_step: "reachable db \<Longrightarrow> reachable (fst (api_step c db))"

definition run_calls :: "api_call list \<Rightarrow> db \<Rightarrow> db" where
  "run_calls cs db = fold (\<lambda>c d. fst (api_step c d)) cs db"

section \<open>Lemmas\<close>

lemma keys_ok_table_step:
  "keys_ok db \<Longrightarrow> table_step users_tbl db db' \<Longrightarrow> keys_ok db'"
  "keys_ok db \<Longrightarrow> table_step displays_tbl db db' \<Longrightarrow> keys_ok db'"
  "keys_ok db \<Longrightarrow> table_step content_tbl db db' \<Longrightarrow> keys_ok db'"
  "keys_ok db \<Longrightarrow> table_step playlists_tbl db db' \<Longrightarrow> keys_ok db'"
  "keys_ok db \<Longrightarrow> table_step playlist_items_tbl db db' \<Longrightarrow> keys_ok db'"
  "keys_ok db \<Longrightarrow> table_step assignments_tbl db db' \<Longrightarrow> keys_ok db'"
  "keys_ok db \<Longrightarrow> table_step alerts_tbl db db' \<Longrightarrow> keys_ok db'"
  "keys_ok db \<Longrightarrow> table_step audit_tbl db db' \<Longrightarrow> keys_ok db'"
  by (auto simp: keys_ok_def keys_distinct_def table_step_def table_simps)

lemma update_row_step:
  "table_step t db (case update_row t k g db of Inl _ \<Rightarrow> db | Inr (db', _) \<Rightarrow> db')"
proof (cases "update_row t k g db")
  case (Inr p)
  obtain db' r' where p: "p = (db', r')" by (cases p)
  with Inr have upd: "update_row t k g db = Inr (db', r')" by simp
  then show ?thesis using update_row_distinct [OF upd]
    by (auto simp: table_step_def dest!: update_row_Inr)
qed (simp add: table_step_def)

lemma create_row_step:
  "table_step t db (case create_row t r db of Inl _ \<Rightarrow> db | Inr (db', _) \<Rightarrow> db')"
  by (auto simp: table_step_def split: sum.splits dest!: create_row_Inr)

lemma touched_step: "table_step displays_tbl db (touched did t db)"
  by (auto simp: table_step_def touched_def table_simps intro!: exI distinct_map_update_where)

lemma reorder_updates_step:
  "reorder_updates ids i db = Inr db' \<Longrightarrow> table_step playlist_items_tbl db db'"
proof (induction ids arbitrary: i db)
  case (Cons x xs)
  then obtain db1 r where upd: "update_row playlist_items_tbl x (\<lambda>pi. pi\<lparr>pi_order_index := int i\<rparr>) db = Inr (db1, r)"
    and rest: "reorder_updates xs (Suc i) db1 = Inr db'"
    by (auto split: sum.splits)
  from Cons.IH [OF rest] keys_update_order_index [OF upd] show ?case
    by (auto simp: table_step_def table_simps)
qed (simp add: table_step_def)

lemmas crud_handler_defs =
  displays_post_def displays_patch_def displays_delete_def
  content_post_def content_patch_def content_delete_def
  playlists_post_def playlists_patch_def playlists_delete_def
  playlist_item_delete_def assignments_delete_def
  alerts_post_def alerts_patch_def alerts_delete_def audit_post_def

lemma table_step_refl [simp]: "table_step t db db"
  by (simp add: table_step_def)

lemma fst_result_case:
  "fst (case x of Inl e \<Rightarrow> (db, f e) | Inr (d, r) \<Rightarrow> (d, g d r)) =
   (case x of Inl _ \<Rightarrow> db | Inr (d, _) \<Rightarrow> d)"
  by (cases x) auto

lemma player_route_steps:
  "table_step displays_tbl db (fst (player_content req ts tn db))"
  "table_step displays_tbl db (fst (heartbeat req t db))"
  by (simp_all add: fst_player_content fst_heartbeat touched_step split: option.splits)

lemma login_step: "table_step users_tbl db (fst (login e fresh now db))"
proof (cases e)
  case (Some a)
  show ?thesis
  proof (cases "a = []")
    case False
    then show ?thesis using Some
      by (auto simp: login_Some table_step_def table_simps split: option.splits
          intro!: exI [of _ "db_users db @ [new_viewer fresh a now]"]) (simp_all add: new_viewer_def)
  qed (simp add: Some)
qed simp

lemma create_route_steps:
  "table_step playlist_items_tbl db (fst (playlist_items_post pid cid oi fresh now db))"
  "table_step assignments_tbl db (fst (assignments_post a db))"
  by (simp_all only: playlist_items_post_def assignments_post_def fst_result_case create_row_step)

lemma update_route_steps:
  "table_step assignments_tbl db (fst (assignments_patch k f now db))"
  "table_step playlist_items_tbl db (fst (playlist_items_reorder ids db))"
   apply (simp only: assignments_patch_def fst_result_case update_row_step)
  by (auto simp: playlist_items_reorder_def split: sum.splits dest: reorder_updates_step)

lemmas route_table_steps = player_route_steps login_step create_route_steps update_route_steps
  create_handler_step patch_handler_step delete_handler_step

lemma api_step_keys_ok_step:
  assumes "keys_ok db"
  shows "keys_ok (fst (api_step c db))"
  by (cases c; simp add: with_status_def split_def Let_def crud_handler_defs;
      rule keys_ok_table_step [OF assms], rule route_table_steps)

lemma reachable_run_calls: "reachable db \<Longrightarrow> reachable (run_calls cs db)"
  by (induction cs arbitrary: db) (simp_all add: run_calls_def reachable_step)

lemma handler_fail_keeps:
  "snd (create_handler t msg r db) = Fail n m \<Longrightarrow> fst (create_handler t msg r db) = db"
  "snd (patch_handler t stamp msg k body now db) = Fail n m \<Longrightarrow>
   fst (patch_handler t stamp msg k body now db) = db"
  "snd (delete_handler t msg k db) = Fail n m \<Longrightarrow> fst (delete_handler t msg k db) = db"
  by (auto simp: create_handler_def patch_handler_def delete_handler_def split: sum.splits)

lemma route_fail_keeps:
  "snd (login e fresh now db) = Fail n m \<Longrightarrow> fst (login e fresh now db) = db"
  "snd (playlist_items_post pid cid oi fresh now db) = Fail n m \<Longrightarrow>
   fst (playlist_items_post pid cid oi fresh now db) = db"
  "snd (playlist_items_reorder ids db) = Fail n m \<Longrightarrow> fst (playlist_items_reorder ids db) = db"
  "snd (assignments_post a db) = Fail n m \<Longrightarrow> fst (assignments_post a db) = db"
  "snd (assignments_patch k f now db) = Fail n m \<Longrightarrow> fst (assignments_patch k f now db) = db"
  by (auto simp: login_def playlist_items_post_def playlist_items_reorder_def assignments_post_def
      assignments_patch_def split: sum.splits option.splits if_splits)

lemma player_invalid_keeps:
  "snd (player_content req ts tn db) = PlayerInvalid \<Longrightarrow> fst (player_content req ts tn db) = db"
  "heartbeat_status (snd (heartbeat req t db)) \<noteq> 200 \<Longrightarrow> fst (heartbeat req t db) = db"
  by (auto simp: player_content_auth heartbeat_auth Let_def heartbeat_status_def fst_player_content
      fst_heartbeat split: option.splits)

lemma status_not_ok: "status r \<noteq> 200 \<Longrightarrow> \<exists>n m. r = Fail n m"
  by (auto simp: status_def split: api_response.splits)

lemmas fail_keeps = handler_fail_keeps route_fail_keeps

section \<open>Properties\<close>


text \<open>
  C26. A call whose answer is not 200 leaves the database as it was, with one
  exception: the player content route can answer 500 after it has written the
  display's liveness timestamp.
\<close>

theorem api_failure_writes_nothing:
  assumes "snd (api_step c db) \<noteq> 200"
  shows "fst (api_step c db) = db \<or> (\<exists>req ts tn. c = PlayerContent req ts tn \<and> snd (api_step c db) = 500)"
proof (cases c)
  case (PlayerContent req ts tn)
  then show ?thesis using assms player_invalid_keeps(1) [of req ts tn db]
    by (auto simp: player_status_def split_def Let_def split: player_response.splits)
next
  case (Heartbeat req t)
  then show ?thesis using assms player_invalid_keeps(2) [of req t db] by (simp add: split_def Let_def)
qed (use assms in \<open>auto simp: with_status_def crud_handler_defs dest!: status_not_ok intro: fail_keeps\<close>)


lemma api_failure_writes_nothing_witness:
  "snd (api_step (DisplaysDelete ''Q'') ex_db) = 500 \<and> fst (api_step (DisplaysDelete ''Q'') ex_db) = ex_db"
proof -
  have s: "snd (api_step (DisplaysDelete ''Q'') ex_db) = 500"
    by (simp add: with_status_def status_def displays_delete_def delete_handler_def delete_row_def
        find_unique_def table_simps example_defs)
  then have "snd (api_step (DisplaysDelete ''Q'') ex_db) \<noteq> 200" by simp
  from api_failure_writes_nothing [OF this] s show ?thesis by simp
qed

end
