(* ===== verification/Next_Routes.thy ===== *)
theory Next_Routes
  imports Api
begin

text \<open>
  The route handlers of the Next.js application, \<open>src/app/api/**/route.ts\<close>, one
  definition per exported function, named after the file's folder and the HTTP
  method. They call the same Prisma operations as the Express handlers; the player
  route is written out again as the file has it. Three files have no Express
  counterpart: \<open>alerts/[id]/activate\<close>, \<open>alerts/[id]/deactivate\<close> and
  \<open>assignments/[id]/active\<close>, which update one column without the
  \<open>updated_at\<close> stamp.
\<close>

section \<open>Alerts\<close>

definition next_alerts_GET :: "db \<Rightarrow> alert list api_response" where
  "next_alerts_GET db = list_handler alerts_tbl al_created_at db"

definition next_alerts_POST :: "alert \<Rightarrow> db \<Rightarrow> db \<times> alert api_response" where
  "next_alerts_POST body db = create_handler alerts_tbl ''Failed to create alert'' body db"

definition next_alert_PATCH ::
  "ident \<Rightarrow> (alert \<Rightarrow> alert) \<Rightarrow> timestamp \<Rightarrow> db \<Rightarrow> db \<times> alert api_response" where
  "next_alert_PATCH k body now db =
     patch_handler alerts_tbl (\<lambda>t a. a\<lparr>al_updated_at := Some t\<rparr>) ''Failed to update alert'' k body now db"

definition next_alert_DELETE :: "ident \<Rightarrow> db \<Rightarrow> db \<times> unit api_response" where
  "next_alert_DELETE k db = delete_handler alerts_tbl ''Failed to delete alert'' k db"

definition next_alert_activate_POST :: "ident \<Rightarrow> db \<Rightarrow> db \<times> alert api_response" where
  "next_alert_activate_POST k db =
     (case update_row alerts_tbl k (\<lambda>a. a\<lparr>al_is_active := True\<rparr>) db of
        Inl _ \<Rightarrow> (db, Fail 500 ''Failed to activate alert'')
      | Inr (db', a) \<Rightarrow> (db', Ok a))"

definition next_alert_deactivate_POST :: "ident \<Rightarrow> db \<Rightarrow> db \<times> alert api_response" where
  "next_alert_deactivate_POST k db =
     (case update_row alerts_tbl k (\<lambda>a. a\<lparr>al_is_active := False\<rparr>) db of
        Inl _ \<Rightarrow> (db, Fail 500 ''Failed to deactivate alert'')
      | Inr (db', a) \<Rightarrow> (db', Ok a))"

section \<open>Display assignments\<close>

definition next_assignments_GET ::
  "db \<Rightarrow> (display_assignment \<times> display option \<times> playlist option) list api_response" where
  "next_assignments_GET db =
     Ok (map (with_relations db) (order_desc da_created_at (db_assignments db)))"

definition next_assignments_POST ::
  "display_assignment \<Rightarrow> db
     \<Rightarrow> db \<times> (display_assignment \<times> display option \<times> playlist option) api_response" where
  "next_assignments_POST body db =
     (case create_row assignments_tbl body db of
        Inl _ \<Rightarrow> (db, Fail 500 ''Failed to create assignment'')
      | Inr (db', a) \<Rightarrow> (db', Ok (with_relations db' a)))"

definition next_assignment_PATCH ::
  "ident \<Rightarrow> (display_assignment \<Rightarrow> display_assignment) \<Rightarrow> timestamp \<Rightarrow> db
     \<Rightarrow> db \<times> (display_assignment \<times> display option \<times> playlist option) api_response" where
  "next_assignment_PATCH k body now db =
     (case update_row assignments_tbl k (\<lambda>a. (body a)\<lparr>da_updated_at := Some now\<rparr>) db of
        Inl _ \<Rightarrow> (db, Fail 500 ''Failed to update assignment'')
      | Inr (db', a) \<Rightarrow> (db', Ok (with_relations db' a)))"

definition next_assignment_DELETE :: "ident \<Rightarrow> db \<Rightarrow> db \<times> unit api_response" where
  "next_assignment_DELETE k db = delete_handler assignments_tbl ''Failed to delete assignment'' k db"

text \<open>\<open>PATCH /api/assignments/[id]/active\<close> with body \<open>{ is_active }\<close>.\<close>

definition next_assignment_active_PATCH ::
  "ident \<Rightarrow> bool \<Rightarrow> db \<Rightarrow> db \<times> display_assignment api_response" where
  "next_assignment_active_PATCH k is_active db =
     (case update_row assignments_tbl k (\<lambda>a. a\<lparr>da_is_active := is_active\<rparr>) db of
        Inl _ \<Rightarrow> (db, Fail 500 ''Failed to update assignment status'')
      | Inr (db', a) \<Rightarrow> (db', Ok a))"

section \<open>Login\<close>

definition next_login_POST :: "string option \<Rightarrow> ident \<Rightarrow> timestamp \<Rightarrow> db \<Rightarrow> db \<times> user api_response" where
  "next_login_POST email fresh now db =
     (case email of
        None \<Rightarrow> (db, Fail 400 ''Email is required'')
      | Some e \<Rightarrow>
          if e = [] then (db, Fail 400 ''Email is required'')
          else (case find (\<lambda>u. usr_email u = e) (db_users db) of
                  Some u \<Rightarrow> (db, Ok u)
                | None \<Rightarrow>
                    (case create_row users_tbl (new_viewer fresh e now) db of
                       Inl _ \<Rightarrow> (db, Fail 500 ''Failed to login'')
                     | Inr (db', u) \<Rightarrow> (db', Ok u))))"

section \<open>Content items, displays, playlists\<close>

definition next_content_GET :: "db \<Rightarrow> content_item list api_response" where
  "next_content_GET db = list_handler content_tbl ci_created_at db"

definition next_content_POST :: "content_item \<Rightarrow> db \<Rightarrow> db \<times> content_item api_response" where
  "next_content_POST body db = create_handler content_tbl ''Failed to create content item'' body db"

definition next_content_PATCH ::
  "ident \<Rightarrow> (content_item \<Rightarrow> content_item) \<Rightarrow> timestamp \<Rightarrow> db \<Rightarrow> db \<times> content_item api_response" where
  "next_content_PATCH k body now db =
     patch_handler content_tbl (\<lambda>t c. c\<lparr>ci_updated_at := t\<rparr>) ''Failed to update content item''
       k body now db"

definition next_content_DELETE :: "ident \<Rightarrow> db \<Rightarrow> db \<times> unit api_response" where
  "next_content_DELETE k db = delete_handler content_tbl ''Failed to delete content item'' k db"

definition next_displays_GET :: "db \<Rightarrow> display list api_response" where
  "next_displays_GET db = list_handler displays_tbl disp_created_at db"

definition next_displays_POST :: "display \<Rightarrow> db \<Rightarrow> db \<times> display api_response" where
  "next_displays_POST body db = create_handler displays_tbl ''Failed to create display'' body db"

definition next_display_PATCH ::
  "ident \<Rightarrow> (display \<Rightarrow> display) \<Rightarrow> timestamp \<Rightarrow> db \<Rightarrow> db \<times> display api_response" where
  "next_display_PATCH k body now db =
     patch_handler displays_tbl (\<lambda>t d. d\<lparr>disp_updated_at := Some t\<rparr>) ''Failed to update display''
       k body now db"

definition next_display_DELETE :: "ident \<Rightarrow> db \<Rightarrow> db \<times> unit api_response" where
  "next_display_DELETE k db = delete_handler displays_tbl ''Failed to delete display'' k db"

definition next_playlists_GET :: "db \<Rightarrow> playlist list api_response" where
  "next_playlists_GET db = list_handler playlists_tbl pl_created_at db"

definition next_playlists_POST :: "playlist \<Rightarrow> db \<Rightarrow> db \<times> playlist api_response" where
  "next_playlists_POST body db = create_handler playlists_tbl ''Failed to create playlist'' body db"

definition next_playlist_PATCH ::
  "ident \<Rightarrow> (playlist \<Rightarrow> playlist) \<Rightarrow> timestamp \<Rightarrow> db \<Rightarrow> db \<times> playlist api_response" where
  "next_playlist_PATCH k body now db =
     patch_handler playlists_tbl (\<lambda>t p. p\<lparr>pl_updated_at := Some t\<rparr>) ''Failed to update playlist''
       k body now db"

definition next_playlist_DELETE :: "ident \<Rightarrow> db \<Rightarrow> db \<times> unit api_response" where
  "next_playlist_DELETE k db = delete_handler playlists_tbl ''Failed to delete playlist'' k db"

definition next_playlist_items_GET ::
  "ident \<Rightarrow> db \<Rightarrow> (playlist_item \<times> content_item option) list api_response" where
  "next_playlist_items_GET pid db =
     Ok (map (\<lambda>pi. (pi, find_unique content_tbl (pi_content_item_id pi) db))
          (order_asc pi_order_index (filter (\<lambda>pi. pi_playlist_id pi = pid) (db_playlist_items db))))"

definition next_playlist_items_POST ::
  "ident \<Rightarrow> ident \<Rightarrow> int \<Rightarrow> ident \<Rightarrow> timestamp \<Rightarrow> db
     \<Rightarrow> db \<times> (playlist_item \<times> content_item option) api_response" where
  "next_playlist_items_POST pid cid oi fresh now db =
     (case create_row playlist_items_tbl
             \<lparr>pi_id = fresh, pi_playlist_id = pid, pi_content_item_id = cid,
              pi_order_index = oi, pi_created_at = now\<rparr> db of
        Inl _ \<Rightarrow> (db, Fail 500 ''Failed to add playlist item'')
      | Inr (db', pi) \<Rightarrow> (db', Ok (pi, find_unique content_tbl cid db')))"

definition next_reorder_POST :: "ident list \<Rightarrow> db \<Rightarrow> db \<times> unit api_response" where
  "next_reorder_POST ids db =
     (case reorder_updates ids 0 db of
        Inl _ \<Rightarrow> (db, Fail 500 ''Failed to reorder items'')
      | Inr db' \<Rightarrow> (db', Ok ()))"

definition next_playlist_item_DELETE :: "ident \<Rightarrow> db \<Rightarrow> db \<times> unit api_response" where
  "next_playlist_item_DELETE k db = delete_handler playlist_items_tbl ''Failed to remove playlist item'' k db"

section \<open>The player route\<close>

text \<open>
  \<open>POST /api/player/content\<close> as \<open>app/api/player/content/route.ts\<close> writes it:
  the credential check inline, the assignment with its playlist included, the items
  computed only when both exist, then the alerts.
\<close>

definition next_player_content_POST ::
  "player_request \<Rightarrow> timestamp \<Rightarrow> timestamp \<Rightarrow> db \<Rightarrow> db \<times> player_response" where
  "next_player_content_POST req t_seen t_now db =
     (case req_displayId req of
        None \<Rightarrow> (db, PlayerFailure)
      | Some did \<Rightarrow>
        (case find_unique displays_tbl did db of
           None \<Rightarrow> (db, PlayerInvalid)
         | Some display \<Rightarrow>
           if Some (disp_secret_key display) \<noteq> req_secretKey req then (db, PlayerInvalid)
           else
           (case update_row displays_tbl did (\<lambda>d. d\<lparr>disp_last_seen_at := Some t_seen\<rparr>) db of
              Inl _ \<Rightarrow> (db, PlayerFailure)
            | Inr (db1, _) \<Rightarrow>
              (let assignment = find (\<lambda>a. da_display_id a = did \<and> da_is_active a) (db_assignments db1);
                   playlist = (case assignment of None \<Rightarrow> None
                               | Some a \<Rightarrow> find_unique playlists_tbl (da_playlist_id a) db1);
                   alerts = order_desc al_created_at (filter al_is_active (db_alerts db1))
               in (case (assignment, playlist) of
                     (Some a, Some p) \<Rightarrow>
                       (case those (map (\<lambda>pi. find_unique content_tbl (pi_content_item_id pi) db1)
                                     (order_asc pi_order_index
                                        (filter (\<lambda>pi. pi_playlist_id pi = da_playlist_id a)
                                           (db_playlist_items db1)))) of
                          None \<Rightarrow> (db1, PlayerFailure)
                        | Some cs \<Rightarrow>
                            (db1, PlayerOk display assignment playlist
                                    (js_sort (\<lambda>a b. ci_priority b - ci_priority a)
                                       (filter (content_visible t_now) cs))
                                    alerts))
                   | _ \<Rightarrow> (db1, PlayerOk display assignment playlist [] alerts))))))"

section \<open>Example state\<close>

definition ex_quiet_db :: db where
  "ex_quiet_db = ex_db\<lparr>db_alerts := [(ex_alert ''A'' 1 None)\<lparr>al_is_active := False\<rparr>]\<rparr>"

section \<open>Properties\<close>

text \<open>
  C29. The player route of the Next.js application, \<open>app/api/player/content/route.ts\<close>,
  is the same function of the request, the two clock readings and the database as
  the Express route \<open>POST /player/content\<close>: same answer on every branch (missing
  id, bad credentials, failed write, missing assignment or playlist, dangling
  content) and same database afterwards.
\<close>

theorem next_player_content_equiv:
  "next_player_content_POST req ts tn db = player_content req ts tn db"
proof (cases "req_displayId req")
  case (Some did)
  show ?thesis
  proof (cases "authenticate db did (req_secretKey req)")
    case None
    with Some show ?thesis
      by (auto simp: next_player_content_POST_def player_content_def authenticate_def
          split: option.splits)
  next
    case (Some d)
    then have f: "find_unique displays_tbl did db = Some d" "req_secretKey req = Some (disp_secret_key d)"
      by (auto simp: authenticate_def split: option.splits if_splits)
    show ?thesis
      using \<open>req_displayId req = Some did\<close> Some f touch_last_seen_found [OF f(1), of ts]
      by (simp add: next_player_content_POST_def player_content_def touch_last_seen_def
          active_assignment_def resolve_items_def include_content_def playlist_items_ordered_def
          by_priority_desc_def active_alerts_def Let_def split: option.splits)
  qed
qed (simp add: next_player_content_POST_def player_content_def)

text \<open>
  Activating an inactive alert through \<open>POST /api/alerts/[id]/activate\<close> and
  then deactivating it through \<open>POST /api/alerts/[id]/deactivate\<close> gives back the
  database it started from: neither route stamps \<open>updated_at\<close>.
\<close>

theorem next_alert_toggle_roundtrip:
  assumes kd: "keys_distinct alerts_tbl db" and a: "find_unique alerts_tbl k db = Some a"
    and off: "\<not> al_is_active a"
  shows "fst (next_alert_deactivate_POST k (fst (next_alert_activate_POST k db))) = db"
proof -
  let ?P = "\<lambda>x. al_id x = k" and ?on = "\<lambda>x. x\<lparr>al_is_active := True\<rparr>"
    and ?off = "\<lambda>x. x\<lparr>al_is_active := False\<rparr>"
  let ?db1 = "db\<lparr>db_alerts := update_where ?P ?on (db_alerts db)\<rparr>"
  have "update_row alerts_tbl k ?on db = Inr (?db1, ?on a)"
    using update_row_key_kept [OF a] by (simp add: table_simps)
  then have act: "fst (next_alert_activate_POST k db) = ?db1"
    by (simp add: next_alert_activate_POST_def)
  have a1: "find_unique alerts_tbl k ?db1 = Some (?on a)"
    using a by (simp add: find_unique_def table_simps find_update_where)
  have "update_row alerts_tbl k ?off ?db1 =
          Inr (db\<lparr>db_alerts := update_where ?P ?off (update_where ?P ?on (db_alerts db))\<rparr>, ?off (?on a))"
    using update_row_key_kept [OF a1] by (simp add: table_simps)
  moreover have "update_where ?P ?off (update_where ?P ?on (db_alerts db)) = db_alerts db"
  proof -
    have "x\<lparr>al_is_active := False\<rparr> = x" if "x \<in> set (db_alerts db)" "al_id x = k" for x
      using find_unique_distinct_eq [OF kd a, of x] that off by (simp add: table_simps)
    then show ?thesis by (simp add: update_where_update_where update_where_id)
  qed
  ultimately show ?thesis using act by (simp add: next_alert_deactivate_POST_def)
qed
lemma next_alert_toggle_roundtrip_witness:
  "fst (next_alert_deactivate_POST ''A'' (fst (next_alert_activate_POST ''A'' ex_quiet_db))) = ex_quiet_db"
  by (rule next_alert_toggle_roundtrip [of _ _ "(ex_alert ''A'' 1 None)\<lparr>al_is_active := False\<rparr>"])
    (simp_all add: ex_quiet_db_def keys_distinct_def find_unique_def table_simps example_defs)

end
