(* ===== verification/Player_Client.thy ===== *)
theory Player_Client
  imports Player
begin

text \<open>
  The player client: the hook \<open>usePlayerData\<close> of
  \<open>src/src/hooks/useSignageData.ts\<close>, which posts to \<open>/player/content\<close> through
  \<open>apiRequest\<close> of \<open>src/src/lib/api.ts\<close> on mount and every 30 seconds, and the
  component \<open>DisplayPlayer\<close> of \<open>src/src/components/player/DisplayPlayer.tsx\<close>,
  which renders the hook's data and rotates the slides with a timeout per slide.

  The hook's state is a record of its three \<open>useState\<close> cells; a fetch is its
  start (\<open>setIsLoading(true)\<close>) and its finish with the outcome of the request.
  The rendering is a function of the hook's state and the slide index
  (\<open>screen\<close>). The rotation is a timed system: the state holds the clock, the
  deadline of the pending slide timeout (the effect on \<open>[currentIndex, items]\<close>)
  and the instant of the next poll; \<open>client_step\<close> runs the earliest pending
  event, the outcomes of the successive fetches being a parameter.
\<close>

section \<open>The hook\<close>

text \<open>
  What the request yields: the server's answer, or a rejected \<open>fetch\<close> (no
  connection).
\<close>

datatype fetch_outcome = Answer player_response | NetworkError

text \<open>
  \<open>apiRequest\<close>: an answer that is not \<open>ok\<close> throws \<open>Error(errorBody.error)\<close>; the
  route's 401 and 500 bodies both carry an \<open>error\<close> field.
\<close>

definition player_api_request :: "fetch_outcome \<Rightarrow> string + player_response" where
  "player_api_request o' =
     (case o' of
        NetworkError \<Rightarrow> Inl ''Failed to fetch''
      | Answer r \<Rightarrow>
          (case r of
             PlayerOk _ _ _ _ _ \<Rightarrow> Inr r
           | PlayerInvalid \<Rightarrow> Inl ''Invalid display credentials''
           | PlayerFailure \<Rightarrow> Inl ''Internal server error''))"

record player_data =
  pd_display :: "display option"
  pd_assignment :: "display_assignment option"
  pd_playlist :: "playlist option"
  pd_items :: "content_item list"
  pd_alerts :: "alert list"
  pd_isValid :: bool

record player_hook =
  ph_data :: player_data
  ph_isLoading :: bool
  ph_error :: "string option"

definition initial_hook :: player_hook where
  "initial_hook =
     \<lparr>ph_data = \<lparr>pd_display = None, pd_assignment = None, pd_playlist = None, pd_items = [],
                 pd_alerts = [], pd_isValid = False\<rparr>,
      ph_isLoading = True, ph_error = None\<rparr>"

text \<open>\<open>fetchPlayerData\<close>: \<open>setIsLoading(true)\<close>, then the request.\<close>

definition poll_start :: "player_hook \<Rightarrow> player_hook" where
  "poll_start h = h\<lparr>ph_isLoading := True\<rparr>"

text \<open>
  The rest of \<open>fetchPlayerData\<close>: a thrown request sets \<open>error\<close> and keeps the
  data; an answer that is not \<open>isValid\<close> keeps the data but clears \<open>isValid\<close>;
  a valid one replaces the data. \<open>finally\<close> clears the loading flag.
\<close>

definition poll_finish :: "fetch_outcome \<Rightarrow> player_hook \<Rightarrow> player_hook" where
  "poll_finish o' h =
     (case player_api_request o' of
        Inl msg \<Rightarrow> h\<lparr>ph_error := Some msg, ph_isLoading := False\<rparr>
      | Inr r \<Rightarrow>
          (case r of
             PlayerOk d asg pl xs als \<Rightarrow>
               h\<lparr>ph_data := \<lparr>pd_display = Some d, pd_assignment = asg, pd_playlist = pl,
                              pd_items = xs, pd_alerts = als, pd_isValid = True\<rparr>,
                 ph_isLoading := False\<rparr>
           | _ \<Rightarrow> h\<lparr>ph_data := (ph_data h)\<lparr>pd_isValid := False\<rparr>, ph_isLoading := False\<rparr>))"

definition fetch_player_data :: "fetch_outcome \<Rightarrow> player_hook \<Rightarrow> player_hook" where
  "fetch_player_data o' h = poll_finish o' (poll_start h)"

text \<open>
  The rotation effect depends on \<open>items\<close> by reference: only the valid branch,
  which stores the freshly parsed array, gives it a new one.
\<close>

definition items_replaced :: "fetch_outcome \<Rightarrow> bool" where
  "items_replaced o' =
     (case player_api_request o' of Inr (PlayerOk _ _ _ _ _) \<Rightarrow> True | _ \<Rightarrow> False)"

text \<open>The heartbeat interval runs while \<open>data.isValid\<close> holds.\<close>

definition heartbeat_running :: "player_hook \<Rightarrow> bool" where
  "heartbeat_running h = pd_isValid (ph_data h)"

section \<open>Rendering\<close>

text \<open>
  \<open>ContentCard\<close>: an image or a video when it has a media URL (\<open>item.media_url\<close>
  is tested for truth, so an empty string counts as none), a text card otherwise,
  whose body is shown when it is a non-empty string.
\<close>

datatype card = ImageCard string | VideoCard string | TextCard content_type string "string option"

definition js_string_truthy :: "string option \<Rightarrow> bool" where
  "js_string_truthy s = (case s of None \<Rightarrow> False | Some u \<Rightarrow> u \<noteq> [])"

definition content_card :: "content_item \<Rightarrow> card" where
  "content_card item =
     (case ci_media_url item of
        Some u \<Rightarrow>
          (if ci_type item = IMAGE \<and> js_string_truthy (Some u) then ImageCard u
           else if ci_type item = VIDEO \<and> js_string_truthy (Some u) then VideoCard u
           else TextCard (ci_type item) (ci_title item)
                  (if js_string_truthy (ci_body item) then ci_body item else None))
      | None \<Rightarrow> TextCard (ci_type item) (ci_title item)
                  (if js_string_truthy (ci_body item) then ci_body item else None))"

text \<open>\<open>items[currentIndex]\<close>: \<open>undefined\<close> past the end.\<close>

definition current_item :: "content_item list \<Rightarrow> nat \<Rightarrow> content_item option" where
  "current_item items i = (if i < length items then Some (items ! i) else None)"

datatype layout_view =
    FullscreenView "card option"
  | GridView "card list" "card list" "card option"
  | TickerView "card option" "card list"

text \<open>\<open>FullscreenLayout\<close>, \<open>GridLayout\<close>, \<open>TickerLayout\<close>.\<close>

definition render_layout :: "layout_preset \<Rightarrow> content_item list \<Rightarrow> nat \<Rightarrow> layout_view" where
  "render_layout preset items i =
     (case preset of
        Fullscreen \<Rightarrow> FullscreenView (map_option content_card (current_item items i))
      | Grid \<Rightarrow>
          GridView (map content_card (filter (\<lambda>c. ci_type c = ANNOUNCEMENT) items))
                   (map content_card (filter (\<lambda>c. ci_type c = EVENT) items))
                   (map_option content_card (find (\<lambda>c. ci_type c = SCHEDULE) items))
      | Ticker \<Rightarrow>
          TickerView (map_option content_card (current_item items i))
                     (map content_card (take 5 (filter (\<lambda>c. ci_type c = ANNOUNCEMENT) items))))"

datatype screen =
    LoadingScreen
  | InvalidScreen
  | PlayerScreen "alert option" "alert list" layout_view

text \<open>
  \<open>DisplayPlayer\<close>'s render: the loading view, the invalid view, or the layout of
  the assignment (\<open>fullscreen\<close> without one) under the emergency overlay (the first
  active \<open>EMERGENCY\<close> alert) or the banner of the active alerts.
\<close>

definition screen :: "player_hook \<Rightarrow> nat \<Rightarrow> screen" where
  "screen h i =
     (if ph_isLoading h then LoadingScreen
      else if \<not> pd_isValid (ph_data h) then InvalidScreen
      else
        (let d = ph_data h;
             preset = (case pd_assignment d of None \<Rightarrow> Fullscreen | Some a \<Rightarrow> da_layout_preset a);
             activeAlerts = filter al_is_active (pd_alerts d);
             emergencyAlert = find (\<lambda>a. al_level a = EMERGENCY) activeAlerts
         in PlayerScreen emergencyAlert (if emergencyAlert = None then activeAlerts else [])
              (render_layout preset (pd_items d) i)))"

text \<open>
  \<open>AlertBanner\<close> keeps its own index \<open>currentAlert\<close>, advanced every 5 seconds
  modulo the number of alerts it is given; \<open>alerts[currentAlert].level\<close> throws
  when the index is past the end (\<open>None\<close>: the render fails).
\<close>

definition banner_tick :: "alert list \<Rightarrow> nat \<Rightarrow> nat" where
  "banner_tick alerts j = (if length alerts \<le> 1 then j else (j + 1) mod length alerts)"

definition banner_alert :: "alert list \<Rightarrow> nat \<Rightarrow> alert option" where
  "banner_alert alerts j = (if j < length alerts then Some (alerts ! j) else None)"

section \<open>The timed client\<close>

text \<open>
  The slide timeout: \<open>(currentItem?.duration_seconds || 10) * 1000\<close> milliseconds,
  10 seconds for a missing item and for a duration of 0; \<open>setTimeout\<close> treats a
  negative delay as 0.
\<close>

definition slide_delay :: "content_item list \<Rightarrow> nat \<Rightarrow> int" where
  "slide_delay items i =
     (case current_item items i of
        None \<Rightarrow> 10000
      | Some c \<Rightarrow> (if ci_duration_seconds c = 0 then 10 else ci_duration_seconds c) * 1000)"

text \<open>The effect \<open>if (items.length === 0) return; ... setTimeout(...)\<close>.\<close>

definition arm_rotation :: "int \<Rightarrow> content_item list \<Rightarrow> nat \<Rightarrow> int option" where
  "arm_rotation now items i = (if items = [] then None else Some (now + max 0 (slide_delay items i)))"

definition poll_interval :: int where
  "poll_interval = 30000"

record player_client =
  pc_hook :: player_hook
  pc_index :: nat
  pc_deadline :: "int option"
  pc_now :: int
  pc_next_poll :: int
  pc_polls :: nat

text \<open>On mount: the first fetch at instant 0, the interval from then on, no slide timer.\<close>

definition client_init :: player_client where
  "client_init = \<lparr>pc_hook = initial_hook, pc_index = 0, pc_deadline = None, pc_now = 0,
                  pc_next_poll = 0, pc_polls = 0\<rparr>"

definition client_items :: "player_client \<Rightarrow> content_item list" where
  "client_items s = pd_items (ph_data (pc_hook s))"

text \<open>
  The slide timeout fires: \<open>setCurrentIndex(prev => (prev + 1) % items.length)\<close>.
  React skips the update when the index does not change (a single item), and then
  the effect does not run again: no new timeout.
\<close>

definition slide_timeout :: "int \<Rightarrow> player_client \<Rightarrow> player_client" where
  "slide_timeout t s =
     (let items = client_items s; i' = (pc_index s + 1) mod length items
      in if i' = pc_index s then s\<lparr>pc_now := t, pc_deadline := None\<rparr>
         else s\<lparr>pc_now := t, pc_index := i', pc_deadline := arm_rotation t items i'\<rparr>)"

text \<open>
  A poll: the \<open>k\<close>-th fetch with its outcome; a new \<open>items\<close> array restarts the
  slide timeout for the current index, which is not reset.
\<close>

definition client_poll :: "fetch_outcome \<Rightarrow> player_client \<Rightarrow> player_client" where
  "client_poll o' s =
     (let t = pc_next_poll s; h = fetch_player_data o' (pc_hook s)
      in s\<lparr>pc_hook := h, pc_now := t, pc_next_poll := t + poll_interval, pc_polls := Suc (pc_polls s),
           pc_deadline := (if items_replaced o' then arm_rotation t (pd_items (ph_data h)) (pc_index s)
                           else pc_deadline s)\<rparr>)"

text \<open>
  The earliest pending event runs; the poll goes first when both are due at the
  same instant.
\<close>

definition client_step :: "(nat \<Rightarrow> fetch_outcome) \<Rightarrow> player_client \<Rightarrow> player_client" where
  "client_step answers s =
     (case pc_deadline s of
        Some d \<Rightarrow> if d < pc_next_poll s then slide_timeout d s
                  else client_poll (answers (pc_polls s)) s
      | None \<Rightarrow> client_poll (answers (pc_polls s)) s)"

fun client_run :: "(nat \<Rightarrow> fetch_outcome) \<Rightarrow> nat \<Rightarrow> player_client \<Rightarrow> player_client" where
  "client_run answers 0 s = s"
| "client_run answers (Suc n) s = client_run answers n (client_step answers s)"

text \<open>
  The rotation is armed when the items are those of the constant answer, the index
  is within them, and the slide timeout is due before the next poll.
\<close>

definition rotation_armed :: "content_item list \<Rightarrow> player_client \<Rightarrow> bool" where
  "rotation_armed xs s \<longleftrightarrow>
     client_items s = xs \<and> pc_index s < length xs \<and>
     (\<exists>t. pc_deadline s = Some t \<and> t < pc_next_poll s)"

section \<open>Example states\<close>

definition ex_slide :: "ident \<Rightarrow> int \<Rightarrow> content_item" where
  "ex_slide i secs = (ex_content i PUBLISHED 0)\<lparr>ci_duration_seconds := secs\<rparr>"

definition ex_answer :: "content_item list \<Rightarrow> fetch_outcome" where
  "ex_answer xs = Answer (PlayerOk ex_display (Some ex_assignment) (Some ex_playlist) xs [])"

definition ex_alarm_db :: db where
  "ex_alarm_db = ex_db\<lparr>db_alerts := [(ex_alert ''Fire'' 3 None)\<lparr>al_level := EMERGENCY\<rparr>,
                                    ex_alert ''Alert2'' 2 None]\<rparr>"

text \<open>
  Three slides at the first poll, one from the second on: the index is left past
  the end of the new list.
\<close>

definition ex_shrinking_answers :: "nat \<Rightarrow> fetch_outcome" where
  "ex_shrinking_answers k =
     ex_answer (if k = 0 then [ex_slide ''a'' 10, ex_slide ''b'' 10, ex_slide ''c'' 10] else [ex_slide ''a'' 10])"

section \<open>Lemmas\<close>

lemma client_run_add: "client_run ans (m + n) s = client_run ans n (client_run ans m s)"
  by (induction m arbitrary: s) simp_all

lemma client_run_invariant:
  assumes "\<And>s. J s \<Longrightarrow> J (client_step ans s)" and "J s"
  shows "J (client_run ans n s)"
  using assms(2) by (induction n arbitrary: s) (simp_all add: assms(1))

lemma items_replaced_ok [simp]: "items_replaced (Answer (PlayerOk d asg pl xs als))"
  by (simp add: items_replaced_def player_api_request_def)

lemma client_poll_ok:
  "client_poll (Answer (PlayerOk d asg pl xs als)) s =
     s\<lparr>pc_hook := (pc_hook s)\<lparr>ph_data := \<lparr>pd_display = Some d, pd_assignment = asg,
                              pd_playlist = pl, pd_items = xs, pd_alerts = als, pd_isValid = True\<rparr>,
                  ph_isLoading := False\<rparr>,
       pc_now := pc_next_poll s, pc_next_poll := pc_next_poll s + poll_interval,
       pc_polls := Suc (pc_polls s),
       pc_deadline := arm_rotation (pc_next_poll s) xs (pc_index s)\<rparr>"
  by (simp add: client_poll_def fetch_player_data_def poll_finish_def poll_start_def
      player_api_request_def Let_def)

lemma slide_delay_bounds:
  assumes "\<forall>c \<in> set xs. 0 < ci_duration_seconds c \<and> ci_duration_seconds c < 30" and "i < length xs"
  shows "0 < slide_delay xs i \<and> slide_delay xs i < poll_interval"
proof -
  have "0 < ci_duration_seconds (xs ! i) \<and> ci_duration_seconds (xs ! i) < 30"
    using assms by simp
  then show ?thesis using assms(2) by (simp add: slide_delay_def current_item_def poll_interval_def)
qed

lemma poll_arms:
  assumes dur: "\<forall>c \<in> set xs. 0 < ci_duration_seconds c \<and> ci_duration_seconds c < 30"
    and i: "pc_index s < length xs"
  shows "rotation_armed xs (client_poll (Answer (PlayerOk d asg pl xs als)) s)"
  using slide_delay_bounds [OF dur i] i
  by (auto simp: rotation_armed_def client_poll_ok arm_rotation_def client_items_def)

lemma rotation_advances:
  assumes ans: "answers = (\<lambda>_. Answer (PlayerOk d asg pl xs als))"
    and dur: "\<forall>c \<in> set xs. 0 < ci_duration_seconds c \<and> ci_duration_seconds c < 30"
    and arm: "rotation_armed xs s"
  shows "\<exists>m. rotation_armed xs (client_run answers m s) \<and>
             pc_index (client_run answers m s) = Suc (pc_index s) mod length xs"
proof -
  obtain t where t: "pc_deadline s = Some t" "t < pc_next_poll s"
    and items: "client_items s = xs" and i: "pc_index s < length xs"
    using arm by (auto simp: rotation_armed_def)
  let ?i' = "Suc (pc_index s) mod length xs"
  have i': "?i' < length xs" using i by (intro mod_less_divisor) (cases xs; simp)
  have s1: "client_step answers s = slide_timeout t s" using t by (simp add: client_step_def)
  let ?s1 = "slide_timeout t s"
  have poll1: "client_step answers ?s1 = client_poll (Answer (PlayerOk d asg pl xs als)) ?s1"
    if "\<forall>u. pc_deadline ?s1 = Some u \<longrightarrow> pc_next_poll ?s1 \<le> u"
    using that by (auto simp: client_step_def ans split: option.splits)
  show ?thesis
  proof (cases "?i' = pc_index s")
    case True
    then have "pc_deadline ?s1 = None" "pc_index ?s1 = pc_index s"
      by (simp_all add: slide_timeout_def Let_def items)
    then have "client_run answers 2 s = client_poll (Answer (PlayerOk d asg pl xs als)) ?s1"
      using poll1 s1 by (simp add: numeral_2_eq_2)
    moreover have "rotation_armed xs (client_poll (Answer (PlayerOk d asg pl xs als)) ?s1)"
      using poll_arms [OF dur] \<open>pc_index ?s1 = pc_index s\<close> i by simp
    ultimately show ?thesis using True \<open>pc_index ?s1 = pc_index s\<close>
      by (metis client_poll_ok player_client.select_convs(2) player_client.surjective
          player_client.update_convs(1,3,4,5,6))
  next
    case False
    then have s1d: "pc_deadline ?s1 = arm_rotation t xs ?i'" and s1i: "pc_index ?s1 = ?i'"
      and s1n: "pc_next_poll ?s1 = pc_next_poll s" and s1x: "client_items ?s1 = xs"
      using items by (simp_all add: slide_timeout_def Let_def client_items_def)
    show ?thesis
    proof (cases "t + max 0 (slide_delay xs ?i') < pc_next_poll s")
      case True
      then have "rotation_armed xs ?s1"
        using s1d s1i s1n s1x i' by (auto simp: rotation_armed_def arm_rotation_def)
      then show ?thesis using s1 s1i by (intro exI [of _ 1]) simp
    next
      case False
      then have "client_run answers 2 s = client_poll (Answer (PlayerOk d asg pl xs als)) ?s1"
        using poll1 s1 s1d s1n by (simp add: numeral_2_eq_2 arm_rotation_def)
      moreover have "rotation_armed xs (client_poll (Answer (PlayerOk d asg pl xs als)) ?s1)"
        using poll_arms [OF dur] s1i i' by simp
      ultimately show ?thesis using s1i by (intro exI [of _ 2]) (simp add: client_poll_ok)
    qed
  qed
qed


lemma rotation_reaches:
  assumes ans: "answers = (\<lambda>_. Answer (PlayerOk d asg pl xs als))"
    and dur: "\<forall>c \<in> set xs. 0 < ci_duration_seconds c \<and> ci_duration_seconds c < 30"
    and arm: "rotation_armed xs s"
  shows "\<exists>m. rotation_armed xs (client_run answers m s) \<and>
             pc_index (client_run answers m s) = (pc_index s + k) mod length xs"
proof (induction k)
  case 0
  show ?case using arm by (intro exI [of _ 0]) (simp add: rotation_armed_def)
next
  case (Suc k)
  then obtain m where m: "rotation_armed xs (client_run answers m s)"
    "pc_index (client_run answers m s) = (pc_index s + k) mod length xs" by blast
  from rotation_advances [OF ans dur m(1)] obtain m' where
    "rotation_armed xs (client_run answers m' (client_run answers m s))"
    "pc_index (client_run answers m' (client_run answers m s)) =
       Suc (pc_index (client_run answers m s)) mod length xs" by blast
  with m(2) show ?case
    by (intro exI [of _ "m + m'"]) (simp add: client_run_add mod_Suc_eq)
qed

lemma find_sorted_first:
  "sorted (map f ys) \<Longrightarrow> find P ys = Some e \<Longrightarrow> x \<in> set ys \<Longrightarrow> P x \<Longrightarrow> f e \<le> f x"
  by (induction ys) (auto split: if_splits)

lemma banner_ticks: "2 \<le> length alerts \<Longrightarrow> k < length alerts \<Longrightarrow> (banner_tick alerts ^^ k) 0 = k"
  by (induction k) (simp_all add: banner_tick_def)

lemma ex_slide_duration [simp]: "ci_duration_seconds (ex_slide i s) = s"
  by (simp add: ex_slide_def)

lemmas client_step_simps = client_step_def client_poll_ok slide_timeout_def ex_answer_def
  arm_rotation_def slide_delay_def current_item_def poll_interval_def client_items_def Let_def

lemma ex_alarm_answer:
  "snd (player_content ex_req 1000 2000 ex_alarm_db) =
     PlayerOk ex_display (Some ex_assignment) (Some ex_playlist)
       [ex_content ''Y'' PUBLISHED 9, ex_content ''X'' PUBLISHED 5]
       [(ex_alert ''Fire'' 3 None)\<lparr>al_level := EMERGENCY\<rparr>, ex_alert ''Alert2'' 2 None]"
  by (simp add: ex_alarm_db_def player_content_auth authenticate_def find_unique_def active_assignment_def
      resolve_items_def include_content_def playlist_items_ordered_def order_asc_def
      content_visible_def by_priority_desc_sort_key active_alerts_def order_desc_def
      table_simps example_defs)

section \<open>Properties\<close>

text \<open>
  C31. With every poll answering the same non-empty item list whose slide durations are between 1 and 29 seconds, the player shows every slide of the list: for each index there is a point of the run, from mount on, at which the player's current index is that index.
\<close>

theorem client_shows_every_slide:
  assumes ans: "answers = (\<lambda>_. Answer (PlayerOk d asg pl xs als))"
    and dur: "\<forall>c \<in> set xs. 0 < ci_duration_seconds c \<and> ci_duration_seconds c < 30"
    and i: "i < length xs"
  shows "\<exists>n. pc_index (client_run answers n client_init) = i \<and>
             client_items (client_run answers n client_init) = xs"
proof -
  have s1: "client_run answers 1 client_init = client_poll (Answer (PlayerOk d asg pl xs als)) client_init"
    by (simp add: client_step_def client_init_def ans)
  have "rotation_armed xs (client_run answers 1 client_init)"
    unfolding s1 by (rule poll_arms [OF dur]) (use i in \<open>cases xs; simp add: client_init_def\<close>)
  from rotation_reaches [OF ans dur this, of i] obtain m where
    "rotation_armed xs (client_run answers m (client_run answers 1 client_init))"
    "pc_index (client_run answers m (client_run answers 1 client_init)) =
       (pc_index (client_run answers 1 client_init) + i) mod length xs" by blast
  moreover have "pc_index (client_run answers 1 client_init) = 0"
    unfolding s1 by (simp add: client_poll_ok client_init_def)
  ultimately show ?thesis using i
    by (intro exI [of _ "1 + m"]) (simp add: client_run_add rotation_armed_def)
qed




text \<open>
  C33. A slide timeout leaves the index within the item list. Only a poll can leave it past the end (the index is not reset when the list shrinks), and then the layout has no current item until the next timeout.
\<close>

theorem slide_timeout_index_bound:
  assumes "pc_deadline s = Some t" and "t < pc_next_poll s" and "client_items s \<noteq> []"
  shows "pc_index (client_step answers s) < length (client_items (client_step answers s))"
  using assms
  by (auto simp: client_step_def slide_timeout_def Let_def client_items_def)
    (metis length_greater_0_conv mod_less_divisor)

text \<open>
  C34. When the display's secret has changed, the server rejects the poll with 401; apiRequest throws, and the hook keeps the previous data, including isValid, so the player goes on showing the old content and sending heartbeats; only the error is set.
\<close>

theorem client_keeps_stale_content:
  assumes "req_displayId req = Some did" and "authenticate db did (req_secretKey req) = None"
  shows "ph_data (fetch_player_data (Answer (snd (player_content req ts tn db))) h) = ph_data h \<and>
         ph_error (fetch_player_data (Answer (snd (player_content req ts tn db))) h) =
           Some ''Invalid display credentials'' \<and>
         heartbeat_running (fetch_player_data (Answer (snd (player_content req ts tn db))) h) =
           heartbeat_running h"
  using assms
  by (simp add: player_content_def fetch_player_data_def poll_finish_def poll_start_def
      player_api_request_def heartbeat_running_def)

text \<open>
  C35. The emergency overlay shows the most recently created active EMERGENCY alert of the database, and the alert banner is then empty.
\<close>

theorem emergency_overlay_newest:
  assumes ok: "snd (player_content req ts tn db) = PlayerOk d asg pl xs als"
    and scr: "screen (fetch_player_data (Answer (PlayerOk d asg pl xs als)) h) i = PlayerScreen (Some e) b v"
  shows "e \<in> set (db_alerts db) \<and> al_is_active e \<and> al_level e = EMERGENCY \<and> b = [] \<and>
         (\<forall>a \<in> set (db_alerts db). al_is_active a \<and> al_level a = EMERGENCY \<longrightarrow>
            al_created_at a \<le> al_created_at e)"
proof -
  obtain did where als: "active_alerts db = als"
    using player_content_Ok [OF ok] by blast
  have f: "find (\<lambda>a. al_level a = EMERGENCY) (filter al_is_active als) = Some e" and b: "b = []"
    using scr by (auto simp: screen_def fetch_player_data_def poll_finish_def poll_start_def
        player_api_request_def Let_def split: if_splits)
  let ?ys = "order_desc al_created_at (filter al_is_active (db_alerts db))"
  have ys: "filter al_is_active als = ?ys" using als [symmetric] by (simp add: active_alerts_def order_desc_def filter_sort)
  have srt: "sorted (map (\<lambda>a. - al_created_at a) ?ys)" by (simp add: order_desc_def)
  from f ys have fe: "find (\<lambda>a. al_level a = EMERGENCY) ?ys = Some e" by simp
  then have e: "e \<in> set (db_alerts db) \<and> al_is_active e \<and> al_level e = EMERGENCY"
    by (auto simp: order_desc_def)
  have "al_created_at a \<le> al_created_at e"
    if "a \<in> set (db_alerts db)" "al_is_active a" "al_level a = EMERGENCY" for a
    using find_sorted_first [OF srt fe, of a] that by (simp add: order_desc_def)
  with e b show ?thesis by blast
qed


lemma client_shows_every_slide_witness:
  "\<exists>n. pc_index (client_run (\<lambda>_. ex_answer [ex_slide ''a'' 10, ex_slide ''b'' 20]) n client_init) = 1 \<and>
       client_items (client_run (\<lambda>_. ex_answer [ex_slide ''a'' 10, ex_slide ''b'' 20]) n client_init) =
         [ex_slide ''a'' 10, ex_slide ''b'' 20]"
  using client_shows_every_slide [of "\<lambda>_. ex_answer [ex_slide ''a'' 10, ex_slide ''b'' 20]"
      ex_display "Some ex_assignment" "Some ex_playlist" "[ex_slide ''a'' 10, ex_slide ''b'' 20]" "[]" 1]
  by (simp add: ex_answer_def ex_slide_def)


lemma slide_timeout_index_bound_witness:
  "pc_index (client_run ex_shrinking_answers 4 client_init) = 2 \<and>
   client_items (client_run ex_shrinking_answers 4 client_init) = [ex_slide ''a'' 10] \<and>
   pc_index (client_step ex_shrinking_answers (client_run ex_shrinking_answers 4 client_init)) < 1"
proof -
  define ans where "ans = ex_shrinking_answers"
  define s1 where "s1 = client_step ans client_init"
  define s2 where "s2 = client_step ans s1"
  define s3 where "s3 = client_step ans s2"
  define s4 where "s4 = client_step ans s3"
  have 1: "pc_index s1 = 0" "client_items s1 = [ex_slide ''a'' 10, ex_slide ''b'' 10, ex_slide ''c'' 10]"
     "pc_deadline s1 = Some 10000" "pc_next_poll s1 = 30000" "pc_polls s1 = 1"
    by (simp_all add: s1_def ans_def ex_shrinking_answers_def client_init_def client_step_simps)
  have 2: "pc_index s2 = 1" "client_items s2 = [ex_slide ''a'' 10, ex_slide ''b'' 10, ex_slide ''c'' 10]"
     "pc_deadline s2 = Some 20000" "pc_next_poll s2 = 30000" "pc_polls s2 = 1"
    using 1 by (simp_all add: s2_def client_step_simps)
  have 3: "pc_index s3 = 2" "client_items s3 = [ex_slide ''a'' 10, ex_slide ''b'' 10, ex_slide ''c'' 10]"
     "pc_deadline s3 = Some 30000" "pc_next_poll s3 = 30000" "pc_polls s3 = 1"
    using 2 by (simp_all add: s3_def client_step_simps)
  have 4: "pc_index s4 = 2" "client_items s4 = [ex_slide ''a'' 10]"
     "pc_deadline s4 = Some 40000" "pc_next_poll s4 = 60000"
    using 3 by (simp_all add: s4_def ans_def ex_shrinking_answers_def client_step_simps)
  have r: "client_run ans 4 client_init = s4"
    by (simp add: numeral_eq_Suc s1_def s2_def s3_def s4_def)
  have "pc_index (client_step ans s4) < length (client_items (client_step ans s4))"
    by (rule slide_timeout_index_bound [of _ 40000]) (simp_all add: 4)
  moreover have "client_items (client_step ans s4) = [ex_slide ''a'' 10]"
    using 4 by (simp add: client_step_def slide_timeout_def client_items_def Let_def)
  ultimately show ?thesis using 4 r by (simp add: ans_def)
qed
lemma client_keeps_stale_content_witness:
  "ph_data (fetch_player_data (Answer (snd (player_content (ex_req\<lparr>req_secretKey := Some ''old''\<rparr>) 1000 2000 ex_db)))
      (poll_finish (ex_answer [ex_slide ''a'' 10]) initial_hook)) =
     ph_data (poll_finish (ex_answer [ex_slide ''a'' 10]) initial_hook) \<and>
   heartbeat_running (fetch_player_data (Answer (snd (player_content (ex_req\<lparr>req_secretKey := Some ''old''\<rparr>) 1000 2000 ex_db)))
      (poll_finish (ex_answer [ex_slide ''a'' 10]) initial_hook))"
proof -
  have "req_displayId (ex_req\<lparr>req_secretKey := Some ''old''\<rparr>) = Some ''D''"
    "authenticate ex_db ''D'' (req_secretKey (ex_req\<lparr>req_secretKey := Some ''old''\<rparr>)) = None"
    by (simp_all add: ex_req_def authenticate_def find_unique_def table_simps example_defs)
  from client_keeps_stale_content [OF this, of 1000 2000 "poll_finish (ex_answer [ex_slide ''a'' 10]) initial_hook"]
  show ?thesis
    by (simp add: heartbeat_running_def poll_finish_def ex_answer_def player_api_request_def)
qed

lemma emergency_overlay_newest_witness:
  "screen (fetch_player_data (Answer (PlayerOk ex_display (Some ex_assignment) (Some ex_playlist)
       [ex_content ''Y'' PUBLISHED 9, ex_content ''X'' PUBLISHED 5]
       [(ex_alert ''Fire'' 3 None)\<lparr>al_level := EMERGENCY\<rparr>, ex_alert ''Alert2'' 2 None])) initial_hook) 0 =
     PlayerScreen (Some ((ex_alert ''Fire'' 3 None)\<lparr>al_level := EMERGENCY\<rparr>)) []
       (FullscreenView (Some (content_card (ex_content ''Y'' PUBLISHED 9)))) \<and>
   (ex_alert ''Fire'' 3 None)\<lparr>al_level := EMERGENCY\<rparr> \<in> set (db_alerts ex_alarm_db)"
proof -
  have scr: "screen (fetch_player_data (Answer (PlayerOk ex_display (Some ex_assignment) (Some ex_playlist)
       [ex_content ''Y'' PUBLISHED 9, ex_content ''X'' PUBLISHED 5]
       [(ex_alert ''Fire'' 3 None)\<lparr>al_level := EMERGENCY\<rparr>, ex_alert ''Alert2'' 2 None])) initial_hook) 0 =
     PlayerScreen (Some ((ex_alert ''Fire'' 3 None)\<lparr>al_level := EMERGENCY\<rparr>)) []
       (FullscreenView (Some (content_card (ex_content ''Y'' PUBLISHED 9))))"
    by (simp add: screen_def fetch_player_data_def poll_finish_def poll_start_def player_api_request_def
        render_layout_def current_item_def example_defs)
  from emergency_overlay_newest [OF ex_alarm_answer scr] scr show ?thesis
    by (simp add: example_defs)
qed


end
