(* ===== verification/Admin_UI.thy ===== *)
theory Admin_UI
  imports Api
begin

text \<open>
  The dashboard sections of \<open>src/src/components/admin/\<close>: what each shows of the
  lists its data hook fetched, the form each fills, and the API call each handler
  sends through the hooks of \<open>src/src/hooks/useSignageData.ts\<close>.
  \<open>DashboardSection\<close> (online displays, statistics and panels), \<open>DisplaysSection\<close>
  (form, cards, delete, key rotation), \<open>ContentSection\<close> (filters, form, row buttons,
  publish and archive), \<open>PlaylistsSection\<close> (playlist form and delete),
  \<open>AssignmentsSection\<close> (form, cards and active toggle) and \<open>AlertsSection\<close> (form,
  buttons, the toggle with its confirmation for emergencies). The sessions of the
  content and alerts sections are step relations on the list and the database.

  A form's instant fields are the instants the \<open>datetime-local\<close> inputs denote,
  \<open>None\<close> for the empty input (sent as \<open>null\<close> by \<open>|| null\<close>); filling them from a
  row with \<open>toISOString().slice(0, 16)\<close> keeps the minute (\<open>to_minute\<close>). A
  \<open>create\<close> body names some columns; the database fills the others (the id, the
  defaults, \<open>created_at\<close>): the row it inserts is the body written over a row of
  those values, a parameter \<open>dflt\<close>. \<open>created_by: user?.id\<close> is dropped from the JSON
  body when there is no user, so the column keeps its value (\<open>defined_or\<close>). The
  confirmation dialogs are the user's answer, a parameter \<open>confirmed\<close>. After a
  call that succeeds each hook refetches its list (\<open>refetch()\<close>); after a failure
  it keeps it (\<open>mutate_refetch\<close>).
\<close>

section \<open>Shared by the sections\<close>

definition defined_or :: "'a option \<Rightarrow> 'a option \<Rightarrow> 'a option" where
  "defined_or v old = (case v of None \<Rightarrow> old | Some _ \<Rightarrow> v)"

text \<open>\<open>new Date(t).toISOString().slice(0, 16)\<close>: the instant to the minute.\<close>

definition to_minute :: "timestamp \<Rightarrow> timestamp" where
  "to_minute t = t - t mod 60000"

text \<open>
  A mutation of a hook: send the call; on success (status 200) \<open>refetch()\<close>
  replaces the section's list by the fetched one, otherwise the list is kept.
\<close>

definition mutate_refetch :: "(db \<Rightarrow> 'a list) \<Rightarrow> api_call \<Rightarrow> db \<Rightarrow> 'a list \<Rightarrow> 'a list \<times> db" where
  "mutate_refetch fetch call db items =
     (let (db', st) = api_step call db in (if st = 200 then fetch db' else items, db'))"

definition fetched :: "'a list api_response \<Rightarrow> 'a list" where
  "fetched r = (case r of Ok xs \<Rightarrow> xs | Fail _ _ \<Rightarrow> [])"

section \<open>Dashboard\<close>

text \<open>\<open>lastSeen > new Date(Date.now() - 5 * 60 * 1000)\<close>, a display without
  \<open>last_seen_at\<close> being offline.\<close>

definition display_online :: "timestamp \<Rightarrow> display \<Rightarrow> bool" where
  "display_online now d =
     (case disp_last_seen_at d of None \<Rightarrow> False | Some t \<Rightarrow> now - 5 * 60 * 1000 < t)"

record dashboard_view =
  dv_active_displays :: nat
  dv_displays :: nat
  dv_published :: nat
  dv_content :: nat
  dv_playlists :: nat
  dv_active_alerts :: nat
  dv_alerts :: nat
  dv_emergency :: bool

text \<open>
  The four statistics cards (value and total) and the emergency colour of the
  alerts card.
\<close>

definition dashboard ::
  "timestamp \<Rightarrow> display list \<Rightarrow> content_item list \<Rightarrow> playlist list \<Rightarrow> alert list \<Rightarrow> dashboard_view" where
  "dashboard now ds cs pls als =
     (let activeDisplays = filter (display_online now) ds;
          publishedContent = filter (\<lambda>c. ci_status c = PUBLISHED) cs;
          activeAlerts = filter al_is_active als
      in \<lparr>dv_active_displays = length activeDisplays, dv_displays = length ds,
          dv_published = length publishedContent, dv_content = length cs,
          dv_playlists = length pls,
          dv_active_alerts = length activeAlerts, dv_alerts = length als,
          dv_emergency = list_ex (\<lambda>a. al_level a = EMERGENCY) activeAlerts\<rparr>)"

text \<open>
  The panels below the cards: every display with its online dot, the five first
  content items and the five first alerts of the lists (which the server sends
  newest first), or \<open>No alerts configured\<close> (\<open>None\<close>) when there is none.
\<close>

record dashboard_panels =
  dp_display_status :: "(display \<times> bool) list"
  dp_recent_content :: "content_item list"
  dp_recent_alerts :: "alert list option"

definition dashboard_panels_of ::
  "timestamp \<Rightarrow> display list \<Rightarrow> content_item list \<Rightarrow> alert list \<Rightarrow> dashboard_panels" where
  "dashboard_panels_of now ds cs als =
     \<lparr>dp_display_status = map (\<lambda>d. (d, display_online now d)) ds, dp_recent_content = take 5 cs,
      dp_recent_alerts = (if als = [] then None else Some (take 5 als))\<rparr>"

section \<open>Displays\<close>

record display_form =
  df_name :: string
  df_location :: string
  df_timezone :: string
  df_theme_color :: string

definition display_form_default :: display_form where
  "display_form_default =
     \<lparr>df_name = [], df_location = [], df_timezone = ''America/New_York'', df_theme_color = ''#1e40af''\<rparr>"

definition display_edit_form :: "display \<Rightarrow> display_form" where
  "display_edit_form d =
     \<lparr>df_name = disp_name d, df_location = (case disp_location d of None \<Rightarrow> [] | Some l \<Rightarrow> l),
      df_timezone = disp_timezone d, df_theme_color = disp_theme_color d\<rparr>"

text \<open>The body \<open>formData\<close> of \<open>createDisplay\<close> and \<open>updateDisplay\<close>.\<close>

definition display_body :: "display_form \<Rightarrow> display \<Rightarrow> display" where
  "display_body f d =
     d\<lparr>disp_name := df_name f, disp_location := Some (df_location f),
       disp_timezone := df_timezone f, disp_theme_color := df_theme_color f\<rparr>"

definition display_submit_call :: "display_form \<Rightarrow> display option \<Rightarrow> display \<Rightarrow> timestamp \<Rightarrow> api_call" where
  "display_submit_call f editing dflt now =
     (case editing of
        Some d \<Rightarrow> DisplaysPatch (disp_id d) (display_body f) now
      | None \<Rightarrow> DisplaysPost (display_body f dflt))"

definition display_delete_call :: "bool \<Rightarrow> ident \<Rightarrow> api_call option" where
  "display_delete_call confirmed did = (if confirmed then Some (DisplaysDelete did) else None)"

text \<open>
  \<open>Number.prototype.toString(36)\<close> of a natural number: its base-36 digits, most
  significant first, \<open>0-9\<close> then \<open>a-z\<close>.
\<close>

definition base36_digit :: "nat \<Rightarrow> char" where
  "base36_digit d = (if d < 10 then char_of (48 + d) else char_of (87 + d))"

function (domintros) to_base36 :: "nat \<Rightarrow> string" where
  "to_base36 n = (if n < 36 then [base36_digit n] else to_base36 (n div 36) @ [base36_digit (n mod 36)])"
  by pat_completeness auto

termination to_base36
  by (relation "measure (\<lambda>n. n)") auto

declare to_base36.simps [simp del]

definition base36_chars :: "char set" where
  "base36_chars = set (map base36_digit [0..<36])"

text \<open>
  \<open>rotateSecretKey\<close>: \<open>Math.random().toString(36).substring(2) +
  Date.now().toString(36)\<close>; the digits of the random fraction are a parameter.
  \<open>handleRotateKey\<close> asks for confirmation first.
\<close>

definition rotated_key :: "string \<Rightarrow> nat \<Rightarrow> string" where
  "rotated_key random_digits now = random_digits @ to_base36 now"

definition rotate_key_call :: "bool \<Rightarrow> ident \<Rightarrow> string \<Rightarrow> nat \<Rightarrow> timestamp \<Rightarrow> api_call option" where
  "rotate_key_call confirmed did random_digits now t =
     (if confirmed
      then Some (DisplaysPatch did (\<lambda>d. d\<lparr>disp_secret_key := rotated_key random_digits now\<rparr>) t)
      else None)"

text \<open>\<open>copyPlayerUrl\<close>: \<open>`${origin}/player/${display.id}?key=${display.secret_key}`\<close>.\<close>

definition player_url :: "string \<Rightarrow> display \<Rightarrow> string" where
  "player_url origin d = origin @ ''/player/'' @ disp_id d @ ''?key='' @ disp_secret_key d"

text \<open>
  A display's card in the grid: name, online badge, location (\<open>display.location ||
  'No location set'\<close>), last contact, the first twelve characters of the key, the
  link that opens the player, and the buttons (copy URL for everyone; rotate, edit and
  delete for users who may edit).
\<close>

datatype display_button = CopyUrlButton | RotateKeyButton | DisplayEditButton | DisplayDeleteButton

definition display_preview_href :: "display \<Rightarrow> string" where
  "display_preview_href d = ''/player/'' @ disp_id d @ ''?key='' @ disp_secret_key d"

record display_card =
  dc_name :: string
  dc_online :: bool
  dc_location :: string
  dc_last_seen :: "timestamp option"
  dc_key_preview :: string
  dc_href :: string
  dc_buttons :: "display_button list"

definition display_card_of :: "bool \<Rightarrow> timestamp \<Rightarrow> display \<Rightarrow> display_card" where
  "display_card_of canEdit now d =
     \<lparr>dc_name = disp_name d, dc_online = display_online now d,
      dc_location = (case disp_location d of None \<Rightarrow> ''No location set''
                     | Some l \<Rightarrow> if l = [] then ''No location set'' else l),
      dc_last_seen = disp_last_seen_at d,
      dc_key_preview = take 12 (disp_secret_key d) @ ''...'',
      dc_href = display_preview_href d,
      dc_buttons = CopyUrlButton # (if canEdit then [RotateKeyButton, DisplayEditButton, DisplayDeleteButton] else [])\<rparr>"

section \<open>Content\<close>

datatype 'a selection = Sel_ALL | Sel_Only 'a

definition selected :: "'a selection \<Rightarrow> 'a \<Rightarrow> bool" where
  "selected s x = (case s of Sel_ALL \<Rightarrow> True | Sel_Only y \<Rightarrow> x = y)"

definition filtered_content ::
  "content_type selection \<Rightarrow> content_status selection \<Rightarrow> content_item list \<Rightarrow> content_item list" where
  "filtered_content ft fs cs = filter (\<lambda>item. selected ft (ci_type item) \<and> selected fs (ci_status item)) cs"

record content_form =
  cf_type :: content_type
  cf_title :: string
  cf_body :: string
  cf_media_url :: string
  cf_duration_seconds :: int
  cf_priority :: int
  cf_start_at :: "timestamp option"
  cf_end_at :: "timestamp option"

definition content_form_default :: content_form where
  "content_form_default =
     \<lparr>cf_type = ANNOUNCEMENT, cf_title = [], cf_body = [], cf_media_url = [],
      cf_duration_seconds = 10, cf_priority = 0, cf_start_at = None, cf_end_at = None\<rparr>"

text \<open>
  \<open>handleSubmit\<close>: the body \<open>{ ...formData, start_at: formData.start_at || null,
  end_at: formData.end_at || null, created_by: user?.id }\<close>, written over the row.
\<close>

definition content_body :: "content_form \<Rightarrow> ident option \<Rightarrow> content_item \<Rightarrow> content_item" where
  "content_body f uid c =
     c\<lparr>ci_type := cf_type f, ci_title := cf_title f, ci_body := Some (cf_body f),
       ci_media_url := Some (cf_media_url f), ci_duration_seconds := cf_duration_seconds f,
       ci_priority := cf_priority f, ci_start_at := cf_start_at f, ci_end_at := cf_end_at f,
       ci_created_by := defined_or uid (ci_created_by c)\<rparr>"

definition content_submit_call ::
  "content_form \<Rightarrow> ident option \<Rightarrow> content_item option \<Rightarrow> content_item \<Rightarrow> timestamp \<Rightarrow> api_call" where
  "content_submit_call f uid editing dflt now =
     (case editing of
        Some c \<Rightarrow> ContentPatch (ci_id c) (content_body f uid) now
      | None \<Rightarrow> ContentPost (content_body f uid dflt))"

text \<open>\<open>handleEdit\<close>: the form filled from a content item.\<close>

definition content_edit_form :: "content_item \<Rightarrow> content_form" where
  "content_edit_form c =
     \<lparr>cf_type = ci_type c, cf_title = ci_title c,
      cf_body = (case ci_body c of None \<Rightarrow> [] | Some b \<Rightarrow> b),
      cf_media_url = (case ci_media_url c of None \<Rightarrow> [] | Some u \<Rightarrow> u),
      cf_duration_seconds = ci_duration_seconds c, cf_priority = ci_priority c,
      cf_start_at = map_option to_minute (ci_start_at c), cf_end_at = map_option to_minute (ci_end_at c)\<rparr>"

text \<open>The buttons of a row of the content table, for a user who may edit.\<close>

datatype content_button = PublishButton | ArchiveButton | EditButton | DeleteButton

definition content_buttons :: "bool \<Rightarrow> content_item \<Rightarrow> content_button list" where
  "content_buttons canEdit item =
     (if canEdit
      then (if ci_status item = DRAFT then [PublishButton] else []) @
           (if ci_status item = PUBLISHED then [ArchiveButton] else []) @ [EditButton, DeleteButton]
      else [])"

text \<open>
  The call a button leads to: \<open>publishContent\<close> and \<open>archiveContent\<close> send
  \<open>updateContent(id, { status })\<close>; the edit button opens the form filled by
  \<open>handleEdit\<close>, which the user changes into \<open>f\<close> and submits; the delete button
  asks for confirmation.
\<close>

definition content_button_call ::
  "content_button \<Rightarrow> bool \<Rightarrow> content_form \<Rightarrow> ident option \<Rightarrow> content_item \<Rightarrow> timestamp \<Rightarrow> api_call option" where
  "content_button_call b confirmed f uid c now =
     (case b of
        PublishButton \<Rightarrow> Some (ContentPatch (ci_id c) (\<lambda>x. x\<lparr>ci_status := PUBLISHED\<rparr>) now)
      | ArchiveButton \<Rightarrow> Some (ContentPatch (ci_id c) (\<lambda>x. x\<lparr>ci_status := ARCHIVED\<rparr>) now)
      | EditButton \<Rightarrow> Some (content_submit_call f uid (Some c) c now)
      | DeleteButton \<Rightarrow> (if confirmed then Some (ContentDelete (ci_id c)) else None))"

text \<open>\<open>useContentItems\<close>' list: \<open>GET /content_items\<close>.\<close>

definition content_list :: "db \<Rightarrow> content_item list" where
  "content_list db = fetched (content_get db)"

text \<open>
  A session of the content section of one editor: its list and the database. The
  editor clicks a button of a row of the list, submits the form for a new item, or
  the list is fetched again.
\<close>

inductive content_ui :: "content_item list \<times> db \<Rightarrow> content_item list \<times> db \<Rightarrow> bool" where
  content_ui_click:
    "c \<in> set items \<Longrightarrow> b \<in> set (content_buttons True c) \<Longrightarrow>
     content_button_call b confirmed f uid c now = Some call \<Longrightarrow>
     content_ui (items, db) (mutate_refetch content_list call db items)"
| content_ui_create:
    "content_ui (items, db) (mutate_refetch content_list (content_submit_call f uid None dflt now) db items)"
| content_ui_refetch:
    "content_ui (items, db) (content_list db, db)"

text \<open>The lifecycle of the status of the item with a given id: absent is \<open>None\<close>.\<close>

definition content_status_of :: "db \<Rightarrow> ident \<Rightarrow> content_status option" where
  "content_status_of db k = map_option ci_status (find_unique content_tbl k db)"

inductive content_lifecycle :: "content_status option \<Rightarrow> content_status option \<Rightarrow> bool" where
  lifecycle_stay: "content_lifecycle s s"
| lifecycle_create: "content_lifecycle None (Some s)"
| lifecycle_delete: "content_lifecycle (Some s) None"
| lifecycle_publish: "content_lifecycle (Some DRAFT) (Some PUBLISHED)"
| lifecycle_archive: "content_lifecycle (Some PUBLISHED) (Some ARCHIVED)"

section \<open>Playlists\<close>

text \<open>
  The playlist list and form of \<open>PlaylistsSection\<close> (the item editor's handlers
  \<open>handleAddContent\<close> and \<open>moveItem\<close> are in \<open>Playlists\<close>).
\<close>

record playlist_form =
  plf_name :: string
  plf_description :: string

definition playlist_form_default :: playlist_form where
  "playlist_form_default = \<lparr>plf_name = [], plf_description = []\<rparr>"

definition playlist_edit_form :: "playlist \<Rightarrow> playlist_form" where
  "playlist_edit_form p =
     \<lparr>plf_name = pl_name p, plf_description = (case pl_description p of None \<Rightarrow> [] | Some d \<Rightarrow> d)\<rparr>"

definition playlist_body :: "playlist_form \<Rightarrow> playlist \<Rightarrow> playlist" where
  "playlist_body f p = p\<lparr>pl_name := plf_name f, pl_description := Some (plf_description f)\<rparr>"

text \<open>\<open>handleSubmit\<close>: \<open>updatePlaylist(id, formData)\<close> or
  \<open>createPlaylist({ ...formData, created_by: user?.id })\<close>.\<close>

definition playlist_submit_call ::
  "playlist_form \<Rightarrow> ident option \<Rightarrow> playlist option \<Rightarrow> playlist \<Rightarrow> timestamp \<Rightarrow> api_call" where
  "playlist_submit_call f uid editing dflt now =
     (case editing of
        Some p \<Rightarrow> PlaylistsPatch (pl_id p) (playlist_body f) now
      | None \<Rightarrow> PlaylistsPost ((playlist_body f dflt)\<lparr>pl_created_by := defined_or uid (pl_created_by dflt)\<rparr>))"

definition playlist_delete_call :: "bool \<Rightarrow> ident \<Rightarrow> api_call option" where
  "playlist_delete_call confirmed k = (if confirmed then Some (PlaylistsDelete k) else None)"

text \<open>After a successful delete, \<open>if (selectedPlaylist?.id === id) setSelectedPlaylist(null)\<close>.\<close>

definition selection_after_delete :: "playlist option \<Rightarrow> ident \<Rightarrow> bool \<Rightarrow> playlist option" where
  "selection_after_delete sel k ok = (if ok \<and> map_option pl_id sel = Some k then None else sel)"

text \<open>The editor offers only published content: \<open>contentItems.filter(c => c.status === 'PUBLISHED')\<close>.\<close>

definition editor_content :: "content_item list \<Rightarrow> content_item list" where
  "editor_content cs = filter (\<lambda>c. ci_status c = PUBLISHED) cs"

text \<open>\<open>handleRemoveItem\<close>: \<open>removeItem(itemId)\<close>, \<open>DELETE /playlists/items/:itemId\<close>.\<close>

definition remove_item_call :: "ident \<Rightarrow> api_call" where
  "remove_item_call itemId = PlaylistItemDelete itemId"

section \<open>Assignments\<close>

record assignment_form =
  af_display_id :: ident
  af_playlist_id :: ident
  af_layout_preset :: layout_preset
  af_is_active :: bool
  af_active_from :: "timestamp option"
  af_active_to :: "timestamp option"

definition assignment_form_default :: assignment_form where
  "assignment_form_default =
     \<lparr>af_display_id = [], af_playlist_id = [], af_layout_preset = Fullscreen, af_is_active = True,
      af_active_from = None, af_active_to = None\<rparr>"

definition assignment_edit_form :: "display_assignment \<Rightarrow> assignment_form" where
  "assignment_edit_form a =
     \<lparr>af_display_id = da_display_id a, af_playlist_id = da_playlist_id a,
      af_layout_preset = da_layout_preset a, af_is_active = da_is_active a,
      af_active_from = map_option to_minute (da_active_from a),
      af_active_to = map_option to_minute (da_active_to a)\<rparr>"

definition assignment_body :: "assignment_form \<Rightarrow> display_assignment \<Rightarrow> display_assignment" where
  "assignment_body f a =
     a\<lparr>da_display_id := af_display_id f, da_playlist_id := af_playlist_id f,
       da_layout_preset := af_layout_preset f, da_is_active := af_is_active f,
       da_active_from := af_active_from f, da_active_to := af_active_to f\<rparr>"

definition assignment_submit_call ::
  "assignment_form \<Rightarrow> display_assignment option \<Rightarrow> display_assignment \<Rightarrow> timestamp \<Rightarrow> api_call" where
  "assignment_submit_call f editing dflt now =
     (case editing of
        Some a \<Rightarrow> AssignmentsPatch (da_id a) (assignment_body f) now
      | None \<Rightarrow> AssignmentsPost (assignment_body f dflt))"

definition assignment_delete_call :: "bool \<Rightarrow> ident \<Rightarrow> api_call option" where
  "assignment_delete_call confirmed k = (if confirmed then Some (AssignmentsDelete k) else None)"

text \<open>\<open>toggleActive\<close>: \<open>updateAssignment(id, { is_active: !assignment.is_active })\<close>.\<close>

definition assignment_toggle_call :: "display_assignment \<Rightarrow> timestamp \<Rightarrow> api_call" where
  "assignment_toggle_call a now =
     AssignmentsPatch (da_id a) (\<lambda>x. x\<lparr>da_is_active := \<not> da_is_active a\<rparr>) now"

text \<open>
  An assignment's card: the active badge, the layout, the names of the display and
  the playlist the route includes (\<open>assignment.display?.name || 'Unknown'\<close>), the
  schedule when one bound is set, and the toggle, edit and delete buttons for users
  who may edit.
\<close>

record assignment_card =
  ac_badge :: string
  ac_layout :: layout_preset
  ac_display_name :: string
  ac_playlist_name :: string
  ac_schedule :: "(timestamp option \<times> timestamp option) option"
  ac_buttons :: bool

definition name_or_unknown :: "string option \<Rightarrow> string" where
  "name_or_unknown n = (case n of None \<Rightarrow> ''Unknown'' | Some s \<Rightarrow> if s = [] then ''Unknown'' else s)"

definition assignment_card_of ::
  "bool \<Rightarrow> display_assignment \<times> display option \<times> playlist option \<Rightarrow> assignment_card" where
  "assignment_card_of canEdit row =
     (case row of (a, d, p) \<Rightarrow>
       \<lparr>ac_badge = (if da_is_active a then ''Active'' else ''Inactive''), ac_layout = da_layout_preset a,
        ac_display_name = name_or_unknown (map_option disp_name d),
        ac_playlist_name = name_or_unknown (map_option pl_name p),
        ac_schedule = (if da_active_from a \<noteq> None \<or> da_active_to a \<noteq> None
                       then Some (da_active_from a, da_active_to a) else None),
        ac_buttons = canEdit\<rparr>)"

section \<open>Alerts\<close>

record alert_form =
  alf_title :: string
  alf_message :: string
  alf_level :: alert_level
  alf_starts_at :: "timestamp option"
  alf_ends_at :: "timestamp option"

definition alert_form_default :: alert_form where
  "alert_form_default =
     \<lparr>alf_title = [], alf_message = [], alf_level = INFO, alf_starts_at = None, alf_ends_at = None\<rparr>"

text \<open>\<open>starts_at: formData.starts_at || new Date().toISOString()\<close>.\<close>

definition alert_body :: "alert_form \<Rightarrow> ident option \<Rightarrow> timestamp \<Rightarrow> alert \<Rightarrow> alert" where
  "alert_body f uid now a =
     a\<lparr>al_title := alf_title f, al_message := alf_message f, al_level := alf_level f,
       al_starts_at := (case alf_starts_at f of None \<Rightarrow> now | Some t \<Rightarrow> t),
       al_ends_at := alf_ends_at f, al_created_by := defined_or uid (al_created_by a)\<rparr>"

definition alert_submit_call ::
  "alert_form \<Rightarrow> ident option \<Rightarrow> alert option \<Rightarrow> alert \<Rightarrow> timestamp \<Rightarrow> api_call" where
  "alert_submit_call f uid editing dflt now =
     (case editing of
        Some a \<Rightarrow> AlertsPatch (al_id a) (alert_body f uid now) now
      | None \<Rightarrow> AlertsPost (alert_body f uid now dflt))"

definition alert_edit_form :: "alert \<Rightarrow> alert_form" where
  "alert_edit_form a =
     \<lparr>alf_title = al_title a, alf_message = al_message a, alf_level = al_level a,
      alf_starts_at = Some (to_minute (al_starts_at a)), alf_ends_at = map_option to_minute (al_ends_at a)\<rparr>"

definition alert_delete_call :: "bool \<Rightarrow> ident \<Rightarrow> api_call option" where
  "alert_delete_call confirmed k = (if confirmed then Some (AlertsDelete k) else None)"

text \<open>
  \<open>handleToggleActive\<close>: deactivate an active alert; activate an inactive one, after
  the confirmation dialog when it is an emergency. \<open>activateAlert\<close> and
  \<open>deactivateAlert\<close> send \<open>updateAlert(id, { is_active })\<close>.
\<close>

definition alert_toggle_call :: "bool \<Rightarrow> alert \<Rightarrow> timestamp \<Rightarrow> api_call option" where
  "alert_toggle_call confirmed a now =
     (if al_is_active a then Some (AlertsPatch (al_id a) (\<lambda>x. x\<lparr>al_is_active := False\<rparr>) now)
      else if al_level a = EMERGENCY \<and> \<not> confirmed then None
      else Some (AlertsPatch (al_id a) (\<lambda>x. x\<lparr>al_is_active := True\<rparr>) now))"

text \<open>The two lists of the section: active alerts first, then the inactive ones.\<close>

definition alert_groups :: "alert list \<Rightarrow> alert list \<times> alert list" where
  "alert_groups als = (filter al_is_active als, filter (\<lambda>a. \<not> al_is_active a) als)"

text \<open>
  The buttons of an alert: the panel of active alerts has Deactivate and Edit, the
  table of all alerts has the toggle, Edit and Delete; both for users who may edit.
\<close>

datatype alert_button = ToggleButton | AlertEditButton | AlertDeleteButton

definition active_panel_buttons :: "bool \<Rightarrow> alert_button list" where
  "active_panel_buttons canEdit = (if canEdit then [ToggleButton, AlertEditButton] else [])"

definition alert_table_buttons :: "bool \<Rightarrow> alert_button list" where
  "alert_table_buttons canEdit =
     (if canEdit then [ToggleButton, AlertEditButton, AlertDeleteButton] else [])"

definition alert_button_call ::
  "alert_button \<Rightarrow> bool \<Rightarrow> alert_form \<Rightarrow> ident option \<Rightarrow> alert \<Rightarrow> timestamp \<Rightarrow> api_call option" where
  "alert_button_call b confirmed f uid a now =
     (case b of
        ToggleButton \<Rightarrow> alert_toggle_call confirmed a now
      | AlertEditButton \<Rightarrow> Some (alert_submit_call f uid (Some a) a now)
      | AlertDeleteButton \<Rightarrow> alert_delete_call confirmed (al_id a))"

text \<open>\<open>useAlerts\<close>' list: \<open>GET /alerts\<close>.\<close>

definition alert_list :: "db \<Rightarrow> alert list" where
  "alert_list db = fetched (alerts_get db)"

text \<open>A session of the alerts section of one administrator.\<close>

inductive alert_ui :: "alert list \<times> db \<Rightarrow> alert list \<times> db \<Rightarrow> bool" where
  alert_ui_click:
    "a \<in> set items \<Longrightarrow>
     b \<in> set (alert_table_buttons True) \<or> (al_is_active a \<and> b \<in> set (active_panel_buttons True)) \<Longrightarrow>
     alert_button_call b confirmed f uid a now = Some call \<Longrightarrow>
     alert_ui (items, db) (mutate_refetch alert_list call db items)"
| alert_ui_create:
    "alert_ui (items, db) (mutate_refetch alert_list (alert_submit_call f uid None dflt now) db items)"
| alert_ui_refetch:
    "alert_ui (items, db) (alert_list db, db)"

text \<open>Whether an emergency alert is active, that is, overrides every display.\<close>

definition emergency_active :: "db \<Rightarrow> bool" where
  "emergency_active db = list_ex (\<lambda>a. al_is_active a \<and> al_level a = EMERGENCY) (db_alerts db)"

section \<open>Lemmas\<close>

lemma set_content_list [simp]: "set (content_list db) = set (db_content_items db)"
  by (simp add: content_list_def fetched_def content_get_def list_handler_def order_desc_def table_simps)

lemma content_call_fail_keeps:
  "snd (api_step (ContentPatch k g now) db) \<noteq> 200 \<Longrightarrow> fst (api_step (ContentPatch k g now) db) = db"
  "snd (api_step (ContentPost c) db) \<noteq> 200 \<Longrightarrow> fst (api_step (ContentPost c) db) = db"
  "snd (api_step (ContentDelete k) db) \<noteq> 200 \<Longrightarrow> fst (api_step (ContentDelete k) db) = db"
  by (auto simp: with_status_def content_patch_def content_post_def content_delete_def
      dest!: status_not_ok intro: handler_fail_keeps)

lemma content_patch_status:
  assumes "\<And>x. ci_id (g x) = ci_id x"
  shows "content_status_of (fst (api_step (ContentPatch j g now) db)) k =
           (if k = j then map_option (\<lambda>r. ci_status (g r)) (find_unique content_tbl j db)
            else content_status_of db k)"
proof (cases "find_unique content_tbl j db")
  case None
  then show ?thesis
    by (simp add: with_status_def content_patch_def patch_handler_def update_row_def content_status_of_def)
next
  case (Some r)
  have "update_row content_tbl j (\<lambda>r. (g r)\<lparr>ci_updated_at := now\<rparr>) db =
          Inr (tbl_put content_tbl (update_where (\<lambda>x. tbl_key content_tbl x = j)
             (\<lambda>r. (g r)\<lparr>ci_updated_at := now\<rparr>) (tbl_get content_tbl db)) db, (g r)\<lparr>ci_updated_at := now\<rparr>)"
    by (rule update_row_key_kept [OF Some]) (simp add: table_simps assms)
  with Some show ?thesis
    by (auto simp: with_status_def content_patch_def patch_handler_def content_status_of_def
        find_unique_def table_simps find_update_where_key assms)
qed

lemma content_delete_status:
  "content_status_of (fst (api_step (ContentDelete j) db)) k =
     (if k = j then None else content_status_of db k)"
  by (auto simp: with_status_def content_delete_def delete_handler_def delete_row_def
      content_status_of_def find_unique_def table_simps find_filter_key split: option.splits)

lemma content_post_status:
  "content_status_of (fst (api_step (ContentPost r) db)) k =
     (if k = ci_id r \<and> content_status_of db k = None then Some (ci_status r) else content_status_of db k)"
  by (auto simp: with_status_def content_post_def create_handler_def create_row_def
      content_status_of_def find_unique_def table_simps find_append_case find_None_iff
      split: option.splits)

lemma content_button_calls:
  "content_button_call b confirmed f uid c now = Some call \<Longrightarrow>
     (b = PublishButton \<and> call = ContentPatch (ci_id c) (\<lambda>x. x\<lparr>ci_status := PUBLISHED\<rparr>) now) \<or>
     (b = ArchiveButton \<and> call = ContentPatch (ci_id c) (\<lambda>x. x\<lparr>ci_status := ARCHIVED\<rparr>) now) \<or>
     (b = EditButton \<and> call = ContentPatch (ci_id c) (content_body f uid) now) \<or>
     (b = DeleteButton \<and> call = ContentDelete (ci_id c))"
  by (cases b) (auto simp: content_button_call_def content_submit_call_def split: if_splits)

lemma snd_mutate_refetch [simp]: "snd (mutate_refetch fetch call db items) = fst (api_step call db)"
  by (simp add: mutate_refetch_def split_def Let_def)

lemma mutate_refetch_synced:
  assumes "snd (api_step call db) \<noteq> 200 \<Longrightarrow> fst (api_step call db) = db" and "items = fetch db"
  shows "fst (mutate_refetch fetch call db items) = fetch (fst (api_step call db))"
  using assms by (auto simp: mutate_refetch_def split_def Let_def)

lemma content_button_call_fail_keeps:
  assumes "content_button_call b confirmed f uid c now = Some call"
  shows "snd (api_step call db) \<noteq> 200 \<Longrightarrow> fst (api_step call db) = db"
  using content_button_calls [OF assms] content_call_fail_keeps
  by (auto simp del: api_step.simps)

lemma content_ui_synced:
  assumes "content_ui s s'" and "fst s = content_list (snd s)" and "keys_ok (snd s)"
  shows "fst s' = content_list (snd s') \<and> keys_ok (snd s')"
  using assms
proof induction
  case (content_ui_click c items b confirmed f uid now call db)
  then show ?case
    by (simp del: api_step.simps add: api_step_keys_ok_step mutate_refetch_synced
        content_button_call_fail_keeps)
next
  case (content_ui_create items db f uid dflt now)
  then show ?case
    by (simp del: api_step.simps add: api_step_keys_ok_step mutate_refetch_synced
        content_submit_call_def content_call_fail_keeps)
next
  case (content_ui_refetch items db)
  then show ?case by simp
qed

lemma content_ui_reach_synced:
  assumes "content_ui\<^sup>*\<^sup>* s s'" and "fst s = content_list (snd s)" and "keys_ok (snd s)"
  shows "fst s' = content_list (snd s') \<and> keys_ok (snd s')"
  using assms by induction (auto dest: content_ui_synced)

lemma shown_content_found:
  assumes "keys_ok db" and "c \<in> set (db_content_items db)"
  shows "find_unique content_tbl (ci_id c) db = Some c"
proof -
  have "\<exists>y. find (\<lambda>r. ci_id r = ci_id c) (db_content_items db) = Some y"
    using assms(2) by (rule find_in_set_Some) simp
  then obtain r where r: "find_unique content_tbl (ci_id c) db = Some r"
    by (auto simp add: find_unique_def content_tbl_def)
  have "keys_distinct content_tbl db" using assms(1) by (simp add: keys_ok_def)
  then have "c = r"
    by (rule find_unique_distinct_eq [OF _ r]) (simp_all add: content_tbl_def assms(2))
  with r show ?thesis by simp
qed

lemma content_mutation_lifecycle:
  assumes "keys_ok db" and "c \<in> set (db_content_items db)"
    and "b \<in> set (content_buttons True c)" and "content_button_call b confirmed f uid c now = Some call"
  shows "content_lifecycle (content_status_of db k) (content_status_of (fst (api_step call db)) k)"
proof -
  have found: "find_unique content_tbl (ci_id c) db = Some c"
    using assms(1,2) by (rule shown_content_found)
  then have st: "content_status_of db (ci_id c) = Some (ci_status c)"
    by (simp add: content_status_of_def)
  from assms(4) consider
      "b = PublishButton" "call = ContentPatch (ci_id c) (\<lambda>x. x\<lparr>ci_status := PUBLISHED\<rparr>) now"
    | "b = ArchiveButton" "call = ContentPatch (ci_id c) (\<lambda>x. x\<lparr>ci_status := ARCHIVED\<rparr>) now"
    | "b = EditButton" "call = ContentPatch (ci_id c) (content_body f uid) now"
    | "b = DeleteButton" "call = ContentDelete (ci_id c)"
    by (blast dest: content_button_calls)
  then show ?thesis
  proof cases
    case 1
    then have "ci_status c = DRAFT" using assms(3) by (auto simp: content_buttons_def split: if_splits)
    with 1 found st show ?thesis
      by (simp del: api_step.simps add: content_patch_status lifecycle_stay lifecycle_publish)
  next
    case 2
    then have "ci_status c = PUBLISHED" using assms(3) by (auto simp: content_buttons_def split: if_splits)
    with 2 found st show ?thesis
      by (simp del: api_step.simps add: content_patch_status lifecycle_stay lifecycle_archive)
  next
    case 3
    with found st show ?thesis
      by (simp del: api_step.simps add: content_patch_status content_body_def lifecycle_stay)
  next
    case 4
    with st show ?thesis
      by (simp del: api_step.simps add: content_delete_status lifecycle_stay lifecycle_delete)
  qed
qed

lemma map_option_to_minute_id:
  "map_option to_minute x = x \<longleftrightarrow> pred_option (\<lambda>t. t mod 60000 = 0) x"
  by (cases x) (auto simp: to_minute_def)

lemma new_row_keeps_first:
  "find P xs = Some a \<Longrightarrow> find P (xs @ [r]) = Some a"
  by (simp add: find_append_case)

text \<open>
  The toggle asks for confirmation before it activates an emergency alert: without
  it, the toggle of an inactive emergency alert sends nothing.
\<close>

lemma alert_toggle_needs_confirmation:
  "al_level a = EMERGENCY \<Longrightarrow> \<not> al_is_active a \<Longrightarrow> alert_toggle_call False a now = None"
  by (simp add: alert_toggle_call_def)

text \<open>
  The edit form bypasses that confirmation: an administrator who, without being
  asked anything, raises the level of an active alert to \<open>EMERGENCY\<close> puts an
  emergency on every display (from the example database, where no emergency is
  active).
\<close>

lemma alert_edit_raises_emergency:
  "alert_ui (alert_list ex_db, ex_db)
     (mutate_refetch alert_list
        (alert_submit_call ((alert_edit_form (ex_alert ''Alert2'' 2 None))\<lparr>alf_level := EMERGENCY\<rparr>) None
           (Some (ex_alert ''Alert2'' 2 None)) (ex_alert ''Alert2'' 2 None) 5) ex_db (alert_list ex_db)) \<and>
   \<not> emergency_active ex_db \<and>
   emergency_active (fst (api_step (alert_submit_call ((alert_edit_form (ex_alert ''Alert2'' 2 None))\<lparr>alf_level := EMERGENCY\<rparr>) None
           (Some (ex_alert ''Alert2'' 2 None)) (ex_alert ''Alert2'' 2 None) 5) ex_db))"
proof (intro conjI)
  show "alert_ui (alert_list ex_db, ex_db)
     (mutate_refetch alert_list
        (alert_submit_call ((alert_edit_form (ex_alert ''Alert2'' 2 None))\<lparr>alf_level := EMERGENCY\<rparr>) None
           (Some (ex_alert ''Alert2'' 2 None)) (ex_alert ''Alert2'' 2 None) 5) ex_db (alert_list ex_db))"
    by (rule alert_ui_click [where b = AlertEditButton and confirmed = False])
      (simp_all add: alert_list_def fetched_def alerts_get_def list_handler_def order_desc_def table_simps
        ex_db_def alert_table_buttons_def alert_button_call_def)
  show "\<not> emergency_active ex_db"
    by (simp add: emergency_active_def ex_db_def example_defs)
  show "emergency_active (fst (api_step (alert_submit_call ((alert_edit_form (ex_alert ''Alert2'' 2 None))\<lparr>alf_level := EMERGENCY\<rparr>) None
           (Some (ex_alert ''Alert2'' 2 None)) (ex_alert ''Alert2'' 2 None) 5) ex_db))"
    by (simp add: emergency_active_def alert_submit_call_def with_status_def alerts_patch_def
        patch_handler_def update_row_def find_unique_def table_simps alert_body_def alert_edit_form_def
        ex_db_def example_defs)
qed

section \<open>Properties\<close>

text \<open>
  C37. In a session of the content section (the list as last fetched, the buttons
  of its rows, the form for new items), every step changes the status of each
  content id along the lifecycle: an absent item is created with some status, an
  item is deleted, a draft is published, a published item is archived, or the
  status stays. In particular no step republishes an archived item or brings a
  published one back to draft: the only buttons that change the status are
  \<open>Publish\<close> on drafts and \<open>Archive\<close> on published items, and the form has no status.
\<close>

theorem content_ui_lifecycle:
  assumes "content_ui\<^sup>*\<^sup>* (content_list db0, db0) (items, db)" and "keys_ok db0"
    and "content_ui (items, db) s'"
  shows "content_lifecycle (content_status_of db k) (content_status_of (snd s') k)"
proof -
  from content_ui_reach_synced [OF assms(1)] assms(2)
  have synced: "items = content_list db" and ok: "keys_ok db" by auto
  from assms(3) show ?thesis
  proof cases
    case (content_ui_click c b confirmed f uid now call)
    then show ?thesis
      using content_mutation_lifecycle [OF ok, of c b confirmed f uid now call k] synced
      by (metis set_content_list snd_conv snd_mutate_refetch)
  next
    case (content_ui_create f uid dflt now)
    then have "snd s' = fst (api_step (ContentPost (content_body f uid dflt)) db)"
      by (metis content_submit_call_def option.case(1) snd_conv snd_mutate_refetch)
    then show ?thesis
      by (auto simp del: api_step.simps simp: content_post_status lifecycle_stay lifecycle_create)
  next
    case content_ui_refetch
    then show ?thesis by (simp add: lifecycle_stay)
  qed
qed




section \<open>Witnesses\<close>

lemma content_ui_lifecycle_witness:
  "content_status_of ex_db ''X'' = Some PUBLISHED \<and>
   content_status_of (snd (mutate_refetch content_list
     (ContentPatch ''X'' (\<lambda>x. x\<lparr>ci_status := ARCHIVED\<rparr>) 7) ex_db (content_list ex_db))) ''X'' = Some ARCHIVED \<and>
   content_lifecycle (content_status_of ex_db ''X'')
     (content_status_of (snd (mutate_refetch content_list
        (ContentPatch ''X'' (\<lambda>x. x\<lparr>ci_status := ARCHIVED\<rparr>) 7) ex_db (content_list ex_db))) ''X'')"
proof -
  let ?c = "ex_content ''X'' PUBLISHED 5"
  let ?call = "ContentPatch ''X'' (\<lambda>x. x\<lparr>ci_status := ARCHIVED\<rparr>) 7"
  have ok: "keys_ok ex_db"
    by (simp add: keys_ok_def keys_distinct_def table_simps ex_db_def example_defs)
  have click: "content_ui (content_list ex_db, ex_db) (mutate_refetch content_list ?call ex_db (content_list ex_db))"
    by (rule content_ui_click [of ?c _ ArchiveButton True content_form_default None 7])
      (simp_all add: ex_db_def content_buttons_def content_button_call_def example_defs)
  have before: "content_status_of ex_db ''X'' = Some PUBLISHED"
    by (simp add: content_status_of_def find_unique_def table_simps ex_db_def example_defs)
  have after: "content_status_of (fst (api_step ?call ex_db)) ''X'' = Some ARCHIVED"
    by (simp del: api_step.simps add: content_patch_status)
      (simp add: find_unique_def table_simps ex_db_def example_defs)
  show ?thesis
    using content_ui_lifecycle [OF rtranclp.rtrancl_refl ok click, of "''X''"] before after by simp
qed



end
