(* ===== verification/Player_Page.thy ===== *)
theory Player_Page
  imports Admin_UI
begin

text \<open>
  The player page of \<open>src/src/pages/Player.tsx\<close> (and its Next.js twin
  \<open>src/app/player/[displayId]/page.tsx\<close>) reads the display id from the route
  \<open>/player/:displayId\<close> and the secret key from the query with
  \<open>searchParams.get('key') || ''\<close>, and renders the player for them. The URL the
  displays section copies (\<open>player_url\<close>) is read back by this page. The query is
  parsed as \<open>URLSearchParams\<close> does: pairs separated by \<open>&\<close>, empty pairs skipped,
  the name up to the first \<open>=\<close>, \<open>+\<close> read as a space. Percent-decoding is not
  modelled; the theorems are stated for ids and keys without \<open>%\<close>.
\<close>

fun split_on :: "char \<Rightarrow> string \<Rightarrow> string list" where
  "split_on c [] = [[]]"
| "split_on c (x # xs) =
     (if x = c then [] # split_on c xs
      else (case split_on c xs of w # ws \<Rightarrow> (x # w) # ws | [] \<Rightarrow> [[x]]))"

definition plus_as_space :: "string \<Rightarrow> string" where
  "plus_as_space s = map (\<lambda>ch. if ch = CHR ''+'' then CHR '' '' else ch) s"

definition form_pair :: "string \<Rightarrow> string \<times> string" where
  "form_pair s =
     (let name = takeWhile (\<lambda>ch. ch \<noteq> CHR ''='') s
      in (plus_as_space name, plus_as_space (drop (Suc (length name)) s)))"

text \<open>\<open>URLSearchParams.get(name)\<close>: the value of the first pair with that name.\<close>

definition search_param_get :: "string \<Rightarrow> string \<Rightarrow> string option" where
  "search_param_get name q =
     map_option snd (find (\<lambda>p. fst p = name) (map form_pair (filter (\<lambda>s. s \<noteq> []) (split_on CHR ''&'' q))))"

text \<open>
  The route of a URL of the application at \<open>origin\<close>: the path segment after
  \<open>/player/\<close> (up to \<open>?\<close> or \<open>#\<close>) and the query (after \<open>?\<close>, up to \<open>#\<close>);
  \<open>None\<close> when the URL is not a player page (the route has one non-empty segment).
\<close>

definition player_route :: "string \<Rightarrow> string \<Rightarrow> (ident \<times> string) option" where
  "player_route origin url =
     (let pre = origin @ ''/player/'' in
      if take (length pre) url \<noteq> pre then None
      else
        (let rest = drop (length pre) url;
             seg = takeWhile (\<lambda>ch. ch \<noteq> CHR ''?'' \<and> ch \<noteq> CHR ''#'') rest;
             after = drop (length seg) rest;
             query = (if take 1 after = ''?'' then takeWhile (\<lambda>ch. ch \<noteq> CHR ''#'') (drop 1 after) else [])
         in if seg = [] \<or> CHR ''/'' \<in> set seg then None else Some (seg, query)))"

datatype player_page = MissingDisplayId | ShowPlayer ident string

text \<open>\<open>PlayerPage\<close>: \<open>if (!displayId)\<close> the missing-id screen, otherwise
  \<open><DisplayPlayer displayId secretKey={searchParams.get('key') || ''} />\<close>.\<close>

definition player_page :: "ident option \<Rightarrow> string option \<Rightarrow> player_page" where
  "player_page displayId key =
     (case displayId of
        None \<Rightarrow> MissingDisplayId
      | Some i \<Rightarrow> if i = [] then MissingDisplayId else ShowPlayer i (case key of None \<Rightarrow> [] | Some k \<Rightarrow> k))"

definition open_player_url :: "string \<Rightarrow> string \<Rightarrow> player_page option" where
  "open_player_url origin url =
     map_option (\<lambda>(i, q). player_page (Some i) (search_param_get ''key'' q)) (player_route origin url)"

section \<open>Lemmas\<close>

lemma split_on_notin: "c \<notin> set xs \<Longrightarrow> split_on c xs = [xs]"
  by (induction xs) auto

lemma base36_digit_in: "d < 36 \<Longrightarrow> base36_digit d \<in> base36_chars"
  by (simp add: base36_chars_def)

lemma to_base36_chars: "set (to_base36 n) \<subseteq> base36_chars"
proof (induction n rule: to_base36.induct)
  case (1 n)
  then show ?case
    by (subst to_base36.simps) (simp add: base36_digit_in)
qed

lemma rotated_key_chars: "set r \<subseteq> base36_chars \<Longrightarrow> set (rotated_key r n) \<subseteq> base36_chars"
  by (simp add: rotated_key_def to_base36_chars)

lemma base36_chars_range:
  "ch \<in> base36_chars \<Longrightarrow>
     (48 \<le> (of_char ch :: nat) \<and> (of_char ch :: nat) \<le> 57) \<or> (97 \<le> (of_char ch :: nat) \<and> (of_char ch :: nat) \<le> 122)"
  by (auto simp: base36_chars_def base36_digit_def of_char_of)

lemma url_chars_not_base36:
  "CHR ''&'' \<notin> base36_chars" "CHR ''#'' \<notin> base36_chars" "CHR ''+'' \<notin> base36_chars"
    "CHR ''%'' \<notin> base36_chars"
  by (auto dest!: base36_chars_range)

lemma search_param_get_key:
  assumes "CHR ''&'' \<notin> set k" "CHR ''+'' \<notin> set k"
  shows "search_param_get ''key'' (''key='' @ k) = Some k"
proof -
  have "plus_as_space k = k" using assms(2) by (induction k) (auto simp: plus_as_space_def)
  then show ?thesis using assms(1)
    by (simp add: search_param_get_def split_on_notin form_pair_def plus_as_space_def)
qed

lemma player_route_url:
  assumes "i \<noteq> []" "CHR ''/'' \<notin> set i" "CHR ''?'' \<notin> set i" "CHR ''#'' \<notin> set i"
    and "CHR ''#'' \<notin> set k"
  shows "player_route origin (origin @ ''/player/'' @ i @ ''?key='' @ k) = Some (i, ''key='' @ k)"
proof -
  have seg: "takeWhile (\<lambda>ch. ch \<noteq> CHR ''?'' \<and> ch \<noteq> CHR ''#'') (i @ ''?key='' @ k) = i"
    using assms(3,4) by (subst takeWhile_append2) auto
  have q: "takeWhile (\<lambda>ch. ch \<noteq> CHR ''#'') (''key='' @ k) = ''key='' @ k"
    using assms(5) by (auto simp add: takeWhile_eq_all_conv)
  show ?thesis
    using assms(1,2) seg q by (simp add: player_route_def Let_def)
qed

lemma displays_patch_found:
  assumes "find_unique displays_tbl did db = Some d" and "\<And>x. disp_id (g x) = disp_id x"
  shows "api_step (DisplaysPatch did g t) db =
           (db\<lparr>db_displays := update_where (\<lambda>x. disp_id x = did) (\<lambda>x. (g x)\<lparr>disp_updated_at := Some t\<rparr>)
              (db_displays db)\<rparr>, 200)"
proof -
  have "update_row displays_tbl did (\<lambda>x. (g x)\<lparr>disp_updated_at := Some t\<rparr>) db =
          Inr (tbl_put displays_tbl (update_where (\<lambda>x. tbl_key displays_tbl x = did)
             (\<lambda>x. (g x)\<lparr>disp_updated_at := Some t\<rparr>) (tbl_get displays_tbl db)) db,
           (g d)\<lparr>disp_updated_at := Some t\<rparr>)"
    by (rule update_row_key_kept [OF assms(1)]) (simp add: table_simps assms(2))
  then show ?thesis
    by (simp add: with_status_def displays_patch_def patch_handler_def status_def table_simps)
qed

section \<open>Properties\<close>

text \<open>
  C39. Rotating the key of a display from the displays section (after the
  confirmation) succeeds, and the player URL the section then copies for the
  updated display opens the player page for that display with the new key, which
  the player service accepts; the old key is rejected from then on. The new key is
  the random base-36 digits followed by the base-36 clock, so it needs no escaping
  in the query; the display id is a single path segment.
\<close>

theorem rotated_key_opens_player:
  assumes "find_unique displays_tbl did db = Some d" and "rotate_key_call True did r n t = Some call"
    and "did \<noteq> []" "CHR ''/'' \<notin> set did" "CHR ''?'' \<notin> set did" "CHR ''#'' \<notin> set did"
    and "set r \<subseteq> base36_chars"
  shows "\<exists>d'. snd (api_step call db) = 200 \<and> find_unique displays_tbl did (fst (api_step call db)) = Some d' \<and>
           open_player_url origin (player_url origin d') = Some (ShowPlayer did (rotated_key r n)) \<and>
           authenticate (fst (api_step call db)) did (Some (rotated_key r n)) = Some d' \<and>
           (disp_secret_key d \<noteq> rotated_key r n \<longrightarrow>
              authenticate (fst (api_step call db)) did (Some (disp_secret_key d)) = None)"
proof -
  let ?k = "rotated_key r n"
  let ?d' = "d\<lparr>disp_secret_key := ?k, disp_updated_at := Some t\<rparr>"
  have call: "call = DisplaysPatch did (\<lambda>x. x\<lparr>disp_secret_key := ?k\<rparr>) t"
    using assms(2) by (simp add: rotate_key_call_def)
  have step: "api_step call db =
      (db\<lparr>db_displays := update_where (\<lambda>x. disp_id x = did)
         (\<lambda>x. x\<lparr>disp_secret_key := ?k, disp_updated_at := Some t\<rparr>) (db_displays db)\<rparr>, 200)"
    unfolding call by (rule displays_patch_found [OF assms(1)]) simp
  have found: "find_unique displays_tbl did (fst (api_step call db)) = Some ?d'"
    using assms(1) by (simp add: step find_unique_def table_simps find_update_where)
  have chars: "CHR ''&'' \<notin> set ?k" "CHR ''+'' \<notin> set ?k" "CHR ''#'' \<notin> set ?k"
    using rotated_key_chars [OF assms(7), of n] url_chars_not_base36 by auto
  have did: "disp_id ?d' = did"
    using assms(1) find_unique_SomeD [OF assms(1)] by (simp add: table_simps)
  have "open_player_url origin (player_url origin ?d') = Some (ShowPlayer did ?k)"
    using player_route_url [OF assms(3-6) chars(3), of origin] search_param_get_key [OF chars(1,2)]
      assms(3) did
    by (simp add: open_player_url_def player_url_def player_page_def)
  then show ?thesis
    using found step by (auto simp: authenticate_def)
qed

section \<open>Witnesses\<close>

lemma rotated_key_opens_player_witness:
  "\<exists>d'. snd (api_step (DisplaysPatch ''D'' (\<lambda>x. x\<lparr>disp_secret_key := rotated_key ''k3x'' 1000\<rparr>) 5) ex_db) = 200 \<and>
     find_unique displays_tbl ''D''
       (fst (api_step (DisplaysPatch ''D'' (\<lambda>x. x\<lparr>disp_secret_key := rotated_key ''k3x'' 1000\<rparr>) 5) ex_db)) = Some d' \<and>
     open_player_url ''https://signage.example'' (player_url ''https://signage.example'' d') =
       Some (ShowPlayer ''D'' (rotated_key ''k3x'' 1000)) \<and>
     authenticate (fst (api_step (DisplaysPatch ''D'' (\<lambda>x. x\<lparr>disp_secret_key := rotated_key ''k3x'' 1000\<rparr>) 5) ex_db))
       ''D'' (Some (rotated_key ''k3x'' 1000)) = Some d' \<and>
     authenticate (fst (api_step (DisplaysPatch ''D'' (\<lambda>x. x\<lparr>disp_secret_key := rotated_key ''k3x'' 1000\<rparr>) 5) ex_db))
       ''D'' (Some ''s1'') = None"
proof -
  have found: "find_unique displays_tbl ''D'' ex_db = Some ex_display"
    by (simp add: find_unique_def table_simps ex_db_def example_defs)
  have call: "rotate_key_call True ''D'' ''k3x'' 1000 5 =
      Some (DisplaysPatch ''D'' (\<lambda>x. x\<lparr>disp_secret_key := rotated_key ''k3x'' 1000\<rparr>) 5)"
    by (simp add: rotate_key_call_def)
  have r: "set ''k3x'' \<subseteq> base36_chars"
    unfolding base36_chars_def by code_simp
  have old: "disp_secret_key ex_display \<noteq> rotated_key ''k3x'' 1000"
    by (simp add: rotated_key_def example_defs)
  show ?thesis
    using rotated_key_opens_player [OF found call _ _ _ _ r, of "''https://signage.example''"] old
    by (simp add: example_defs)
qed

end
