(* ===== verification/Admin_Shell.thy ===== *)
theory Admin_Shell
  imports Admin_UI "HOL-Library.Sublist"
begin

text \<open>
  The shell around the dashboard sections (\<open>src/src/components/admin/\<close>):
  \<open>AdminDashboard\<close> chooses the screen (spinner, login, or the active section with
  its title), \<open>AdminSidebar\<close> lists the menu entries the user's permissions allow,
  \<open>AdminHeader\<close> shows the alert bell, \<open>LoginScreen\<close> validates the email before
  logging in, \<open>AuditSection\<close> renders the audit list; and the bootstrap script \<open>src/server/src/make-admin.ts\<close>, which gives
  a fixed email the \<open>ADMIN\<close> role. The permission check \<open>hasPermission\<close> comes from
  \<open>AuthContext\<close>, which is not in the repository: it is a parameter.
\<close>

section \<open>Sidebar and section switch\<close>

record menu_item =
  mi_id :: string
  mi_label :: string
  mi_roles :: "user_role list"

definition menu_items :: "menu_item list" where
  "menu_items =
     [\<lparr>mi_id = ''dashboard'', mi_label = ''Dashboard'', mi_roles = [ADMIN, EDITOR, VIEWER]\<rparr>,
      \<lparr>mi_id = ''displays'', mi_label = ''Displays'', mi_roles = [ADMIN, EDITOR, VIEWER]\<rparr>,
      \<lparr>mi_id = ''content'', mi_label = ''Content'', mi_roles = [ADMIN, EDITOR, VIEWER]\<rparr>,
      \<lparr>mi_id = ''playlists'', mi_label = ''Playlists'', mi_roles = [ADMIN, EDITOR]\<rparr>,
      \<lparr>mi_id = ''assignments'', mi_label = ''Assignments'', mi_roles = [ADMIN, EDITOR]\<rparr>,
      \<lparr>mi_id = ''alerts'', mi_label = ''Alerts'', mi_roles = [ADMIN]\<rparr>,
      \<lparr>mi_id = ''audit'', mi_label = ''Audit Log'', mi_roles = [ADMIN]\<rparr>,
      \<lparr>mi_id = ''settings'', mi_label = ''Settings'', mi_roles = [ADMIN]\<rparr>]"

text \<open>\<open>menuItems.filter(item => item.roles.some(role => hasPermission(role)))\<close>.\<close>

definition sidebar_items :: "(user_role \<Rightarrow> bool) \<Rightarrow> menu_item list" where
  "sidebar_items hasPermission = filter (\<lambda>item. list_ex hasPermission (mi_roles item)) menu_items"

datatype admin_section =
    DashboardSec | DisplaysSec | ContentSec | PlaylistsSec | AssignmentsSec | AlertsSec | AuditSec
  | SettingsSec

text \<open>\<open>renderSection\<close>: the switch on \<open>activeSection\<close>, the dashboard by default.\<close>

definition section_of :: "string \<Rightarrow> admin_section" where
  "section_of s =
     (if s = ''displays'' then DisplaysSec else if s = ''content'' then ContentSec
      else if s = ''playlists'' then PlaylistsSec else if s = ''assignments'' then AssignmentsSec
      else if s = ''alerts'' then AlertsSec else if s = ''audit'' then AuditSec
      else if s = ''settings'' then SettingsSec else DashboardSec)"

text \<open>\<open>sectionTitles[activeSection] || sectionTitles.dashboard\<close>.\<close>

definition section_titles :: "(string \<times> string \<times> string) list" where
  "section_titles =
     [(''dashboard'', ''Dashboard'', ''Overview of your digital signage system''),
      (''displays'', ''Displays'', ''Manage TV screens and digital displays''),
      (''content'', ''Content Library'', ''Create and manage content items''),
      (''playlists'', ''Playlists'', ''Organize content into playlists''),
      (''assignments'', ''Assignments'', ''Connect playlists to displays''),
      (''alerts'', ''Emergency Alerts'', ''Manage global alert broadcasts''),
      (''audit'', ''Audit Log'', ''Track system changes and actions''),
      (''settings'', ''Settings'', ''Configure global settings'')]"

definition section_title :: "string \<Rightarrow> string \<times> string" where
  "section_title s =
     (case map_of section_titles s of
        Some t \<Rightarrow> t
      | None \<Rightarrow> the (map_of section_titles ''dashboard''))"

datatype admin_screen = AdminSpinner | AdminLogin | AdminPage string string admin_section

definition admin_dashboard :: "bool \<Rightarrow> bool \<Rightarrow> string \<Rightarrow> admin_screen" where
  "admin_dashboard isLoading isAuthenticated activeSection =
     (if isLoading then AdminSpinner
      else if \<not> isAuthenticated then AdminLogin
      else AdminPage (fst (section_title activeSection)) (snd (section_title activeSection))
             (section_of activeSection))"

section \<open>Header\<close>

datatype alert_bell = NoDot | YellowDot | RedDot

definition header_bell :: "alert list \<Rightarrow> alert_bell" where
  "header_bell alerts =
     (let activeAlerts = filter al_is_active alerts
      in if activeAlerts = [] then NoDot
         else if list_ex (\<lambda>a. al_level a = EMERGENCY) activeAlerts then RedDot else YellowDot)"

section \<open>Login screen\<close>

datatype login_attempt = LoginRejected string | LoginSent string

text \<open>\<open>handleSubmit\<close>: \<open>if (!email.includes('@'))\<close> the error, else \<open>login(email)\<close>.\<close>

definition login_submit :: "string \<Rightarrow> login_attempt" where
  "login_submit email =
     (if CHR ''@'' \<notin> set email then LoginRejected ''Please enter a valid email address''
      else LoginSent email)"

text \<open>\<open>quickLogin(role)\<close>: the demo account of the role.\<close>

definition quick_login_email :: "string \<Rightarrow> string option" where
  "quick_login_email role =
     map_of [(''admin'', ''admin@school.edu''), (''editor'', ''editor@school.edu''),
             (''viewer'', ''viewer@school.edu'')] role"

section \<open>Audit log\<close>

datatype action_badge = CreateBadge | UpdateBadge | DeleteBadge | OtherBadge

text \<open>The badge colour: \<open>log.action.includes('CREATE') ? ... : 'UPDATE' ... : 'DELETE' ...\<close>.\<close>

definition action_badge_of :: "string \<Rightarrow> action_badge" where
  "action_badge_of action =
     (if sublist ''CREATE'' action then CreateBadge
      else if sublist ''UPDATE'' action then UpdateBadge
      else if sublist ''DELETE'' action then DeleteBadge else OtherBadge)"

record audit_row =
  ar_badge :: action_badge
  ar_action :: string
  ar_entity_type :: string
  ar_entity_id :: "string option"
  ar_details :: "(string \<times> string) list option"
  ar_created_at :: timestamp

text \<open>A row: the entity id shortened to eight characters when it is set and not empty.\<close>

definition audit_row_of :: "audit_log \<Rightarrow> audit_row" where
  "audit_row_of log =
     \<lparr>ar_badge = action_badge_of (log_action log), ar_action = log_action log,
      ar_entity_type = log_entity_type log,
      ar_entity_id = (case log_entity_id log of None \<Rightarrow> None
                      | Some e \<Rightarrow> if e = [] then None else Some (take 8 e @ ''...'')),
      ar_details = log_details log, ar_created_at = log_created_at log\<rparr>"

text \<open>The table, or the empty-list message (\<open>None\<close>), for the list \<open>GET /audit_logs\<close> sent.\<close>

definition audit_section :: "audit_log list \<Rightarrow> audit_row list option" where
  "audit_section logs = (if logs = [] then None else Some (map audit_row_of logs))"

section \<open>Bootstrap script\<close>

text \<open>
  \<open>main()\<close> of \<open>make-admin.ts\<close>: the user with the email gets role \<open>ADMIN\<close>
  (\<open>update({ where: { email } })\<close>), or a new user with that email and role is
  created, the other columns from the database (\<open>dflt\<close>). A failing Prisma call
  ends the script (\<open>process.exit(1)\<close>), the \<open>Inl\<close> branch.
\<close>

definition make_admin_email :: string where
  "make_admin_email = ''sottodennis@gmail.com''"

definition make_admin :: "string \<Rightarrow> user \<Rightarrow> db \<Rightarrow> db_error + db" where
  "make_admin email dflt db =
     (case find (\<lambda>u. usr_email u = email) (db_users db) of
        Some _ \<Rightarrow> Inr (db\<lparr>db_users := update_where (\<lambda>u. usr_email u = email) (\<lambda>u. u\<lparr>usr_role := ADMIN\<rparr>)
                                         (db_users db)\<rparr>)
      | None \<Rightarrow> map_sum id fst (create_row users_tbl (dflt\<lparr>usr_email := email, usr_role := ADMIN\<rparr>) db))"

section \<open>Lemmas\<close>

text \<open>
  With the role hierarchy of the application (an administrator has every permission,
  an editor the editor's and the viewer's), the sidebar offers alerts, audit and
  settings to administrators only, and playlists and assignments to editors and
  administrators.
\<close>

definition role_permission :: "user_role \<Rightarrow> user_role \<Rightarrow> bool" where
  "role_permission r required =
     (case r of ADMIN \<Rightarrow> True | EDITOR \<Rightarrow> required \<noteq> ADMIN | VIEWER \<Rightarrow> required = VIEWER)"

lemma sidebar_items_by_role:
  "map mi_id (sidebar_items (role_permission ADMIN)) =
     [''dashboard'', ''displays'', ''content'', ''playlists'', ''assignments'', ''alerts'', ''audit'', ''settings'']"
  "map mi_id (sidebar_items (role_permission EDITOR)) =
     [''dashboard'', ''displays'', ''content'', ''playlists'', ''assignments'']"
  "map mi_id (sidebar_items (role_permission VIEWER)) = [''dashboard'', ''displays'', ''content'']"
  by (simp_all add: sidebar_items_def menu_items_def role_permission_def)

lemma make_admin_admin:
  assumes "make_admin email dflt db = Inr db'"
  shows "\<exists>u \<in> set (db_users db'). usr_email u = email \<and> usr_role u = ADMIN"
proof (cases "find (\<lambda>u. usr_email u = email) (db_users db)")
  case None
  with assms show ?thesis
    by (auto simp: make_admin_def create_row_def table_simps split: if_splits)
next
  case (Some u)
  then have u: "u \<in> set (db_users db)" "usr_email u = email" by auto
  then have mem: "u\<lparr>usr_role := ADMIN\<rparr> \<in>
      set (update_where (\<lambda>u. usr_email u = email) (\<lambda>u. u\<lparr>usr_role := ADMIN\<rparr>) (db_users db))"
    by (force simp: update_where_def)
  have "db_users db' = update_where (\<lambda>u. usr_email u = email) (\<lambda>u. u\<lparr>usr_role := ADMIN\<rparr>) (db_users db)"
    using Some assms by (auto simp: make_admin_def)
  then show ?thesis
    using u(2) by (intro bexI [OF _ mem [folded \<open>db_users db' = _\<close>]]) simp
qed

end
