(* ===== verification/Js_Values.thy ===== *)
theory Js_Values
  imports Signage_Prelude
begin

text \<open>
  JavaScript values that cross the client's boundaries: the numbers \<open>parseInt\<close>
  returns (an integer or \<open>NaN\<close>), and JSON values as \<open>JSON.stringify\<close> writes them
  (following the JSON datatype of Nano_JSON: objects as key/value lists in insertion
  order). \<open>JSON.stringify\<close> writes \<open>NaN\<close> as \<open>null\<close>. Numbers that parse to
  integers beyond \<open>2^53\<close> would be rounded by JavaScript; the input fields modelled
  here hold small durations and intervals, and the model keeps integers exact.
\<close>

datatype js_number = JsInt int | JsNaN

datatype json = JNull | JBool bool | JNum int | JStr string | JArr "json list"
  | JObj "(string \<times> json) list"

definition json_of_number :: "js_number \<Rightarrow> json" where
  "json_of_number x = (case x of JsInt i \<Rightarrow> JNum i | JsNaN \<Rightarrow> JNull)"

section \<open>parseInt\<close>

text \<open>
  \<open>parseInt(s)\<close> without a radix (ECMAScript 19.2.5): skip leading white space,
  read an optional sign, read a \<open>0x\<close>/\<open>0X\<close> prefix as radix 16 (radix 10
  otherwise), take the longest prefix of digits of the radix, and answer \<open>NaN\<close>
  when it is empty. Digits are \<open>0-9\<close>, then \<open>a-z\<close> or \<open>A-Z\<close> for 10 to 35.
\<close>

definition js_space :: "char \<Rightarrow> bool" where
  "js_space c = (of_char c \<in> {9, 10, 11, 12, 13, 32, 160 :: nat})"

definition digit_val :: "char \<Rightarrow> nat" where
  "digit_val c =
     (let n = (of_char c :: nat) in
      if 48 \<le> n \<and> n \<le> 57 then n - 48
      else if 97 \<le> n \<and> n \<le> 122 then n - 87
      else if 65 \<le> n \<and> n \<le> 90 then n - 55 else 36)"

definition digits_value :: "nat \<Rightarrow> string \<Rightarrow> nat" where
  "digits_value r ds = foldl (\<lambda>acc c. acc * r + digit_val c) 0 ds"

definition parse_int :: "string \<Rightarrow> js_number" where
  "parse_int str =
     (let s = dropWhile js_space str;
          sign = (if take 1 s = ''-'' then -1 else 1 :: int);
          s1 = (if take 1 s = ''-'' \<or> take 1 s = ''+'' then drop 1 s else s);
          hex = (take 2 s1 = ''0x'' \<or> take 2 s1 = ''0X'');
          r = (if hex then 16 else 10);
          s2 = (if hex then drop 2 s1 else s1);
          z = takeWhile (\<lambda>c. digit_val c < r) s2
      in if z = [] then JsNaN else JsInt (sign * int (digits_value r z)))"

text \<open>\<open>String(n)\<close> of a natural number: its decimal digits.\<close>

fun decimal_string :: "nat \<Rightarrow> string" where
  "decimal_string n =
     (if n < 10 then [char_of (48 + n)] else decimal_string (n div 10) @ [char_of (48 + n mod 10)])"

declare decimal_string.simps [simp del]

section \<open>Lemmas\<close>

lemma digit_val_decimal: "k < 10 \<Longrightarrow> digit_val (char_of (48 + k)) = k"
  by (simp add: digit_val_def of_char_of)

lemma decimal_string_digits:
  "c \<in> set (decimal_string n) \<Longrightarrow> \<exists>k::nat. k < 10 \<and> c = char_of (48 + k)"
proof (induction n rule: decimal_string.induct)
  case (1 n)
  show ?case
  proof (cases "n < 10")
    case True
    then have "c = char_of (48 + n)" using 1(2) by (simp add: decimal_string.simps)
    with True show ?thesis by blast
  next
    case False
    then have "c \<in> set (decimal_string (n div 10)) \<or> c = char_of (48 + n mod 10)"
      using 1(2) by (auto simp add: decimal_string.simps [of n])
    then show ?thesis
    proof
      assume "c \<in> set (decimal_string (n div 10))"
      with False show ?thesis by (rule 1(1))
    next
      assume "c = char_of (48 + n mod 10)"
      then show ?thesis by (intro exI [of _ "n mod 10"]) simp
    qed
  qed
qed

lemma digits_value_decimal: "digits_value 10 (decimal_string n) = n"
proof (induction n rule: decimal_string.induct)
  case (1 n)
  then show ?case
    by (subst decimal_string.simps) (simp add: digits_value_def digit_val_decimal)
qed

lemma decimal_string_not_Nil: "decimal_string n \<noteq> []"
  by (subst decimal_string.simps) simp

text \<open>\<open>parseInt(String(n))\<close> gives \<open>n\<close> back.\<close>

lemma parse_int_decimal: "parse_int (decimal_string n) = JsInt (int n)"
proof -
  let ?s = "decimal_string n"
  have dig: "digit_val c < 10 \<and> \<not> js_space c \<and> c \<noteq> CHR ''-'' \<and> c \<noteq> CHR ''+'' \<and> c \<noteq> CHR ''x'' \<and> c \<noteq> CHR ''X''"
    if c_in: "c \<in> set ?s" for c
  proof -
    obtain k :: nat where k: "k < 10" "c = char_of (48 + k)"
      using decimal_string_digits [OF c_in] by blast
    then have oc: "(of_char c :: nat) = 48 + k" by (simp add: of_char_of)
    have ne: "c \<noteq> d" if "(of_char d :: nat) \<noteq> 48 + k" for d
      using that oc by auto
    have "c \<noteq> CHR ''-''" "c \<noteq> CHR ''+''" "c \<noteq> CHR ''x''" "c \<noteq> CHR ''X''"
      by (rule ne, use k(1) in simp)+
    moreover have "digit_val c < 10 \<and> \<not> js_space c"
      using k oc by (simp add: digit_val_decimal js_space_def)
    ultimately show ?thesis by blast
  qed
  have notin: "d \<notin> set ?s" if "d \<in> {CHR ''-'', CHR ''+'', CHR ''x'', CHR ''X''}" for d
    using dig that by blast
  have take_ne: "take k ?s \<noteq> w" if "d \<in> set w" "d \<in> {CHR ''-'', CHR ''+'', CHR ''x'', CHR ''X''}"
    for k w d
    using notin [OF that(2)] that(1) in_set_takeD by metis
  have t1: "take 1 ?s \<noteq> ''-''" "take 1 ?s \<noteq> ''+''"
    by (rule take_ne [of "CHR ''-''"]; simp) (rule take_ne [of "CHR ''+''"]; simp)
  have t2: "take 2 ?s \<noteq> ''0x''" "take 2 ?s \<noteq> ''0X''"
    by (rule take_ne [of "CHR ''x''"]; simp) (rule take_ne [of "CHR ''X''"]; simp)
  have "\<not> js_space (hd ?s)"
    using dig decimal_string_not_Nil hd_in_set by blast
  then have d: "dropWhile js_space ?s = ?s"
    by (simp add: dropWhile_eq_self_iff)
  have tw: "takeWhile (\<lambda>c. digit_val c < 10) ?s = ?s"
    using dig by (simp add: takeWhile_eq_all_conv)
  show ?thesis
    using t1 t2 d
    by (simp add: parse_int_def Let_def tw decimal_string_not_Nil digits_value_decimal)
qed

end
