(* ===== verification/Settings.thy ===== *)
theory Settings
  imports Js_Values
begin

text \<open>
  The settings panel (\<open>src/src/components/admin/SettingsSection.tsx\<close>): a form
  state of eight fields, initialised to fixed defaults on every mount, changed field
  by field by the inputs, written to the browser's local storage under
  \<open>signage_settings\<close> by \<open>handleSave\<close> (\<open>JSON.stringify(settings)\<close>), and reset by
  the reload button (\<open>window.location.reload()\<close>, which remounts the page while
  local storage persists). Local storage maps keys to the JSON values whose text it
  holds. The two numeric inputs are read with \<open>parseInt\<close>, so a cleared or
  non-numeric input makes the field \<open>NaN\<close>, stored as \<open>null\<close>. No code reads the
  stored settings back.
\<close>

record settings =
  sg_schoolName :: string
  sg_primaryColor :: string
  sg_secondaryColor :: string
  sg_logoUrl :: string
  sg_defaultDuration :: js_number
  sg_refreshInterval :: js_number
  sg_enableWeather :: bool
  sg_weatherLocation :: string

definition settings_default :: settings where
  "settings_default =
     \<lparr>sg_schoolName = ''Lincoln High School'', sg_primaryColor = ''#1e40af'',
      sg_secondaryColor = ''#059669'', sg_logoUrl = [], sg_defaultDuration = JsInt 10,
      sg_refreshInterval = JsInt 30, sg_enableWeather = True, sg_weatherLocation = ''New York, NY''\<rparr>"

text \<open>
  The inputs: the colour pickers and their text fields both set the colour; the
  numeric inputs apply \<open>parseInt(e.target.value)\<close>; the checkbox sets
  \<open>e.target.checked\<close>.
\<close>

datatype settings_input =
    SchoolNameInput string | PrimaryColorInput string | SecondaryColorInput string
  | LogoUrlInput string | DefaultDurationInput string | RefreshIntervalInput string
  | EnableWeatherInput bool | WeatherLocationInput string

fun settings_change :: "settings_input \<Rightarrow> settings \<Rightarrow> settings" where
  "settings_change (SchoolNameInput v) s = s\<lparr>sg_schoolName := v\<rparr>"
| "settings_change (PrimaryColorInput v) s = s\<lparr>sg_primaryColor := v\<rparr>"
| "settings_change (SecondaryColorInput v) s = s\<lparr>sg_secondaryColor := v\<rparr>"
| "settings_change (LogoUrlInput v) s = s\<lparr>sg_logoUrl := v\<rparr>"
| "settings_change (DefaultDurationInput v) s = s\<lparr>sg_defaultDuration := parse_int v\<rparr>"
| "settings_change (RefreshIntervalInput v) s = s\<lparr>sg_refreshInterval := parse_int v\<rparr>"
| "settings_change (EnableWeatherInput b) s = s\<lparr>sg_enableWeather := b\<rparr>"
| "settings_change (WeatherLocationInput v) s = s\<lparr>sg_weatherLocation := v\<rparr>"

text \<open>\<open>JSON.stringify(settings)\<close>: the keys in the order of the object literal.\<close>

definition json_of_settings :: "settings \<Rightarrow> json" where
  "json_of_settings s =
     JObj [(''schoolName'', JStr (sg_schoolName s)), (''primaryColor'', JStr (sg_primaryColor s)),
           (''secondaryColor'', JStr (sg_secondaryColor s)), (''logoUrl'', JStr (sg_logoUrl s)),
           (''defaultDuration'', json_of_number (sg_defaultDuration s)),
           (''refreshInterval'', json_of_number (sg_refreshInterval s)),
           (''enableWeather'', JBool (sg_enableWeather s)),
           (''weatherLocation'', JStr (sg_weatherLocation s))]"

type_synonym local_storage = "string \<Rightarrow> json option"

definition settings_key :: string where
  "settings_key = ''signage_settings''"

text \<open>\<open>handleSave\<close>: \<open>localStorage.setItem('signage_settings', JSON.stringify(settings))\<close>.\<close>

definition settings_save :: "settings \<Rightarrow> local_storage \<Rightarrow> local_storage" where
  "settings_save s ls = ls(settings_key \<mapsto> json_of_settings s)"

text \<open>
  A session of the panel: an input changes the form, Save writes it, and Reset
  (\<open>window.location.reload()\<close>) remounts the panel with the defaults.
\<close>

inductive settings_ui :: "settings \<times> local_storage \<Rightarrow> settings \<times> local_storage \<Rightarrow> bool" where
  settings_ui_input: "settings_ui (s, ls) (settings_change i s, ls)"
| settings_ui_save: "settings_ui (s, ls) (s, settings_save s ls)"
| settings_ui_reload: "settings_ui (s, ls) (settings_default, ls)"

text \<open>
  The shape of a stored settings object: its keys in order, and the kinds of JSON
  value each may hold.
\<close>

datatype json_kind = KNull | KBool | KNum | KStr | KArr | KObj

definition kind_of :: "json \<Rightarrow> json_kind" where
  "kind_of j = (case j of JNull \<Rightarrow> KNull | JBool _ \<Rightarrow> KBool | JNum _ \<Rightarrow> KNum | JStr _ \<Rightarrow> KStr
                 | JArr _ \<Rightarrow> KArr | JObj _ \<Rightarrow> KObj)"

definition conforms :: "(string \<times> json_kind list) list \<Rightarrow> json \<Rightarrow> bool" where
  "conforms schema j =
     (case j of
        JObj fs \<Rightarrow> map fst fs = map fst schema \<and>
                   list_all2 (\<lambda>f t. kind_of (snd f) \<in> set (snd t)) fs schema
      | _ \<Rightarrow> False)"

definition settings_schema :: "(string \<times> json_kind list) list" where
  "settings_schema =
     [(''schoolName'', [KStr]), (''primaryColor'', [KStr]), (''secondaryColor'', [KStr]),
      (''logoUrl'', [KStr]), (''defaultDuration'', [KNum, KNull]), (''refreshInterval'', [KNum, KNull]),
      (''enableWeather'', [KBool]), (''weatherLocation'', [KStr])]"

section \<open>Lemmas\<close>

lemma json_of_settings_conforms: "conforms settings_schema (json_of_settings s)"
  by (simp add: conforms_def json_of_settings_def settings_schema_def kind_of_def json_of_number_def
      split: js_number.split)

lemma settings_ui_step_conforms:
  "settings_ui (s, ls) (s', ls') \<Longrightarrow> pred_option (conforms settings_schema) (ls settings_key) \<Longrightarrow>
   pred_option (conforms settings_schema) (ls' settings_key)"
  by (erule settings_ui.cases) (auto simp: settings_save_def json_of_settings_conforms)

text \<open>Typing a number written in decimal into a numeric field sets that number.\<close>

lemma settings_change_numeric_decimal:
  "sg_defaultDuration (settings_change (DefaultDurationInput (decimal_string n)) s) = JsInt (int n)"
  "sg_refreshInterval (settings_change (RefreshIntervalInput (decimal_string n)) s) = JsInt (int n)"
  by (simp_all add: parse_int_decimal)

section \<open>Properties\<close>


section \<open>Witnesses\<close>


end
