(* ===== verification/Client_Hooks.thy ===== *)
theory Client_Hooks
  imports Admin_UI Js_Values
begin

text \<open>
  The generic part of the client's data layer: \<open>apiRequest\<close> of
  \<open>src/src/lib/api.ts\<close> (an answer that is not \<open>ok\<close> throws an \<open>Error\<close> whose
  message is the body's \<open>error\<close> field, or \<open>Request failed with status N\<close> when
  the body has none, as Express's own 404 page), the list hook \<open>useApiQuery\<close> of
  \<open>src/src/hooks/useSignageData.ts\<close> with its loading and error flags, and the two
  hooks with their own state, \<open>usePlaylistItems\<close> and \<open>useDisplayAssignments\<close>.
  Each fetch is split into its start (\<open>setIsLoading(true)\<close>) and its completion
  with the outcome of the request.
\<close>

section \<open>apiRequest\<close>

text \<open>
  The outcome of a \<open>fetch\<close>: the answer of a route (its JSON, or its status with
  the body \<open>{ error: msg }\<close>), an answer without a JSON error body (only its
  status), or a network failure (\<open>fetch\<close> rejects with \<open>Failed to fetch\<close>).
\<close>

datatype 'a http_outcome = Reply "'a api_response" | BareStatus nat | FetchFailed

definition status_message :: "nat \<Rightarrow> string" where
  "status_message n = ''Request failed with status '' @ decimal_string n"

definition api_request :: "'a http_outcome \<Rightarrow> string + 'a" where
  "api_request o' =
     (case o' of
        Reply (Ok x) \<Rightarrow> Inr x
      | Reply (Fail n m) \<Rightarrow> Inl (if m = [] then status_message n else m)
      | BareStatus n \<Rightarrow> Inl (status_message n)
      | FetchFailed \<Rightarrow> Inl ''Failed to fetch'')"

section \<open>useApiQuery\<close>

record 'a query_state =
  qs_data :: "'a list"
  qs_loading :: bool
  qs_error :: "string option"

definition query_init :: "'a query_state" where
  "query_init = \<lparr>qs_data = [], qs_loading = True, qs_error = None\<rparr>"

definition query_start :: "'a query_state \<Rightarrow> 'a query_state" where
  "query_start q = q\<lparr>qs_loading := True\<rparr>"

text \<open>
  \<open>try { setData(await api.get(endpoint)) } catch (err) { setError(err) } finally
  { setIsLoading(false) }\<close>: a failure keeps the data, and no success clears the error.
\<close>

definition query_finish :: "'a list http_outcome \<Rightarrow> 'a query_state \<Rightarrow> 'a query_state" where
  "query_finish o' q =
     (case api_request o' of
        Inr xs \<Rightarrow> q\<lparr>qs_data := xs, qs_loading := False\<rparr>
      | Inl msg \<Rightarrow> q\<lparr>qs_error := Some msg, qs_loading := False\<rparr>)"

definition query_fetch :: "'a list http_outcome \<Rightarrow> 'a query_state \<Rightarrow> 'a query_state" where
  "query_fetch o' q = query_finish o' (query_start q)"

text \<open>A mutation of a hook answers \<open>{ data, error: null }\<close> or \<open>{ data: null, error }\<close>.\<close>

definition mutation_result :: "'b http_outcome \<Rightarrow> string option" where
  "mutation_result o' = (case api_request o' of Inr _ \<Rightarrow> None | Inl msg \<Rightarrow> Some msg)"

section \<open>usePlaylistItems and useDisplayAssignments\<close>

record items_state =
  it_items :: "(playlist_item \<times> content_item option) list"
  it_loading :: bool

text \<open>
  \<open>fetchItems\<close>: without a playlist id the list is emptied; otherwise the items of
  \<open>GET /playlists/:id/items\<close>, a failure being only logged.
\<close>

definition items_fetch ::
  "ident option \<Rightarrow> (playlist_item \<times> content_item option) list http_outcome \<Rightarrow> items_state \<Rightarrow> items_state" where
  "items_fetch playlistId o' st =
     (case playlistId of
        None \<Rightarrow> st\<lparr>it_items := [], it_loading := False\<rparr>
      | Some _ \<Rightarrow>
          (case api_request o' of
             Inr xs \<Rightarrow> st\<lparr>it_items := xs, it_loading := False\<rparr>
           | Inl _ \<Rightarrow> st\<lparr>it_loading := False\<rparr>))"

text \<open>
  \<open>reorderItems\<close> catches its own failure and answers nothing, so \<open>moveItem\<close> can
  neither report it nor refetch: the result is whether the list is fetched again.
\<close>

definition reorder_refetches :: "unit http_outcome \<Rightarrow> bool" where
  "reorder_refetches o' = (case api_request o' of Inr _ \<Rightarrow> True | Inl _ \<Rightarrow> False)"

record assignments_state =
  as_assignments :: "(display_assignment \<times> display option \<times> playlist option) list"
  as_loading :: bool

definition assignments_fetch ::
  "(display_assignment \<times> display option \<times> playlist option) list http_outcome \<Rightarrow> assignments_state
     \<Rightarrow> assignments_state" where
  "assignments_fetch o' st =
     (case api_request o' of
        Inr xs \<Rightarrow> st\<lparr>as_assignments := xs, as_loading := False\<rparr>
      | Inl _ \<Rightarrow> st\<lparr>as_loading := False\<rparr>)"

section \<open>Lemmas\<close>

text \<open>A fetch of a list route that answers lists the rows the sections work on.\<close>

lemma query_fetch_content:
  "qs_data (query_fetch (Reply (content_get db)) q) = content_list db \<and>
   \<not> qs_loading (query_fetch (Reply (content_get db)) q)"
  by (simp add: query_fetch_def query_finish_def query_start_def api_request_def content_list_def
      fetched_def content_get_def list_handler_def)

lemma query_fetch_alerts:
  "qs_data (query_fetch (Reply (alerts_get db)) q) = alert_list db"
  by (simp add: query_fetch_def query_finish_def query_start_def api_request_def alert_list_def
      fetched_def alerts_get_def list_handler_def)

text \<open>Once a fetch has failed, the hook's error stays set whatever later fetches answer.\<close>

lemma query_error_sticky:
  "qs_error q \<noteq> None \<Longrightarrow> qs_error (query_fetch o' q) \<noteq> None"
  by (simp add: query_fetch_def query_finish_def query_start_def split: sum.split)

lemma query_failure_keeps_data:
  "api_request o' = Inl msg \<Longrightarrow>
   qs_data (query_fetch o' q) = qs_data q \<and> qs_error (query_fetch o' q) = Some msg"
  by (simp add: query_fetch_def query_finish_def query_start_def)

end
