(* ===== verification/Spec2Isabelle.thy ===== *)
theory Spec2Isabelle
  imports Router Next_Routes Player_Client Player_Page Admin_Shell Settings Client_Hooks
begin

text \<open>
  \<^bold>\<open>School signage: a verification development.\<close>

  \<^emph>\<open>The program.\<close> Administrators manage displays, content items, playlists,
  display-to-playlist assignments and alerts through a dashboard (\<open>src/src/\<close>,
  React) that calls a REST API; unattended player clients poll the API for what to
  render. The API exists twice with the same handlers: an Express server
  (\<open>src/server/src/\<close>) and Next.js route files (\<open>src/app/api/\<close>). Every
  handler is one or two Prisma calls on a relational database. The one piece of
  multi-step logic is the player resolution route (\<open>routes/player.ts\<close>): check
  the display's credentials, record its liveness, select its active assignment, load
  the playlist's content in order, filter it by publication status and window, sort
  it by priority, and add the active alerts.

  \<^emph>\<open>The theories.\<close>
  \<^item> \<open>Signage_Prelude\<close>: identifiers and instants, the model of JavaScript's
    comparator \<open>sort\<close> (a stable insertion sort, \<open>js_sort\<close>) with the abstract
    contract of a stable sort by key (\<open>stable_sorted_by\<close>) and its uniqueness, and
    list lemmas for first-match lookups and in-place updates.
  \<^item> \<open>Entities\<close>: \<open>src/src/types/index.ts\<close>, one record per interface and one
    datatype per string union.
  \<^item> \<open>Store\<close>: the database as a record of tables (lists in insertion order), a
    lens per table, and the Prisma calls the code makes: \<open>findUnique\<close>/\<open>findFirst\<close>
    (first match), \<open>create\<close> (fails on a duplicate key), \<open>update\<close> and \<open>delete\<close>
    (fail with \<open>RecordNotFound\<close>), \<open>findMany\<close> with \<open>orderBy\<close> (a stable sort);
    the generic shapes of the CRUD handlers (JSON answer, or status 500 with the
    route's message); the integrity conditions (unique keys, playlist items that
    reference existing content).
  \<^item> \<open>Player\<close>: \<open>POST /player/content\<close> (\<open>player_content\<close>, built from
    \<open>authenticate\<close>, \<open>touch_last_seen\<close>, \<open>active_assignment\<close>,
    \<open>playlist_items_ordered\<close>, \<open>include_content\<close>, \<open>content_visible\<close>,
    \<open>by_priority_desc\<close>, \<open>active_alerts\<close>) and \<open>POST /player/heartbeat\<close>
    (\<open>heartbeat\<close>). A request is \<open>{displayId, secretKey}\<close> with absent fields as
    \<open>None\<close>; the answer is the JSON of the valid case, the 401 rejection or the 500
    failure. The state is the database, passed and returned.
  \<^item> \<open>Playlists\<close>: \<open>routes/playlists.ts\<close> (playlists, their items, the
    transactional reorder \<open>playlist_items_reorder\<close> as the sequence of updates
    \<open>reorder_updates\<close> kept all or nothing) and the item editor of
    \<open>components/admin/PlaylistsSection.tsx\<close> (\<open>handle_add_content\<close>, \<open>move_item\<close>).
  \<^item> \<open>Admin_Routes\<close>: the CRUD routes of \<open>alerts.ts\<close>, \<open>content.ts\<close>,
    \<open>displays.ts\<close>, \<open>assignments.ts\<close> as instances of the generic handlers of
    \<open>Store\<close>; \<open>auth.ts\<close> (\<open>login\<close>) and \<open>audit.ts\<close> (\<open>audit_get\<close>,
    \<open>audit_post\<close>).
  \<^item> \<open>Api\<close>: the state-changing routes that \<open>routes/index.ts\<close> mounts, as the
    datatype \<open>api_call\<close> and the step \<open>api_step\<close> (new database and HTTP status);
    \<open>reachable\<close> is the set of databases that sequences of calls reach from the
    empty one.
  \<^item> \<open>Router\<close>: how a request reaches a handler. The Express route table
    (\<open>express_routes\<close>: the routers of \<open>routes/*.ts\<close> mounted by \<open>routes/index.ts\<close>
    under \<open>/api\<close>, first match in registration order, \<open>express_dispatch\<close>); the
    Next.js route files (\<open>next_route_files\<close>, literal segments before parameters,
    405 for a method the file does not export, \<open>next_dispatch\<close>); the request each
    operation of the data hooks of \<open>hooks/useSignageData.ts\<close> sends through
    \<open>apiRequest\<close> of \<open>lib/api.ts\<close> (\<open>client_request\<close>, \<open>request_path\<close>).
  \<^item> \<open>Next_Routes\<close>: the handlers of \<open>src/app/api/**/route.ts\<close>, one definition
    per exported function (\<open>next_alerts_GET\<close>, ..., \<open>next_player_content_POST\<close>).
  \<^item> \<open>Player_Client\<close>: the player's browser side. The hook \<open>usePlayerData\<close>
    (\<open>player_hook\<close>, \<open>fetch_player_data\<close> = \<open>poll_start\<close> then \<open>poll_finish\<close>,
    with \<open>player_api_request\<close> for \<open>apiRequest\<close>); \<open>DisplayPlayer\<close>'s render
    (\<open>screen\<close>, \<open>render_layout\<close>, \<open>content_card\<close>) and \<open>AlertBanner\<close>'s index
    (\<open>banner_tick\<close>, \<open>banner_alert\<close>); the slide rotation and the 30-second
    polling as a timed system (\<open>player_client\<close>: clock, slide index, deadline of the
    pending slide timeout, instant of the next poll). \<open>client_step\<close> runs the
    earliest pending event (a poll first on a tie) with the outcome of the \<open>k\<close>-th
    fetch taken from a parameter, \<open>client_run\<close> iterates it; a fetch is taken to
    complete at the instant it starts.
  \<^item> \<open>Admin_UI\<close>: the dashboard sections of \<open>components/admin/\<close> as functions
    from the lists their hooks fetched and their forms to what they show and to the
    \<open>api_call\<close> each handler sends: \<open>dashboard\<close> and \<open>dashboard_panels_of\<close>
    (\<open>DashboardSection\<close>); the display form, cards, delete and key rotation
    (\<open>display_submit_call\<close>, \<open>display_card_of\<close>, \<open>rotate_key_call\<close> with
    \<open>to_base36\<close>, \<open>player_url\<close>); the content filters, form, row buttons and their
    calls (\<open>filtered_content\<close>, \<open>content_body\<close>, \<open>content_edit_form\<close>,
    \<open>content_buttons\<close>, \<open>content_button_call\<close>); the playlist form and delete; the
    assignment form, cards and toggle; the alert form, buttons and toggle with its
    confirmation. A create body is written over the row of values the database
    supplies (a parameter); confirmation dialogs are a boolean parameter; after a
    successful call the hook refetches (\<open>mutate_refetch\<close>). \<open>content_ui\<close> and
    \<open>alert_ui\<close> are the step relations of one user's session of the content and the
    alerts section (list and database); \<open>content_lifecycle\<close> is the status lifecycle
    the content session refines. The lemma \<open>alert_edit_raises_emergency\<close> shows an
    emergency put on every display by an edit, which the toggle would have asked to
    confirm (\<open>alert_toggle_needs_confirmation\<close>).
  \<^item> \<open>Player_Page\<close>: the player page (\<open>pages/Player.tsx\<close>, \<open>app/player/[displayId]\<close>):
    the route of a URL (\<open>player_route\<close>), \<open>URLSearchParams.get\<close>
    (\<open>search_param_get\<close>) and the page's choice (\<open>player_page\<close>).
  \<^item> \<open>Admin_Shell\<close>: \<open>AdminDashboard\<close>'s choice of screen and section
    (\<open>admin_dashboard\<close>, \<open>section_of\<close>, \<open>section_title\<close>), the sidebar's
    permission filter (\<open>sidebar_items\<close>), the header's alert bell, the login
    screen's validation and demo accounts, the audit table (\<open>audit_section\<close>), and
    the bootstrap script
    \<open>server/src/make-admin.ts\<close> (\<open>make_admin\<close>).
  \<^item> \<open>Js_Values\<close>: the JavaScript values the client stores: numbers as an integer
    or \<open>NaN\<close> (\<open>js_number\<close>), JSON values (\<open>json\<close>, \<open>NaN\<close> written as
    \<open>null\<close> by \<open>JSON.stringify\<close>), \<open>parseInt\<close> (\<open>parse_int\<close>: leading white
    space, sign, the \<open>0x\<close> prefix, the longest digit prefix, \<open>NaN\<close> when there is
    none) and \<open>String(n)\<close> for naturals (\<open>decimal_string\<close>), with the round trip
    \<open>parse_int_decimal\<close>.
  \<^item> \<open>Settings\<close>: \<open>components/admin/SettingsSection.tsx\<close>: the form state
    (record \<open>settings\<close>, \<open>settings_default\<close>), the inputs (\<open>settings_change\<close>),
    \<open>handleSave\<close> (\<open>settings_save\<close> writing \<open>json_of_settings\<close> into local
    storage, a map from keys to JSON values), and a session of the panel as the step
    relation \<open>settings_ui\<close> (input, save, reload). \<open>conforms settings_schema\<close>
    is the shape of a stored settings object.
  \<^item> \<open>Client_Hooks\<close>: \<open>apiRequest\<close> of \<open>lib/api.ts\<close> on the outcome of a fetch
    (\<open>api_request\<close>: the route's JSON, its error message, the status message of an
    answer without a JSON body, or the network failure), \<open>useApiQuery\<close> of
    \<open>hooks/useSignageData.ts\<close> as a state with data, loading flag and error
    (\<open>query_fetch\<close> = \<open>query_start\<close> then \<open>query_finish\<close>), and the fetches of
    \<open>usePlaylistItems\<close> and \<open>useDisplayAssignments\<close>.

  \<^emph>\<open>What is proved.\<close> For the player routes: the items of a valid answer are exactly
  the stable descending-priority sort of the visible contents of the assigned playlist
  in \<open>order_index\<close> order (C1, with C2 for the publication filter and C14 for the
  comparator sort against its contract); rejection writes nothing (C3); a valid call
  writes the liveness timestamp and nothing else (C4, C5), as the heartbeat does (C11);
  the empty and failure branches (C6, C9, C10); alerts are the active ones, newest
  first, windows ignored (C7, C8); repeated calls agree; the answer carries the
  display row as read before the write (C13); the scenario of the specification's
  section 8 evaluates as specified (C15). For playlists: a reorder by a permutation of
  the ids lists the items in that order with indices \<open>0..n-1\<close> (C16) and is all or
  nothing (C17); the editor's move swaps two neighbours (C18); adding content appends
  (C19) but after a deletion from the middle it duplicates an \<open>order_index\<close> (C20).
  For login and audit: registration of an unknown email as a viewer (C21), idempotence
  (C22), the 400 branch and the only possible writes (C23), the audit listing is the
  hundred newest entries (C24). Across the API: unique keys in every reachable
  database (C25, by rule induction on \<open>reachable\<close>), and failed calls write nothing
  but the player route's liveness write (C26). Across the servers and the client:
  every request of the client reaches its handler under Express (C27), while under the
  Next.js files the content, assignment, audit and heartbeat requests find no route
  (C28); the Next.js player route is the Express one (C29). For the
  player client: with slides shorter than the poll interval the rotation reaches every
  slide (C31, a liveness property proved by showing that every armed state reaches the
  next index within two events); a slide of 30 seconds or more is never left, since
  each poll restarts its timeout (C32); a slide timeout keeps the index within the
  list, and only a shrinking poll leaves it past the end (C33); a rejected poll keeps
  the old content on screen (C34, composed with the server's rejection); the emergency
  overlay shows the newest active emergency alert of the database (C35, composed with
  the server's ordering); the banner's index can fall past the end of a shrunk alert
  list (C36). For the dashboard: each step of an editor's session of the content
  section moves each item's status along the lifecycle create, publish (drafts only),
  archive (published only), delete, so an archived item is never republished (C37, a
  refinement proved by rule induction on the session with the invariant that the list
  is the last fetch); saving an item unchanged from the edit form is the identity
  only for items created by the editor with a body, a media URL and a window in
  whole minutes (C38); rotating a key yields a URL that opens the player with the new
  key, which the player service accepts while it rejects the old one (C39, from the
  section through the API to the player page and \<open>authenticate\<close>); a new active
  assignment for a display that has one is stored but never resolved (C40). For the
  settings panel: every session keeps the stored \<open>signage_settings\<close> entry a
  settings object of the expected shape, the numeric fields a number or \<open>null\<close>
  (C12, a type invariant by induction on the session). The digit loop of the key
  rotation's \<open>toString(36)\<close> terminates on every input (C30, the domain of
  \<open>to_base36\<close> by well-founded induction). For the client's data layer: a failed
  fetch keeps the list and sets the error, which no later fetch clears.

  \<^emph>\<open>Modelling choices.\<close> Instants are integers (JavaScript time values); the content
  route reads the clock twice, and its model takes both readings. Ties in a Prisma
  \<open>orderBy\<close> are broken by insertion order, the order the specification asks for;
  the database itself does not promise it. Infrastructure failures of the database
  are not modelled: every Prisma call is total except for the failures its arguments
  cause (missing key, duplicate key, a \<open>null\<close> relation dereferenced by the code).

  The base-36 conversion \<open>to_base36\<close> and the decimal printer \<open>decimal_string\<close>
  terminate by the measure \<open>n\<close> (\<open>n div 36 < n\<close>, \<open>n div 10 < n\<close>); there is no fuel
  anywhere in the client model. JavaScript numbers are exact integers here: the
  rounding of \<open>parseInt\<close> beyond \<open>2^53\<close> is not modelled, nor are the fractional
  numbers no input of the code produces.

  \<^emph>\<open>Not modelled.\<close> Rendering markup and styling; the text of the JSON in local
  storage (a stored value is the JSON value it encodes); \<open>AuthContext\<close> (imported by the sections but not in the repository: whether the
  user may edit and the user's id are parameters); the string format of
  \<open>datetime-local\<close> values and the server's parsing of them (form instants are the
  instants they denote); percent-decoding of URLs; the application shell
  (\<open>app/page.tsx\<close>, \<open>providers.tsx\<close>, \<open>not-found.tsx\<close>, \<open>AppLayout.tsx\<close>), which only
  renders and wires providers.
\<close>

end
